theory Spec2Isabelle
  imports Complex_Main
begin

section \<open>Exceptions\<close>

text \<open>
  Every \<^verbatim>\<open>raise\<close>, failed \<^verbatim>\<open>assert\<close> and run-time check of the tensor library is a value
  of type \<open>error\<close>; a fallible operation returns \<open>error + 'a\<close>. Floating-point numbers
  are idealised as real numbers throughout.
\<close>

datatype error = AssertionError | ZeroDivisionError | ValueError | IndexError | RuntimeError

definition thenE :: "error + 'a \<Rightarrow> ('a \<Rightarrow> error + 'b) \<Rightarrow> error + 'b" where
  "thenE r f = (case r of Inl e \<Rightarrow> Inl e | Inr a \<Rightarrow> f a)"

fun mapE :: "('a \<Rightarrow> error + 'b) \<Rightarrow> 'a list \<Rightarrow> error + 'b list" where
  "mapE f [] = Inr []"
| "mapE f (x # xs) = thenE (f x) (\<lambda>y. thenE (mapE f xs) (\<lambda>ys. Inr (y # ys)))"

definition getitem :: "'a list \<Rightarrow> nat \<Rightarrow> error + 'a" where
  "getitem xs i = (if i < length xs then Inr (xs ! i) else Inl IndexError)"

section \<open>Tensors of the substrate\<close>

text \<open>
  A tensor is its shape together with its elements, read by index. Shapes are part of
  the value, so a dimension of size 0 keeps its neighbours' sizes, as in the library.
\<close>

record itensor2 =
  i0 :: nat
  i1 :: nat
  iat :: "nat \<Rightarrow> nat \<Rightarrow> int"

record tensor2 =
  r0 :: nat
  r1 :: nat
  at2 :: "nat \<Rightarrow> nat \<Rightarrow> real"

record tensor3 =
  d0 :: nat
  d1 :: nat
  d2 :: nat
  at3 :: "nat \<Rightarrow> nat \<Rightarrow> nat \<Rightarrow> real"

record tensor4 =
  e0 :: nat
  e1 :: nat
  e2 :: nat
  e3 :: nat
  at4 :: "nat \<Rightarrow> nat \<Rightarrow> nat \<Rightarrow> nat \<Rightarrow> real"

definition shape3 :: "tensor3 \<Rightarrow> nat \<times> nat \<times> nat" where
  "shape3 t = (d0 t, d1 t, d2 t)"

definition shape4 :: "tensor4 \<Rightarrow> nat \<times> nat \<times> nat \<times> nat" where
  "shape4 t = (e0 t, e1 t, e2 t, e3 t)"

text \<open>Broadcasting of two sizes: equal, or one of them is 1.\<close>

definition bdim :: "nat \<Rightarrow> nat \<Rightarrow> nat option" where
  "bdim a b = (if a = b then Some a else if a = 1 then Some b else if b = 1 then Some a else None)"

text \<open>A size that can be expanded to a target size (in-place operations, assignments).\<close>

definition expands_to :: "nat \<Rightarrow> nat \<Rightarrow> bool" where
  "expands_to a n = (a = n \<or> a = 1)"

text \<open>The index read in a dimension of size \<open>n\<close> under broadcasting.\<close>

definition bidx :: "nat \<Rightarrow> nat \<Rightarrow> nat" where
  "bidx n i = (if n = 1 then 0 else i)"

definition binop3 :: "(real \<Rightarrow> real \<Rightarrow> real) \<Rightarrow> tensor3 \<Rightarrow> tensor3 \<Rightarrow> error + tensor3" where
  "binop3 f a b =
     (case (bdim (d0 a) (d0 b), bdim (d1 a) (d1 b), bdim (d2 a) (d2 b)) of
        (Some n0, Some n1, Some n2) \<Rightarrow>
          Inr \<lparr>d0 = n0, d1 = n1, d2 = n2,
               at3 = (\<lambda>i j k. f (at3 a (bidx (d0 a) i) (bidx (d1 a) j) (bidx (d2 a) k))
                                 (at3 b (bidx (d0 b) i) (bidx (d1 b) j) (bidx (d2 b) k)))\<rparr>
      | _ \<Rightarrow> Inl RuntimeError)"

definition add3 :: "tensor3 \<Rightarrow> tensor3 \<Rightarrow> error + tensor3" where
  "add3 a b = binop3 (+) a b"

definition binop4 :: "(real \<Rightarrow> real \<Rightarrow> real) \<Rightarrow> tensor4 \<Rightarrow> tensor4 \<Rightarrow> error + tensor4" where
  "binop4 f a b =
     (case (bdim (e0 a) (e0 b), bdim (e1 a) (e1 b), bdim (e2 a) (e2 b), bdim (e3 a) (e3 b)) of
        (Some n0, Some n1, Some n2, Some n3) \<Rightarrow>
          Inr \<lparr>e0 = n0, e1 = n1, e2 = n2, e3 = n3,
               at4 = (\<lambda>i j k l.
                 f (at4 a (bidx (e0 a) i) (bidx (e1 a) j) (bidx (e2 a) k) (bidx (e3 a) l))
                   (at4 b (bidx (e0 b) i) (bidx (e1 b) j) (bidx (e2 b) k) (bidx (e3 b) l)))\<rparr>
      | _ \<Rightarrow> Inl RuntimeError)"

definition sub4 :: "tensor4 \<Rightarrow> tensor4 \<Rightarrow> error + tensor4" where
  "sub4 a b = binop4 (-) a b"

text \<open>
  \<^verbatim>\<open>a @ b\<close> on four-dimensional tensors: a matrix product over the last two dimensions,
  the two leading dimensions broadcast.
\<close>

definition matmul4 :: "tensor4 \<Rightarrow> tensor4 \<Rightarrow> error + tensor4" where
  "matmul4 a b =
     (if e3 a \<noteq> e2 b then Inl RuntimeError
      else case (bdim (e0 a) (e0 b), bdim (e1 a) (e1 b)) of
        (Some n0, Some n1) \<Rightarrow>
          Inr \<lparr>e0 = n0, e1 = n1, e2 = e2 a, e3 = e3 b,
               at4 = (\<lambda>i j r c. \<Sum>k<e3 a.
                  at4 a (bidx (e0 a) i) (bidx (e1 a) j) r k
                  * at4 b (bidx (e0 b) i) (bidx (e1 b) j) k c)\<rparr>
      | _ \<Rightarrow> Inl RuntimeError)"

text \<open>\<^verbatim>\<open>t.transpose(1, 2)\<close> and \<^verbatim>\<open>t.transpose(-2, -1)\<close>.\<close>

definition transpose_1_2 :: "tensor4 \<Rightarrow> tensor4" where
  "transpose_1_2 t = \<lparr>e0 = e0 t, e1 = e2 t, e2 = e1 t, e3 = e3 t,
                      at4 = (\<lambda>i j k l. at4 t i k j l)\<rparr>"

definition transpose_2_3 :: "tensor4 \<Rightarrow> tensor4" where
  "transpose_2_3 t = \<lparr>e0 = e0 t, e1 = e1 t, e2 = e3 t, e3 = e2 t,
                      at4 = (\<lambda>i j k l. at4 t i j l k)\<rparr>"

text \<open>
  \<^verbatim>\<open>t.contiguous().view(t.shape[0], -1, h, d_k)\<close>: the elements in row-major order under
  a new shape whose second size is inferred. The library refuses a negative size, a
  product of the given sizes that is 0 (the inferred size would be ambiguous or the
  shape invalid) and a number of elements the given sizes do not divide.
\<close>

definition view_3_to_4 :: "tensor3 \<Rightarrow> int \<Rightarrow> int \<Rightarrow> error + tensor4" where
  "view_3_to_4 t h d_k =
     (if h < 0 \<or> d_k < 0 then Inl RuntimeError
      else let numel = d0 t * d1 t * d2 t; known = d0 t * nat h * nat d_k in
        if known = 0 \<or> numel mod known \<noteq> 0 then Inl RuntimeError
        else let n1 = numel div known in
          Inr \<lparr>e0 = d0 t, e1 = n1, e2 = nat h, e3 = nat d_k,
               at4 = (\<lambda>i j k l.
                  let f = ((i * n1 + j) * nat h + k) * nat d_k + l
                  in at3 t (f div (d1 t * d2 t)) (f div d2 t mod d1 t) (f mod d2 t))\<rparr>)"

text \<open>\<^verbatim>\<open>t.contiguous().view(t.shape[0], -1, n)\<close> on a four-dimensional tensor.\<close>

definition view_4_to_3 :: "tensor4 \<Rightarrow> int \<Rightarrow> error + tensor3" where
  "view_4_to_3 t n =
     (if n < 0 then Inl RuntimeError
      else let numel = e0 t * e1 t * e2 t * e3 t; known = e0 t * nat n in
        if known = 0 \<or> numel mod known \<noteq> 0 then Inl RuntimeError
        else let n1 = numel div known in
          Inr \<lparr>d0 = e0 t, d1 = n1, d2 = nat n,
               at3 = (\<lambda>i j k.
                  let f = (i * n1 + j) * nat n + k
                  in at4 t (f div (e1 t * e2 t * e3 t)) (f div (e2 t * e3 t) mod e1 t)
                           (f div e3 t mod e2 t) (f mod e3 t))\<rparr>)"

text \<open>
  \<^verbatim>\<open>t.masked_fill_(mask == 0, v)\<close>: in place, so the mask must expand to the shape of
  \<open>t\<close>. A mask of lower rank is read with leading sizes 1.
\<close>

definition masked_fill_inplace :: "tensor4 \<Rightarrow> tensor4 \<Rightarrow> real \<Rightarrow> error + tensor4" where
  "masked_fill_inplace t msk v =
     (if expands_to (e0 msk) (e0 t) \<and> expands_to (e1 msk) (e1 t)
         \<and> expands_to (e2 msk) (e2 t) \<and> expands_to (e3 msk) (e3 t)
      then Inr (t\<lparr>at4 := (\<lambda>i j k l.
              if at4 msk (bidx (e0 msk) i) (bidx (e1 msk) j) (bidx (e2 msk) k) (bidx (e3 msk) l) = 0
              then v else at4 t i j k l)\<rparr>)
      else Inl RuntimeError)"

text \<open>\<^verbatim>\<open>t.softmax(dim = -1)\<close> and \<^verbatim>\<open>torch.log_softmax(t, dim = -1)\<close>.\<close>

definition softmax4 :: "tensor4 \<Rightarrow> tensor4" where
  "softmax4 t = t\<lparr>at4 := (\<lambda>i j k l. exp (at4 t i j k l) / (\<Sum>m<e3 t. exp (at4 t i j k m)))\<rparr>"

definition log_softmax3 :: "tensor3 \<Rightarrow> tensor3" where
  "log_softmax3 t = t\<lparr>at3 := (\<lambda>i j k. at3 t i j k - ln (\<Sum>m<d2 t. exp (at3 t i j m)))\<rparr>"

definition relu3 :: "tensor3 \<Rightarrow> tensor3" where
  "relu3 t = t\<lparr>at3 := (\<lambda>i j k. max 0 (at3 t i j k))\<rparr>"

subsection \<open>Library modules: Linear, Embedding, Dropout\<close>

text \<open>
  The library fills a new parameter tensor with pseudo-random values. The values are an
  argument of the constructors: a generator \<open>g\<close> gives, for the path of a parameter tensor
  in the module tree, the tensor's entries. \<open>sub k g\<close> is the generator of the \<open>k\<close>-th
  child. The same device hands the Bernoulli draws to the dropout modules during a
  forward call.

  The library raises when it cannot size or allocate a tensor: a negative size, a size
  that overflows, memory that is exhausted. Whether a tensor of non-negative sizes can
  be created depends on the machine and on what has been allocated before, not on the
  program; it is an argument of the constructors as well: an allocator \<open>mem\<close> says, for
  the path of a tensor in the module tree and for its shape, whether the library
  creates the tensor. \<open>created mem ss\<close> asks for tensors of the shapes \<open>ss\<close>, one after
  the other.
\<close>

type_synonym init = "nat list \<Rightarrow> nat \<Rightarrow> nat \<Rightarrow> real"
type_synonym allocator = "nat list \<Rightarrow> nat list \<Rightarrow> bool"
type_synonym rng = "nat list \<Rightarrow> nat list \<Rightarrow> bool"

definition sub :: "nat \<Rightarrow> (nat list \<Rightarrow> 'a) \<Rightarrow> (nat list \<Rightarrow> 'a)" where
  "sub k g = (\<lambda>p. g (k # p))"

definition created :: "allocator \<Rightarrow> nat list list \<Rightarrow> error + unit" where
  "created mem ss =
     (if list_all (\<lambda>i. mem [i] (ss ! i)) [0..<length ss] then Inr () else Inl RuntimeError)"

text \<open>
  \<^verbatim>\<open>nn.Linear(n_in, n_out)\<close> creates the weight of shape \<open>(n_out, n_in)\<close> and the bias of
  shape \<open>(n_out)\<close>, \<^verbatim>\<open>nn.Embedding(n, m)\<close> the weight of shape \<open>(n, m)\<close>; the values are
  written in place.
\<close>

record Linear =
  in_features :: nat
  out_features :: nat
  weight :: "nat \<Rightarrow> nat \<Rightarrow> real"
  bias :: "nat \<Rightarrow> real"

definition nn_Linear :: "allocator \<Rightarrow> init \<Rightarrow> int \<Rightarrow> int \<Rightarrow> error + Linear" where
  "nn_Linear mem g n_in n_out =
     (if n_in < 0 \<or> n_out < 0 then Inl RuntimeError
      else thenE (created mem [[nat n_out, nat n_in], [nat n_out]]) (\<lambda>_.
           Inr \<lparr>in_features = nat n_in, out_features = nat n_out,
                weight = g [0], bias = g [1] 0\<rparr>))"

definition Linear_forward :: "Linear \<Rightarrow> tensor3 \<Rightarrow> error + tensor3" where
  "Linear_forward l x =
     (if d2 x \<noteq> in_features l then Inl RuntimeError
      else Inr \<lparr>d0 = d0 x, d1 = d1 x, d2 = out_features l,
                at3 = (\<lambda>i j k. (\<Sum>m<in_features l. at3 x i j m * weight l k m) + bias l k)\<rparr>)"

record Embedding =
  num_embeddings :: nat
  embedding_dim :: nat
  emb_weight :: "nat \<Rightarrow> nat \<Rightarrow> real"

definition nn_Embedding :: "allocator \<Rightarrow> init \<Rightarrow> int \<Rightarrow> int \<Rightarrow> error + Embedding" where
  "nn_Embedding mem g n m =
     (if n < 0 \<or> m < 0 then Inl RuntimeError
      else thenE (created mem [[nat n, nat m]]) (\<lambda>_.
           Inr \<lparr>num_embeddings = nat n, embedding_dim = nat m, emb_weight = g [0]\<rparr>))"

definition Embedding_forward :: "Embedding \<Rightarrow> itensor2 \<Rightarrow> error + tensor3" where
  "Embedding_forward e x =
     (if list_all (\<lambda>i. list_all (\<lambda>j. 0 \<le> iat x i j \<and> iat x i j < int (num_embeddings e))
                     [0..<i1 x]) [0..<i0 x]
      then Inr \<lparr>d0 = i0 x, d1 = i1 x, d2 = embedding_dim e,
                at3 = (\<lambda>i j k. emb_weight e (nat (iat x i j)) k)\<rparr>
      else Inl IndexError)"

record Dropout =
  p :: real
  training :: bool

definition nn_Dropout :: "real \<Rightarrow> error + Dropout" where
  "nn_Dropout q = (if q < 0 \<or> q > 1 then Inl ValueError else Inr \<lparr>p = q, training = True\<rparr>)"

text \<open>
  In training mode an element is kept with probability \<open>1 - p\<close> and scaled by
  \<open>1 / (1 - p)\<close>, or zeroed; in evaluation mode dropout is the identity.
\<close>

definition Dropout_forward3 :: "Dropout \<Rightarrow> rng \<Rightarrow> tensor3 \<Rightarrow> tensor3" where
  "Dropout_forward3 d \<rho> x =
     (if training d
      then x\<lparr>at3 := (\<lambda>i j k. if p d \<noteq> 1 \<and> \<rho> [] [i, j, k] then at3 x i j k / (1 - p d) else 0)\<rparr>
      else x)"

definition Dropout_forward4 :: "Dropout \<Rightarrow> rng \<Rightarrow> tensor4 \<Rightarrow> tensor4" where
  "Dropout_forward4 d \<rho> x =
     (if training d
      then x\<lparr>at4 := (\<lambda>i j k l. if p d \<noteq> 1 \<and> \<rho> [] [i, j, k, l] then at4 x i j k l / (1 - p d) else 0)\<rparr>
      else x)"

section \<open>The modules of \<^verbatim>\<open>model.py\<close> and their constructors\<close>

record InputEmbedding =
  ie_d_model :: int
  ie_vocab_size :: int
  embedding :: Embedding

definition InputEmbedding_init ::
    "allocator \<Rightarrow> init \<Rightarrow> int \<Rightarrow> int \<Rightarrow> error + InputEmbedding" where
  "InputEmbedding_init mem g d_model vocab_size =
     thenE (nn_Embedding (sub 0 mem) (sub 0 g) vocab_size d_model) (\<lambda>e.
     Inr \<lparr>ie_d_model = d_model, ie_vocab_size = vocab_size, embedding = e\<rparr>)"

record PositionalEncoding =
  pe_d_model :: int
  pe_seq_len :: int
  pe_dropout :: Dropout
  pe :: tensor3

text \<open>
  \<^verbatim>\<open>torch.zeros(n, m)\<close>; the library refuses a negative size and a tensor it cannot
  allocate.
\<close>

definition torch_zeros :: "allocator \<Rightarrow> int \<Rightarrow> int \<Rightarrow> error + tensor2" where
  "torch_zeros mem n m =
     (if n < 0 \<or> m < 0 then Inl RuntimeError
      else thenE (created mem [[nat n, nat m]]) (\<lambda>_.
           Inr \<lparr>r0 = nat n, r1 = nat m, at2 = (\<lambda>i j. 0)\<rparr>))"

text \<open>
  \<^verbatim>\<open>torch.exp(torch.arange(0, d_model, 2).float() * (-math.log(10000.0) / d_model))\<close>:
  a vector of \<open>\<lceil>d_model / 2\<rceil>\<close> entries (a row of a \<open>tensor2\<close>). The left factor is
  evaluated first (the range and its conversion), then Python's division, which raises
  on \<open>d_model = 0\<close>, then the product and its exponential.
\<close>

definition div_term :: "allocator \<Rightarrow> int \<Rightarrow> error + tensor2" where
  "div_term mem d_model =
     (let c = nat ((d_model + 1) div 2) in
      thenE (created (sub 0 mem) [[c], [c]]) (\<lambda>_.
      if d_model = 0 then Inl ZeroDivisionError
      else thenE (created (sub 1 mem) [[c], [c]]) (\<lambda>_.
           Inr \<lparr>r0 = 1, r1 = c,
                at2 = (\<lambda>i k. exp (real (2 * k) * (- ln 10000 / real_of_int d_model)))\<rparr>)))"

text \<open>\<^verbatim>\<open>position * div_term\<close> with \<open>position\<close> the column \<open>0, 1, ..., seq_len - 1\<close>.\<close>

definition position_times :: "nat \<Rightarrow> tensor2 \<Rightarrow> tensor2" where
  "position_times seq_len dt =
     \<lparr>r0 = seq_len, r1 = r1 dt, at2 = (\<lambda>i k. real i * at2 dt 0 k)\<rparr>"

definition map2d :: "(real \<Rightarrow> real) \<Rightarrow> tensor2 \<Rightarrow> tensor2" where
  "map2d f t = t\<lparr>at2 := (\<lambda>i k. f (at2 t i k))\<rparr>"

text \<open>
  \<^verbatim>\<open>pe[:, start::2] = src\<close>: the columns \<open>start, start + 2, ...\<close> of \<open>pe\<close> are overwritten;
  \<open>src\<close> must expand to the shape of the selected columns.
\<close>

definition setitem_cols_step2 :: "nat \<Rightarrow> tensor2 \<Rightarrow> tensor2 \<Rightarrow> error + tensor2" where
  "setitem_cols_step2 start t src =
     (if expands_to (r0 src) (r0 t) \<and> expands_to (r1 src) ((r1 t + 1 - start) div 2)
      then Inr (t\<lparr>at2 := (\<lambda>i j. if start \<le> j \<and> even (j - start)
                                 then at2 src (bidx (r0 src) i) (bidx (r1 src) ((j - start) div 2))
                                 else at2 t i j)\<rparr>)
      else Inl RuntimeError)"

definition unsqueeze0 :: "tensor2 \<Rightarrow> tensor3" where
  "unsqueeze0 t = \<lparr>d0 = 1, d1 = r0 t, d2 = r1 t, at3 = (\<lambda>i j k. at2 t j k)\<rparr>"

text \<open>
  The constructor creates, after the table of zeros, the column \<open>position\<close>, the vector
  \<open>div_term\<close> and, for the sines and again for the cosines, the product
  \<^verbatim>\<open>position * div_term\<close> and the result of the function.
\<close>

definition PositionalEncoding_init ::
    "allocator \<Rightarrow> int \<Rightarrow> int \<Rightarrow> real \<Rightarrow> error + PositionalEncoding" where
  "PositionalEncoding_init mem d_model seq_len dropout =
     thenE (nn_Dropout dropout) (\<lambda>dp.
     thenE (torch_zeros (sub 0 mem) seq_len d_model) (\<lambda>pe0.
     thenE (created (sub 1 mem) [[nat seq_len]]) (\<lambda>_.
     thenE (div_term (sub 2 mem) d_model) (\<lambda>dt.
     thenE (created (sub 3 mem) [[nat seq_len, r1 dt], [nat seq_len, r1 dt]]) (\<lambda>_.
     thenE (setitem_cols_step2 0 pe0 (map2d sin (position_times (nat seq_len) dt))) (\<lambda>pe1.
     thenE (created (sub 4 mem) [[nat seq_len, r1 dt], [nat seq_len, r1 dt]]) (\<lambda>_.
     thenE (setitem_cols_step2 1 pe1 (map2d cos (position_times (nat seq_len) dt))) (\<lambda>pe2.
     Inr \<lparr>pe_d_model = d_model, pe_seq_len = seq_len, pe_dropout = dp,
          pe = unsqueeze0 pe2\<rparr>))))))))"

record LayerNormalization =
  eps :: real
  alpha :: real
  ln_bias :: real

text \<open>\<^verbatim>\<open>alpha\<close> and \<^verbatim>\<open>bias\<close> are tensors of one element, \<^verbatim>\<open>torch.ones(1)\<close> and \<^verbatim>\<open>torch.zeros(1)\<close>.\<close>

definition LayerNormalization_init :: "allocator \<Rightarrow> real \<Rightarrow> error + LayerNormalization" where
  "LayerNormalization_init mem e =
     thenE (created mem [[1], [1]]) (\<lambda>_. Inr \<lparr>eps = e, alpha = 1, ln_bias = 0\<rparr>)"

text \<open>The default \<^verbatim>\<open>eps = 10**-6\<close>.\<close>

definition default_eps :: real where
  "default_eps = 1 / 1000000"

record FeedForwardBlock =
  linear_1 :: Linear
  ff_dropout :: Dropout
  linear_2 :: Linear

definition FeedForwardBlock_init ::
    "allocator \<Rightarrow> init \<Rightarrow> int \<Rightarrow> int \<Rightarrow> real \<Rightarrow> error + FeedForwardBlock" where
  "FeedForwardBlock_init mem g d_model d_ff dropout =
     thenE (nn_Linear (sub 0 mem) (sub 0 g) d_model d_ff) (\<lambda>l1.
     thenE (nn_Dropout dropout) (\<lambda>dp.
     thenE (nn_Linear (sub 1 mem) (sub 1 g) d_ff d_model) (\<lambda>l2.
     Inr \<lparr>linear_1 = l1, ff_dropout = dp, linear_2 = l2\<rparr>)))"

record MultiHeadAttentionBlock =
  mha_d_model :: int
  h :: int
  d_k :: int
  w_q :: Linear
  w_k :: Linear
  w_v :: Linear
  w_o :: Linear
  mha_dropout :: Dropout
  attention_scores :: "tensor4 option"

text \<open>
  The assertion \<^verbatim>\<open>d_model % h == 0\<close>: Python's \<^verbatim>\<open>%\<close> raises on a zero divisor and
  otherwise agrees with \<open>mod\<close> on \<open>int\<close> (the sign of the divisor). The attribute
  \<open>attention_scores\<close> does not exist until the first forward call.
\<close>

definition MultiHeadAttentionBlock_init ::
    "allocator \<Rightarrow> init \<Rightarrow> int \<Rightarrow> int \<Rightarrow> real \<Rightarrow> error + MultiHeadAttentionBlock" where
  "MultiHeadAttentionBlock_init mem g d_model n_heads dropout =
     (if n_heads = 0 then Inl ZeroDivisionError
      else if d_model mod n_heads \<noteq> 0 then Inl AssertionError
      else
        thenE (nn_Linear (sub 0 mem) (sub 0 g) d_model d_model) (\<lambda>wq.
        thenE (nn_Linear (sub 1 mem) (sub 1 g) d_model d_model) (\<lambda>wk.
        thenE (nn_Linear (sub 2 mem) (sub 2 g) d_model d_model) (\<lambda>wv.
        thenE (nn_Linear (sub 3 mem) (sub 3 g) d_model d_model) (\<lambda>wo.
        thenE (nn_Dropout dropout) (\<lambda>dp.
        Inr \<lparr>mha_d_model = d_model, h = n_heads, d_k = d_model div n_heads,
             w_q = wq, w_k = wk, w_v = wv, w_o = wo, mha_dropout = dp,
             attention_scores = None\<rparr>))))))"

record ResidualConnection =
  rc_dropout :: Dropout
  rc_norm :: LayerNormalization

definition ResidualConnection_init :: "allocator \<Rightarrow> real \<Rightarrow> error + ResidualConnection" where
  "ResidualConnection_init mem dropout =
     thenE (nn_Dropout dropout) (\<lambda>dp.
     thenE (LayerNormalization_init (sub 0 mem) default_eps) (\<lambda>nm.
     Inr \<lparr>rc_dropout = dp, rc_norm = nm\<rparr>))"

record EncoderBlock =
  eb_self_attention_block :: MultiHeadAttentionBlock
  eb_feed_forward_block :: FeedForwardBlock
  residual_connections :: "ResidualConnection list"

definition EncoderBlock_init ::
    "allocator \<Rightarrow> MultiHeadAttentionBlock \<Rightarrow> FeedForwardBlock \<Rightarrow> real
      \<Rightarrow> error + EncoderBlock" where
  "EncoderBlock_init mem sab ffb dropout =
     thenE (mapE (\<lambda>i. ResidualConnection_init (sub i mem) dropout) [0..<2]) (\<lambda>rcs.
     Inr \<lparr>eb_self_attention_block = sab, eb_feed_forward_block = ffb,
          residual_connections = rcs\<rparr>)"

record Encoder =
  enc_layers :: "EncoderBlock list"
  enc_norm :: LayerNormalization

definition Encoder_init :: "allocator \<Rightarrow> EncoderBlock list \<Rightarrow> error + Encoder" where
  "Encoder_init mem ls =
     thenE (LayerNormalization_init (sub 0 mem) default_eps) (\<lambda>nm.
     Inr \<lparr>enc_layers = ls, enc_norm = nm\<rparr>)"

record DecoderBlock =
  db_self_attention_block :: MultiHeadAttentionBlock
  db_cross_attention_block :: MultiHeadAttentionBlock
  db_feed_forward_block :: FeedForwardBlock
  residual_connection :: "ResidualConnection list"

definition DecoderBlock_init ::
    "allocator \<Rightarrow> MultiHeadAttentionBlock \<Rightarrow> MultiHeadAttentionBlock \<Rightarrow> FeedForwardBlock \<Rightarrow> real
      \<Rightarrow> error + DecoderBlock" where
  "DecoderBlock_init mem sab cab ffb dropout =
     thenE (mapE (\<lambda>i. ResidualConnection_init (sub i mem) dropout) [0..<3]) (\<lambda>rcs.
     Inr \<lparr>db_self_attention_block = sab, db_cross_attention_block = cab,
          db_feed_forward_block = ffb, residual_connection = rcs\<rparr>)"

record Decoder =
  dec_layers :: "DecoderBlock list"
  dec_norm :: LayerNormalization

definition Decoder_init :: "allocator \<Rightarrow> DecoderBlock list \<Rightarrow> error + Decoder" where
  "Decoder_init mem ls =
     thenE (LayerNormalization_init (sub 0 mem) default_eps) (\<lambda>nm.
     Inr \<lparr>dec_layers = ls, dec_norm = nm\<rparr>)"

record ProjectionLayer =
  proj :: Linear

definition ProjectionLayer_init ::
    "allocator \<Rightarrow> init \<Rightarrow> int \<Rightarrow> int \<Rightarrow> error + ProjectionLayer" where
  "ProjectionLayer_init mem g d_model vocab_size =
     thenE (nn_Linear (sub 0 mem) (sub 0 g) d_model vocab_size) (\<lambda>l. Inr \<lparr>proj = l\<rparr>)"

record Transformer =
  encoder :: Encoder
  decoder :: Decoder
  src_embed :: InputEmbedding
  tgt_embed :: InputEmbedding
  src_pos :: PositionalEncoding
  tgt_pos :: PositionalEncoding
  projection_layer :: ProjectionLayer

text \<open>
  \<^verbatim>\<open>build_transformer\<close>. \<^verbatim>\<open>range(N)\<close> is empty for \<open>N \<le> 0\<close>. The closing loop that
  re-initialises every parameter matrix writes new pseudo-random values and raises
  nothing; the generator \<open>g\<close> stands for the values the parameters hold when the
  function returns.
\<close>

definition build_encoder_block ::
    "allocator \<Rightarrow> init \<Rightarrow> int \<Rightarrow> int \<Rightarrow> real \<Rightarrow> int \<Rightarrow> error + EncoderBlock" where
  "build_encoder_block mem g d_model n_heads dropout d_ff =
     thenE (MultiHeadAttentionBlock_init (sub 0 mem) (sub 0 g) d_model n_heads dropout) (\<lambda>sab.
     thenE (FeedForwardBlock_init (sub 1 mem) (sub 1 g) d_model d_ff dropout) (\<lambda>ffb.
     EncoderBlock_init (sub 2 mem) sab ffb dropout))"

definition build_decoder_block ::
    "allocator \<Rightarrow> init \<Rightarrow> int \<Rightarrow> int \<Rightarrow> real \<Rightarrow> int \<Rightarrow> error + DecoderBlock" where
  "build_decoder_block mem g d_model n_heads dropout d_ff =
     thenE (MultiHeadAttentionBlock_init (sub 0 mem) (sub 0 g) d_model n_heads dropout) (\<lambda>sab.
     thenE (MultiHeadAttentionBlock_init (sub 1 mem) (sub 1 g) d_model n_heads dropout) (\<lambda>cab.
     thenE (FeedForwardBlock_init (sub 2 mem) (sub 2 g) d_model d_ff dropout) (\<lambda>ffb.
     DecoderBlock_init (sub 3 mem) sab cab ffb dropout)))"

definition build_transformer ::
    "allocator \<Rightarrow> init \<Rightarrow> int \<Rightarrow> int \<Rightarrow> int \<Rightarrow> int \<Rightarrow> int \<Rightarrow> int \<Rightarrow> int \<Rightarrow> real \<Rightarrow> int
      \<Rightarrow> error + Transformer" where
  "build_transformer mem g src_vocab_size tgt_vocab_size src_seq_len tgt_seq_len d_model N n_heads
       dropout d_ff =
     thenE (InputEmbedding_init (sub 0 mem) (sub 0 g) d_model src_vocab_size) (\<lambda>se.
     thenE (InputEmbedding_init (sub 1 mem) (sub 1 g) d_model tgt_vocab_size) (\<lambda>te.
     thenE (PositionalEncoding_init (sub 5 mem) d_model src_seq_len dropout) (\<lambda>sp.
     thenE (PositionalEncoding_init (sub 6 mem) d_model tgt_seq_len dropout) (\<lambda>tp.
     thenE (mapE (\<lambda>i. build_encoder_block (sub i (sub 2 mem)) (sub i (sub 2 g)) d_model n_heads
                        dropout d_ff)
              [0..<nat N]) (\<lambda>encoder_blocks.
     thenE (mapE (\<lambda>i. build_decoder_block (sub i (sub 3 mem)) (sub i (sub 3 g)) d_model n_heads
                        dropout d_ff)
              [0..<nat N]) (\<lambda>decoder_blocks.
     thenE (Encoder_init (sub 7 mem) encoder_blocks) (\<lambda>enc.
     thenE (Decoder_init (sub 8 mem) decoder_blocks) (\<lambda>dec.
     thenE (ProjectionLayer_init (sub 4 mem) (sub 4 g) d_model tgt_vocab_size) (\<lambda>pl.
     Inr \<lparr>encoder = enc, decoder = dec,
          src_embed = se, tgt_embed = te, src_pos = sp, tgt_pos = tp,
          projection_layer = pl\<rparr>)))))))))"

section \<open>Forward computation\<close>

text \<open>
  A forward call returns the output tensor and the module as the call leaves it: the
  only assignment to \<^verbatim>\<open>self\<close> in a forward method is
  \<^verbatim>\<open>self.attention_scores = ...\<close> in \<^verbatim>\<open>MultiHeadAttentionBlock.forward\<close>. The argument
  \<open>\<rho>\<close> carries the random draws of the dropout modules for this call.
\<close>

definition InputEmbedding_forward :: "InputEmbedding \<Rightarrow> itensor2 \<Rightarrow> error + tensor3" where
  "InputEmbedding_forward self x =
     thenE (Embedding_forward (embedding self) x) (\<lambda>e.
     if ie_d_model self < 0 then Inl ValueError
     else Inr (e\<lparr>at3 := (\<lambda>i j k. at3 e i j k * sqrt (real_of_int (ie_d_model self)))\<rparr>))"

text \<open>\<^verbatim>\<open>t[:, :n, :]\<close>: a slice never raises; it stops at the end of the dimension.\<close>

definition slice_dim1 :: "tensor3 \<Rightarrow> nat \<Rightarrow> tensor3" where
  "slice_dim1 t n = t\<lparr>d1 := min n (d1 t)\<rparr>"

definition PositionalEncoding_forward ::
    "PositionalEncoding \<Rightarrow> rng \<Rightarrow> tensor3 \<Rightarrow> error + tensor3" where
  "PositionalEncoding_forward self \<rho> x =
     thenE (add3 x (slice_dim1 (pe self) (d1 x))) (\<lambda>x.
     Inr (Dropout_forward3 (pe_dropout self) \<rho> x))"

text \<open>
  \<^verbatim>\<open>x.mean(dim = -1, keepdim = True)\<close> and \<^verbatim>\<open>x.std(dim = -1, keepdim = True)\<close>; the
  library's standard deviation is the sample one (divisor \<open>n - 1\<close>).
\<close>

definition mean_last :: "tensor3 \<Rightarrow> nat \<Rightarrow> nat \<Rightarrow> real" where
  "mean_last x i j = (\<Sum>k<d2 x. at3 x i j k) / real (d2 x)"

definition std_last :: "tensor3 \<Rightarrow> nat \<Rightarrow> nat \<Rightarrow> real" where
  "std_last x i j = sqrt ((\<Sum>k<d2 x. (at3 x i j k - mean_last x i j)\<^sup>2) / (real (d2 x) - 1))"

definition LayerNormalization_forward :: "LayerNormalization \<Rightarrow> tensor3 \<Rightarrow> tensor3" where
  "LayerNormalization_forward self x =
     x\<lparr>at3 := (\<lambda>i j k. alpha self * (at3 x i j k - mean_last x i j) / (std_last x i j + eps self)
                        + ln_bias self)\<rparr>"

definition FeedForwardBlock_forward ::
    "FeedForwardBlock \<Rightarrow> rng \<Rightarrow> tensor3 \<Rightarrow> error + tensor3" where
  "FeedForwardBlock_forward self \<rho> x =
     thenE (Linear_forward (linear_1 self) x) (\<lambda>a.
     Linear_forward (linear_2 self) (Dropout_forward3 (ff_dropout self) \<rho> (relu3 a)))"

text \<open>
  The static method \<^verbatim>\<open>attention\<close>. The statement
  \<^verbatim>\<open>attention_scores - dropout(attention_scores)\<close> is evaluated and its value dropped.
\<close>

definition attention ::
    "tensor4 \<Rightarrow> tensor4 \<Rightarrow> tensor4 \<Rightarrow> tensor4 option \<Rightarrow> Dropout option \<Rightarrow> rng
      \<Rightarrow> error + (tensor4 \<times> tensor4)" where
  "attention query key val msk dropout \<rho> =
     thenE (matmul4 query (transpose_2_3 key)) (\<lambda>qk.
     thenE (Inr (qk\<lparr>at4 := (\<lambda>i j k l. at4 qk i j k l / sqrt (real (e3 query)))\<rparr>)) (\<lambda>scores.
     thenE (case msk of None \<Rightarrow> Inr scores
            | Some m \<Rightarrow> masked_fill_inplace scores m (- 1000000000)) (\<lambda>scores.
     thenE (Inr (softmax4 scores)) (\<lambda>scores.
     thenE (case dropout of None \<Rightarrow> Inr None
            | Some d \<Rightarrow> thenE (sub4 scores (Dropout_forward4 d \<rho> scores)) (\<lambda>r. Inr (Some r)))
       (\<lambda>dropped.
     thenE (matmul4 scores val) (\<lambda>x.
     Inr (x, scores)))))))"

definition MultiHeadAttentionBlock_forward ::
    "MultiHeadAttentionBlock \<Rightarrow> rng \<Rightarrow> tensor3 \<Rightarrow> tensor3 \<Rightarrow> tensor3 \<Rightarrow> tensor4 option
      \<Rightarrow> error + (tensor3 \<times> MultiHeadAttentionBlock)" where
  "MultiHeadAttentionBlock_forward self \<rho> q k v msk =
     thenE (Linear_forward (w_q self) q) (\<lambda>query.
     thenE (Linear_forward (w_k self) k) (\<lambda>key.
     thenE (Linear_forward (w_v self) v) (\<lambda>val.
     thenE (view_3_to_4 query (h self) (d_k self)) (\<lambda>query.
     thenE (view_3_to_4 key (h self) (d_k self)) (\<lambda>key.
     thenE (view_3_to_4 val (h self) (d_k self)) (\<lambda>val.
     thenE (attention (transpose_1_2 query) (transpose_1_2 key) (transpose_1_2 val) msk
              (Some (mha_dropout self)) \<rho>) (\<lambda>(x, scores).
     thenE (view_4_to_3 (transpose_1_2 x) (h self * d_k self)) (\<lambda>x.
     thenE (Linear_forward (w_o self) x) (\<lambda>y.
     Inr (y, self\<lparr>attention_scores := Some scores\<rparr>))))))))))"

text \<open>
  \<^verbatim>\<open>ResidualConnection.forward\<close>. The sublayer is a closure over a module of the
  enclosing block; it returns its output with that module as the call leaves it.
\<close>

definition ResidualConnection_forward ::
    "ResidualConnection \<Rightarrow> rng \<Rightarrow> tensor3 \<Rightarrow> (tensor3 \<Rightarrow> error + (tensor3 \<times> 's))
      \<Rightarrow> error + (tensor3 \<times> 's)" where
  "ResidualConnection_forward self \<rho> x sublayer =
     thenE (sublayer (LayerNormalization_forward (rc_norm self) x)) (\<lambda>(y, s).
     thenE (add3 x (Dropout_forward3 (rc_dropout self) \<rho> y)) (\<lambda>z.
     Inr (z, s)))"

definition EncoderBlock_forward ::
    "EncoderBlock \<Rightarrow> rng \<Rightarrow> tensor3 \<Rightarrow> tensor4 option \<Rightarrow> error + (tensor3 \<times> EncoderBlock)" where
  "EncoderBlock_forward self \<rho> x src_mask =
     thenE (getitem (residual_connections self) 0) (\<lambda>rc0.
     thenE (ResidualConnection_forward rc0 (sub 0 \<rho>) x
              (\<lambda>x. MultiHeadAttentionBlock_forward (eb_self_attention_block self) (sub 1 \<rho>)
                      x x x src_mask)) (\<lambda>(x, sab).
     thenE (getitem (residual_connections self) 1) (\<lambda>rc1.
     thenE (ResidualConnection_forward rc1 (sub 2 \<rho>) x
              (\<lambda>x. thenE (FeedForwardBlock_forward (eb_feed_forward_block self) (sub 3 \<rho>) x)
                      (\<lambda>y. Inr (y, ())))) (\<lambda>(x, u).
     Inr (x, self\<lparr>eb_self_attention_block := sab\<rparr>)))))"

text \<open>The loop \<^verbatim>\<open>for layer in self.layers\<close>; \<open>n\<close> counts the layers done.\<close>

fun Encoder_loop ::
    "EncoderBlock list \<Rightarrow> rng \<Rightarrow> nat \<Rightarrow> tensor3 \<Rightarrow> tensor4 option
      \<Rightarrow> error + (tensor3 \<times> EncoderBlock list)" where
  "Encoder_loop [] \<rho> n x msk = Inr (x, [])"
| "Encoder_loop (layer # layers) \<rho> n x msk =
     thenE (EncoderBlock_forward layer (sub n \<rho>) x msk) (\<lambda>(x, layer').
     thenE (Encoder_loop layers \<rho> (Suc n) x msk) (\<lambda>(x, layers').
     Inr (x, layer' # layers')))"

definition Encoder_forward ::
    "Encoder \<Rightarrow> rng \<Rightarrow> tensor3 \<Rightarrow> tensor4 option \<Rightarrow> error + (tensor3 \<times> Encoder)" where
  "Encoder_forward self \<rho> x msk =
     thenE (Encoder_loop (enc_layers self) \<rho> 0 x msk) (\<lambda>(x, layers').
     Inr (LayerNormalization_forward (enc_norm self) x, self\<lparr>enc_layers := layers'\<rparr>))"

definition DecoderBlock_forward ::
    "DecoderBlock \<Rightarrow> rng \<Rightarrow> tensor3 \<Rightarrow> tensor3 \<Rightarrow> tensor4 option \<Rightarrow> tensor4 option
      \<Rightarrow> error + (tensor3 \<times> DecoderBlock)" where
  "DecoderBlock_forward self \<rho> x encoder_output src_mask tgt_mask =
     thenE (getitem (residual_connection self) 0) (\<lambda>rc0.
     thenE (ResidualConnection_forward rc0 (sub 0 \<rho>) x
              (\<lambda>x. MultiHeadAttentionBlock_forward (db_self_attention_block self) (sub 1 \<rho>)
                      x x x tgt_mask)) (\<lambda>(x, sab).
     thenE (getitem (residual_connection self) 1) (\<lambda>rc1.
     thenE (ResidualConnection_forward rc1 (sub 2 \<rho>) x
              (\<lambda>x. MultiHeadAttentionBlock_forward (db_cross_attention_block self) (sub 3 \<rho>)
                      x encoder_output encoder_output src_mask)) (\<lambda>(x, cab).
     thenE (getitem (residual_connection self) 2) (\<lambda>rc2.
     thenE (ResidualConnection_forward rc2 (sub 4 \<rho>) x
              (\<lambda>x. thenE (FeedForwardBlock_forward (db_feed_forward_block self) (sub 5 \<rho>) x)
                      (\<lambda>y. Inr (y, ())))) (\<lambda>(x, u).
     Inr (x, self\<lparr>db_self_attention_block := sab, db_cross_attention_block := cab\<rparr>)))))))"

fun Decoder_loop ::
    "DecoderBlock list \<Rightarrow> rng \<Rightarrow> nat \<Rightarrow> tensor3 \<Rightarrow> tensor3 \<Rightarrow> tensor4 option \<Rightarrow> tensor4 option
      \<Rightarrow> error + (tensor3 \<times> DecoderBlock list)" where
  "Decoder_loop [] \<rho> n x eo sm tm = Inr (x, [])"
| "Decoder_loop (layer # layers) \<rho> n x eo sm tm =
     thenE (DecoderBlock_forward layer (sub n \<rho>) x eo sm tm) (\<lambda>(x, layer').
     thenE (Decoder_loop layers \<rho> (Suc n) x eo sm tm) (\<lambda>(x, layers').
     Inr (x, layer' # layers')))"

definition Decoder_forward ::
    "Decoder \<Rightarrow> rng \<Rightarrow> tensor3 \<Rightarrow> tensor3 \<Rightarrow> tensor4 option \<Rightarrow> tensor4 option
      \<Rightarrow> error + (tensor3 \<times> Decoder)" where
  "Decoder_forward self \<rho> x encoder_output src_mask tgt_mask =
     thenE (Decoder_loop (dec_layers self) \<rho> 0 x encoder_output src_mask tgt_mask) (\<lambda>(x, layers').
     Inr (LayerNormalization_forward (dec_norm self) x, self\<lparr>dec_layers := layers'\<rparr>))"

definition ProjectionLayer_forward :: "ProjectionLayer \<Rightarrow> tensor3 \<Rightarrow> error + tensor3" where
  "ProjectionLayer_forward self x =
     thenE (Linear_forward (proj self) x) (\<lambda>y. Inr (log_softmax3 y))"

definition encode ::
    "Transformer \<Rightarrow> rng \<Rightarrow> itensor2 \<Rightarrow> tensor4 option \<Rightarrow> error + (tensor3 \<times> Transformer)" where
  "encode self \<rho> src src_mask =
     thenE (InputEmbedding_forward (src_embed self) src) (\<lambda>src.
     thenE (PositionalEncoding_forward (src_pos self) (sub 0 \<rho>) src) (\<lambda>src.
     thenE (Encoder_forward (encoder self) (sub 1 \<rho>) src src_mask) (\<lambda>(y, enc).
     Inr (y, self\<lparr>encoder := enc\<rparr>))))"

definition decode ::
    "Transformer \<Rightarrow> rng \<Rightarrow> tensor3 \<Rightarrow> tensor4 option \<Rightarrow> itensor2 \<Rightarrow> tensor4 option
      \<Rightarrow> error + (tensor3 \<times> Transformer)" where
  "decode self \<rho> encoder_output src_mask tgt tgt_mask =
     thenE (InputEmbedding_forward (tgt_embed self) tgt) (\<lambda>tgt.
     thenE (PositionalEncoding_forward (tgt_pos self) (sub 2 \<rho>) tgt) (\<lambda>tgt.
     thenE (Decoder_forward (decoder self) (sub 3 \<rho>) tgt encoder_output src_mask tgt_mask)
       (\<lambda>(y, dec).
     Inr (y, self\<lparr>decoder := dec\<rparr>))))"

definition project :: "Transformer \<Rightarrow> tensor3 \<Rightarrow> error + (tensor3 \<times> Transformer)" where
  "project self x =
     thenE (ProjectionLayer_forward (projection_layer self) x) (\<lambda>y. Inr (y, self))"

section \<open>Evaluation mode, the attention cache and well-formed modules\<close>

text \<open>
  \<^verbatim>\<open>model.eval()\<close> of the library clears the \<open>training\<close> flag of every module; only
  the dropout modules read it.
\<close>

definition Dropout_eval :: "Dropout \<Rightarrow> Dropout" where
  "Dropout_eval d = d\<lparr>training := False\<rparr>"

definition ResidualConnection_eval :: "ResidualConnection \<Rightarrow> ResidualConnection" where
  "ResidualConnection_eval r = r\<lparr>rc_dropout := Dropout_eval (rc_dropout r)\<rparr>"

definition FeedForwardBlock_eval :: "FeedForwardBlock \<Rightarrow> FeedForwardBlock" where
  "FeedForwardBlock_eval f = f\<lparr>ff_dropout := Dropout_eval (ff_dropout f)\<rparr>"

definition MultiHeadAttentionBlock_eval :: "MultiHeadAttentionBlock \<Rightarrow> MultiHeadAttentionBlock" where
  "MultiHeadAttentionBlock_eval b = b\<lparr>mha_dropout := Dropout_eval (mha_dropout b)\<rparr>"

definition EncoderBlock_eval :: "EncoderBlock \<Rightarrow> EncoderBlock" where
  "EncoderBlock_eval b =
     b\<lparr>eb_self_attention_block := MultiHeadAttentionBlock_eval (eb_self_attention_block b),
       eb_feed_forward_block := FeedForwardBlock_eval (eb_feed_forward_block b),
       residual_connections := map ResidualConnection_eval (residual_connections b)\<rparr>"

definition DecoderBlock_eval :: "DecoderBlock \<Rightarrow> DecoderBlock" where
  "DecoderBlock_eval b =
     b\<lparr>db_self_attention_block := MultiHeadAttentionBlock_eval (db_self_attention_block b),
       db_cross_attention_block := MultiHeadAttentionBlock_eval (db_cross_attention_block b),
       db_feed_forward_block := FeedForwardBlock_eval (db_feed_forward_block b),
       residual_connection := map ResidualConnection_eval (residual_connection b)\<rparr>"

definition PositionalEncoding_eval :: "PositionalEncoding \<Rightarrow> PositionalEncoding" where
  "PositionalEncoding_eval e = e\<lparr>pe_dropout := Dropout_eval (pe_dropout e)\<rparr>"

definition Transformer_eval :: "Transformer \<Rightarrow> Transformer" where
  "Transformer_eval m =
     m\<lparr>encoder := (encoder m)\<lparr>enc_layers := map EncoderBlock_eval (enc_layers (encoder m))\<rparr>,
       decoder := (decoder m)\<lparr>dec_layers := map DecoderBlock_eval (dec_layers (decoder m))\<rparr>,
       src_pos := PositionalEncoding_eval (src_pos m),
       tgt_pos := PositionalEncoding_eval (tgt_pos m)\<rparr>"

text \<open>A module is in evaluation mode when no dropout module that acts on its output trains.\<close>

definition eb_evaluating :: "EncoderBlock \<Rightarrow> bool" where
  "eb_evaluating b =
     (\<not> training (ff_dropout (eb_feed_forward_block b))
      \<and> list_all (\<lambda>r. \<not> training (rc_dropout r)) (residual_connections b))"

definition db_evaluating :: "DecoderBlock \<Rightarrow> bool" where
  "db_evaluating b =
     (\<not> training (ff_dropout (db_feed_forward_block b))
      \<and> list_all (\<lambda>r. \<not> training (rc_dropout r)) (residual_connection b))"

definition evaluating :: "Transformer \<Rightarrow> bool" where
  "evaluating m =
     (\<not> training (pe_dropout (src_pos m)) \<and> \<not> training (pe_dropout (tgt_pos m))
      \<and> list_all eb_evaluating (enc_layers (encoder m))
      \<and> list_all db_evaluating (dec_layers (decoder m)))"

text \<open>
  The model without the attention weights that the attention blocks keep from their last
  call: everything a forward call is given from the constructor and the training procedure.
\<close>

definition mha_forget :: "MultiHeadAttentionBlock \<Rightarrow> MultiHeadAttentionBlock" where
  "mha_forget b = b\<lparr>attention_scores := None\<rparr>"

definition eb_forget :: "EncoderBlock \<Rightarrow> EncoderBlock" where
  "eb_forget b = b\<lparr>eb_self_attention_block := mha_forget (eb_self_attention_block b)\<rparr>"

definition db_forget :: "DecoderBlock \<Rightarrow> DecoderBlock" where
  "db_forget b = b\<lparr>db_self_attention_block := mha_forget (db_self_attention_block b),
                   db_cross_attention_block := mha_forget (db_cross_attention_block b)\<rparr>"

definition forget_scores :: "Transformer \<Rightarrow> Transformer" where
  "forget_scores m =
     m\<lparr>encoder := (encoder m)\<lparr>enc_layers := map eb_forget (enc_layers (encoder m))\<rparr>,
       decoder := (decoder m)\<lparr>dec_layers := map db_forget (dec_layers (decoder m))\<rparr>\<rparr>"

text \<open>
  The attention weights that \<^verbatim>\<open>MultiHeadAttentionBlock.forward\<close> computes from its
  arguments: the second value that \<^verbatim>\<open>attention\<close> returns, on the projected inputs split
  into heads.
\<close>

definition attention_weights ::
    "MultiHeadAttentionBlock \<Rightarrow> rng \<Rightarrow> tensor3 \<Rightarrow> tensor3 \<Rightarrow> tensor3 \<Rightarrow> tensor4 option
      \<Rightarrow> error + tensor4" where
  "attention_weights self \<rho> q k v msk =
     thenE (Linear_forward (w_q self) q) (\<lambda>query.
     thenE (Linear_forward (w_k self) k) (\<lambda>key.
     thenE (Linear_forward (w_v self) v) (\<lambda>val.
     thenE (view_3_to_4 query (h self) (d_k self)) (\<lambda>query.
     thenE (view_3_to_4 key (h self) (d_k self)) (\<lambda>key.
     thenE (view_3_to_4 val (h self) (d_k self)) (\<lambda>val.
     thenE (attention (transpose_1_2 query) (transpose_1_2 key) (transpose_1_2 val) msk
              (Some (mha_dropout self)) \<rho>) (\<lambda>(x, scores).
     Inr scores)))))))"

text \<open>
  The sizes of the modules of a model of feature dimension \<open>D\<close> that the constructors
  establish, with a positive number of heads.
\<close>

definition linear_dims :: "Linear \<Rightarrow> nat \<Rightarrow> nat \<Rightarrow> bool" where
  "linear_dims l a b = (in_features l = a \<and> out_features l = b)"

definition wf_mha :: "nat \<Rightarrow> MultiHeadAttentionBlock \<Rightarrow> bool" where
  "wf_mha D b =
     (0 < h b \<and> 0 < d_k b \<and> nat (h b) * nat (d_k b) = D
      \<and> linear_dims (w_q b) D D \<and> linear_dims (w_k b) D D
      \<and> linear_dims (w_v b) D D \<and> linear_dims (w_o b) D D)"

definition wf_ffb :: "nat \<Rightarrow> FeedForwardBlock \<Rightarrow> bool" where
  "wf_ffb D f =
     (in_features (linear_1 f) = D \<and> in_features (linear_2 f) = out_features (linear_1 f)
      \<and> out_features (linear_2 f) = D)"

definition wf_eb :: "nat \<Rightarrow> int \<Rightarrow> EncoderBlock \<Rightarrow> bool" where
  "wf_eb D n b =
     (wf_mha D (eb_self_attention_block b) \<and> h (eb_self_attention_block b) = n
      \<and> wf_ffb D (eb_feed_forward_block b) \<and> length (residual_connections b) = 2)"

definition wf_db :: "nat \<Rightarrow> int \<Rightarrow> DecoderBlock \<Rightarrow> bool" where
  "wf_db D n b =
     (wf_mha D (db_self_attention_block b) \<and> h (db_self_attention_block b) = n
      \<and> wf_mha D (db_cross_attention_block b) \<and> h (db_cross_attention_block b) = n
      \<and> wf_ffb D (db_feed_forward_block b) \<and> length (residual_connection b) = 3)"

text \<open>A mask that \<^verbatim>\<open>masked_fill_\<close> accepts on attention scores of the given shape.\<close>

definition mask_fits :: "tensor4 option \<Rightarrow> nat \<Rightarrow> nat \<Rightarrow> nat \<Rightarrow> nat \<Rightarrow> bool" where
  "mask_fits msk n0 n1 n2 n3 =
     (case msk of None \<Rightarrow> True
      | Some k \<Rightarrow> expands_to (e0 k) n0 \<and> expands_to (e1 k) n1
                  \<and> expands_to (e2 k) n2 \<and> expands_to (e3 k) n3)"

text \<open>The token ids of an integer tensor lie in a vocabulary of the given size.\<close>

definition tokens_below :: "itensor2 \<Rightarrow> int \<Rightarrow> bool" where
  "tokens_below x n =
     list_all (\<lambda>i. list_all (\<lambda>j. 0 \<le> iat x i j \<and> iat x i j < n) [0..<i1 x]) [0..<i0 x]"

text \<open>
  The sizes on the source side (embedding, positional table, encoder) and on the target
  side (embedding, positional table, decoder) of a model with vocabulary size \<open>v\<close>,
  maximum length \<open>len\<close>, feature dimension \<open>D\<close> and \<open>n\<close> heads.
\<close>

definition wf_source :: "Transformer \<Rightarrow> int \<Rightarrow> int \<Rightarrow> nat \<Rightarrow> int \<Rightarrow> bool" where
  "wf_source m v len D n =
     (0 \<le> v \<and> 0 \<le> ie_d_model (src_embed m)
      \<and> num_embeddings (embedding (src_embed m)) = nat v
      \<and> embedding_dim (embedding (src_embed m)) = D
      \<and> shape3 (pe (src_pos m)) = (1, nat len, D)
      \<and> list_all (wf_eb D n) (enc_layers (encoder m)))"

definition wf_target :: "Transformer \<Rightarrow> int \<Rightarrow> int \<Rightarrow> nat \<Rightarrow> int \<Rightarrow> bool" where
  "wf_target m v len D n =
     (0 \<le> v \<and> 0 \<le> ie_d_model (tgt_embed m)
      \<and> num_embeddings (embedding (tgt_embed m)) = nat v
      \<and> embedding_dim (embedding (tgt_embed m)) = D
      \<and> shape3 (pe (tgt_pos m)) = (1, nat len, D)
      \<and> list_all (wf_db D n) (dec_layers (decoder m)))"

text \<open>
  The library creates every tensor of at most two dimensions whose sizes are at most
  \<open>K\<close>, wherever it is asked for.
\<close>

definition allocates :: "allocator \<Rightarrow> nat \<Rightarrow> bool" where
  "allocates mem K = (\<forall>p s. length s \<le> 2 \<and> list_all (\<lambda>n. n \<le> K) s \<longrightarrow> mem p s)"

section \<open>Example inputs\<close>

text \<open>An allocator that creates the tensors whose sizes are at most 4096.\<close>

definition small_tensors :: allocator where
  "small_tensors = (\<lambda>path shape. list_all (\<lambda>n. n \<le> 4096) shape)"

text \<open>
  One row \<open>(0, 2, 4)\<close> and one constant row \<open>(1, 1, 1)\<close> as tensors of shape \<open>(1, 1, 3)\<close>,
  and the module that \<^verbatim>\<open>LayerNormalization()\<close> constructs.
\<close>

definition example_row :: tensor3 where
  "example_row = \<lparr>d0 = 1, d1 = 1, d2 = 3, at3 = (\<lambda>i j k. 2 * real k)\<rparr>"

definition constant_row :: tensor3 where
  "constant_row = \<lparr>d0 = 1, d1 = 1, d2 = 3, at3 = (\<lambda>i j k. 1)\<rparr>"

definition example_norm :: LayerNormalization where
  "example_norm = projr (LayerNormalization_init small_tensors default_eps)"

text \<open>
  A batch of one sequence of four tokens, a model of one layer with \<open>d_model = 8\<close> and
  two heads, and a feature tensor of shape \<open>(1, 4, 8)\<close>.
\<close>

definition example_tokens :: itensor2 where
  "example_tokens = \<lparr>i0 = 1, i1 = 4, iat = (\<lambda>i j. int j)\<rparr>"

definition example_model :: Transformer where
  "example_model = projr (build_transformer small_tensors (\<lambda>p i j. 1) 10 10 4 4 8 1 2 (1 / 10) 16)"

definition example_features :: tensor3 where
  "example_features = \<lparr>d0 = 1, d1 = 4, d2 = 8, at3 = (\<lambda>i j k. real (j + k))\<rparr>"

text \<open>The self-attention block of the first encoder layer of the example model.\<close>

definition example_attention_block :: MultiHeadAttentionBlock where
  "example_attention_block = eb_self_attention_block (hd (enc_layers (encoder example_model)))"


text \<open>
  The same model with maximum sequence lengths 1, and a sequence of five tokens with a
  feature tensor of shape \<open>(1, 5, 8)\<close>.
\<close>

definition short_model :: Transformer where
  "short_model = projr (build_transformer small_tensors (\<lambda>p i j. 1) 10 10 1 1 8 1 2 (1 / 10) 16)"

definition long_tokens :: itensor2 where
  "long_tokens = \<lparr>i0 = 1, i1 = 5, iat = (\<lambda>i j. int j)\<rparr>"

definition long_features :: tensor3 where
  "long_features = \<lparr>d0 = 1, d1 = 5, d2 = 8, at3 = (\<lambda>i j k. real (j + k))\<rparr>"


section \<open>Basic facts\<close>

lemma thenE_Inl [simp]: "thenE (Inl e) f = Inl e"
  by (simp add: thenE_def)

lemma thenE_Inr [simp]: "thenE (Inr a) f = f a"
  by (simp add: thenE_def)

lemma thenE_eq_Inr: "thenE r f = Inr y \<longleftrightarrow> (\<exists>a. r = Inr a \<and> f a = Inr y)"
  by (cases r) simp_all

lemma isl_thenE: "isl (thenE r f) \<longleftrightarrow> isl r \<or> (\<exists>a. r = Inr a \<and> isl (f a))"
  by (cases r) simp_all

lemma created_Inr:
  assumes "allocates mem K" and "\<forall>s\<in>set ss. length s \<le> 2 \<and> (\<forall>n\<in>set s. n \<le> K)"
  shows "created mem ss = Inr ()"
proof -
  have "mem [i] (ss ! i)" if "i < length ss" for i
    using assms nth_mem[OF that] by (auto simp: allocates_def list_all_iff)
  then show ?thesis by (simp add: created_def list_all_iff)
qed

lemma allocates_sub: "allocates mem K \<Longrightarrow> allocates (sub k mem) K"
  by (simp add: allocates_def sub_def)

lemma allocates_small_tensors: "allocates small_tensors 4096"
  by (simp add: allocates_def small_tensors_def)

lemma example_norm_eq: "example_norm = \<lparr>eps = default_eps, alpha = 1, ln_bias = 0\<rparr>"
  by (simp add: example_norm_def LayerNormalization_init_def created_def small_tensors_def)

lemma bdim_same [simp]: "bdim n n = Some n"
  by (simp add: bdim_def)

lemma binop4_same_shape: "shape4 a = shape4 b \<Longrightarrow> \<exists>r. binop4 f a b = Inr r"
  by (simp add: binop4_def shape4_def)

lemma shape4_Dropout_forward4 [simp]: "shape4 (Dropout_forward4 d \<rho> x) = shape4 x"
  by (simp add: Dropout_forward4_def shape4_def)

lemma discarded_difference_defined: "\<exists>r. sub4 s (Dropout_forward4 d \<rho> s) = Inr r"
  unfolding sub4_def by (rule binop4_same_shape) simp

lemma attention_dropout_irrelevant:
  "attention query key val msk (Some d) \<rho> = attention query key val msk None \<rho>'"
proof (cases "matmul4 query (transpose_2_3 key)")
  case (Inl e)
  then show ?thesis by (simp add: attention_def)
next
  case (Inr qk)
  let ?scaled = "qk\<lparr>at4 := (\<lambda>i j k l. at4 qk i j k l / sqrt (real (e3 query)))\<rparr>"
  show ?thesis
  proof (cases "case msk of None \<Rightarrow> Inr ?scaled
                | Some m \<Rightarrow> masked_fill_inplace ?scaled m (- 1000000000)")
    case (Inl e)
    with Inr show ?thesis by (simp add: attention_def)
  next
    case filled: (Inr scores)
    obtain r where "sub4 (softmax4 scores) (Dropout_forward4 d \<rho> (softmax4 scores)) = Inr r"
      using discarded_difference_defined by blast
    with Inr filled show ?thesis by (simp add: attention_def)
  qed
qed

section \<open>Attention and its dropout argument\<close>

text \<open>
  Claim C2. The dropout handed to \<^verbatim>\<open>MultiHeadAttentionBlock.attention\<close> has no effect on
  what the method returns: for every query, key, value and mask, every dropout module
  (in training mode or not) and all random draws, the call returns the same result,
  output and attention weights or the same exception, as the call with no dropout.
\<close>

theorem attention_ignores_dropout:
  "attention query key val msk (Some d) \<rho> = attention query key val msk None \<rho>'"
  by (rule attention_dropout_irrelevant)

section \<open>Shapes and elementwise facts of the substrate\<close>

lemma bidx_0 [simp]: "bidx n 0 = 0"
  by (simp add: bidx_def)

lemma bidx_less [simp]: "i < n \<Longrightarrow> bidx n i = i"
  by (auto simp: bidx_def)

lemma binop3_same_shape:
  assumes "shape3 a = shape3 b"
  shows "\<exists>z. binop3 f a b = Inr z \<and> shape3 z = shape3 a
           \<and> (\<forall>i<d0 a. \<forall>j<d1 a. \<forall>k<d2 a. at3 z i j k = f (at3 a i j k) (at3 b i j k))"
  using assms by (simp add: binop3_def shape3_def)

lemma shape3_Dropout_forward3 [simp]: "shape3 (Dropout_forward3 d \<rho> x) = shape3 x"
  by (simp add: Dropout_forward3_def shape3_def)

lemma shape3_LayerNormalization_forward [simp]:
  "shape3 (LayerNormalization_forward n x) = shape3 x"
  by (simp add: LayerNormalization_forward_def shape3_def)

lemma Linear_forward_Inr:
  "d2 x = in_features l \<Longrightarrow>
     \<exists>y. Linear_forward l x = Inr y \<and> shape3 y = (d0 x, d1 x, out_features l)"
  by (simp add: Linear_forward_def shape3_def)

lemma d2_log_softmax3 [simp]: "d2 (log_softmax3 z) = d2 z"
  by (simp add: log_softmax3_def)

section \<open>The positional encoding table\<close>

lemma setitem_cols_step2_Inr:
  assumes "setitem_cols_step2 s t src = Inr t'"
  shows "r0 t' = r0 t" and "r1 t' = r1 t"
    and "at2 t' i j = (if s \<le> j \<and> even (j - s)
                       then at2 src (bidx (r0 src) i) (bidx (r1 src) ((j - s) div 2))
                       else at2 t i j)"
  using assms by (auto simp: setitem_cols_step2_def split: if_splits)

lemma torch_zeros_Inr:
  assumes "torch_zeros mem n m = Inr t"
  shows "r0 t = nat n" and "r1 t = nat m" and "at2 t i j = 0"
  using assms by (auto simp: torch_zeros_def thenE_eq_Inr split: if_splits)

lemma sin_position_zero [simp]: "at2 (map2d sin (position_times n dt)) 0 k = 0"
  by (simp add: map2d_def position_times_def)

lemma cos_position_zero [simp]: "at2 (map2d cos (position_times n dt)) 0 k = 1"
  by (simp add: map2d_def position_times_def)

lemma PositionalEncoding_init_Inr:
  assumes "PositionalEncoding_init mem d_model seq_len dropout = Inr m"
  shows "shape3 (pe m) = (1, nat seq_len, nat d_model)"
    and "at3 (pe m) i 0 j = (if even j then 0 else 1)"
proof -
  from assms obtain dp pe0 dt pe1 pe2 where
    z: "torch_zeros (sub 0 mem) seq_len d_model = Inr pe0"
    and s1: "setitem_cols_step2 0 pe0 (map2d sin (position_times (nat seq_len) dt)) = Inr pe1"
    and s2: "setitem_cols_step2 1 pe1 (map2d cos (position_times (nat seq_len) dt)) = Inr pe2"
    and m: "m = \<lparr>pe_d_model = d_model, pe_seq_len = seq_len, pe_dropout = dp,
                 pe = unsqueeze0 pe2\<rparr>"
    by (auto simp: PositionalEncoding_init_def thenE_eq_Inr)
  show "shape3 (pe m) = (1, nat seq_len, nat d_model)"
    by (simp add: m unsqueeze0_def shape3_def setitem_cols_step2_Inr[OF s2]
        setitem_cols_step2_Inr[OF s1] torch_zeros_Inr[OF z])
  have "at2 pe2 0 j = (if even j then 0 else 1)"
    by (cases "j = 0")
       (auto simp: setitem_cols_step2_Inr(3)[OF s2] setitem_cols_step2_Inr(3)[OF s1]
          torch_zeros_Inr(3)[OF z])
  then show "at3 (pe m) i 0 j = (if even j then 0 else 1)"
    by (simp add: m unsqueeze0_def)
qed

section \<open>The projection head\<close>

lemma sum_exp_pos: "0 < (n::nat) \<Longrightarrow> 0 < (\<Sum>m<n. exp (f m :: real))"
  by (rule sum_pos) auto

lemma log_softmax_normalised:
  assumes "0 < d2 t"
  shows "(\<Sum>k<d2 t. exp (at3 (log_softmax3 t) i j k)) = 1"
proof -
  let ?Z = "\<Sum>m<d2 t. exp (at3 t i j m)"
  have Z: "0 < ?Z" using assms by (rule sum_exp_pos)
  have "(\<Sum>k<d2 t. exp (at3 (log_softmax3 t) i j k)) = (\<Sum>k<d2 t. exp (at3 t i j k) / ?Z)"
    using Z by (simp add: log_softmax3_def exp_diff)
  also have "\<dots> = ?Z / ?Z"
    by (simp only: sum_divide_distrib)
  also have "\<dots> = 1" using Z by simp
  finally show ?thesis .
qed

lemma project_distribution:
  assumes "d2 x = in_features (proj (projection_layer self))"
    and "0 < out_features (proj (projection_layer self))"
  shows "\<exists>y. project self x = Inr (y, self)
      \<and> shape3 y = (d0 x, d1 x, out_features (proj (projection_layer self)))
      \<and> (\<forall>i j. (\<Sum>k<d2 y. exp (at3 y i j k)) = 1)"
proof -
  from Linear_forward_Inr[OF assms(1)] obtain z where
    z: "Linear_forward (proj (projection_layer self)) x = Inr z"
    and sz: "shape3 z = (d0 x, d1 x, out_features (proj (projection_layer self)))"
    by blast
  have d: "0 < d2 z" using sz assms(2) by (simp add: shape3_def)
  have "project self x = Inr (log_softmax3 z, self)"
    by (simp add: project_def ProjectionLayer_forward_def z)
  moreover have "shape3 (log_softmax3 z) = shape3 z"
    by (simp add: log_softmax3_def shape3_def)
  moreover have "(\<Sum>k<d2 (log_softmax3 z). exp (at3 (log_softmax3 z) i j k)) = 1" for i j
    using log_softmax_normalised[OF d, of i j] by simp
  ultimately show ?thesis using sz by auto
qed

section \<open>Layer normalization and the residual connection\<close>

lemma residual_connection_sum:
  assumes "sublayer (LayerNormalization_forward (rc_norm self) x) = Inr (y, s)"
    and "shape3 y = shape3 x"
  shows "\<exists>z. ResidualConnection_forward self \<rho> x sublayer = Inr (z, s) \<and> shape3 z = shape3 x
           \<and> (\<forall>i<d0 x. \<forall>j<d1 x. \<forall>k<d2 x.
                 at3 z i j k = at3 x i j k + at3 (Dropout_forward3 (rc_dropout self) \<rho> y) i j k)"
proof -
  have "shape3 x = shape3 (Dropout_forward3 (rc_dropout self) \<rho> y)"
    using assms(2) by simp
  from binop3_same_shape[OF this, of "(+)"] obtain z where
    "add3 x (Dropout_forward3 (rc_dropout self) \<rho> y) = Inr z" "shape3 z = shape3 x"
    "\<forall>i<d0 x. \<forall>j<d1 x. \<forall>k<d2 x.
        at3 z i j k = at3 x i j k + at3 (Dropout_forward3 (rc_dropout self) \<rho> y) i j k"
    unfolding add3_def by blast
  then show ?thesis
    by (simp add: ResidualConnection_forward_def assms(1))
qed

lemma sum_centered:
  assumes "0 < n"
  shows "(\<Sum>k<n. f k - (\<Sum>k<n. f k) / real n) = (0::real)"
  using assms by (simp add: sum_subtractf)

lemma layer_norm_statistics:
  assumes a: "alpha self \<noteq> 0" and n: "2 \<le> d2 x" and e: "0 < eps self"
  defines "y \<equiv> LayerNormalization_forward self x"
  defines "z \<equiv> y\<lparr>at3 := (\<lambda>i j k. (at3 y i j k - ln_bias self) / alpha self)\<rparr>"
  shows "at3 z i j k = (at3 x i j k - mean_last x i j) / (std_last x i j + eps self)"
    and "mean_last z i j = 0"
    and "(std_last z i j)\<^sup>2 = (std_last x i j / (std_last x i j + eps self))\<^sup>2"
proof -
  let ?s = "std_last x i j" and ?m = "mean_last x i j"
  let ?V = "(\<Sum>k<d2 x. (at3 x i j k - ?m)\<^sup>2) / (real (d2 x) - 1)"
  have V0: "0 \<le> ?V" using n by (intro divide_nonneg_nonneg sum_nonneg) auto
  have s0: "0 \<le> ?s" unfolding std_last_def using V0 by simp
  have s2: "?s\<^sup>2 = ?V" unfolding std_last_def using V0 by simp
  have pos: "0 < ?s + eps self" using s0 e by simp
  show zk: "at3 z i j k = (at3 x i j k - ?m) / (?s + eps self)" for k
    using a by (simp add: z_def y_def LayerNormalization_forward_def)
  have dz: "d2 z = d2 x" by (simp add: z_def y_def LayerNormalization_forward_def)
  have "(\<Sum>k<d2 x. at3 x i j k - ?m) = 0"
    unfolding mean_last_def using n by (intro sum_centered) simp
  then have "(\<Sum>k<d2 x. at3 z i j k) = 0"
    by (simp add: zk flip: sum_divide_distrib)
  then show mz: "mean_last z i j = 0"
    by (simp add: mean_last_def dz)
  have "(\<Sum>k<d2 x. (at3 z i j k - mean_last z i j)\<^sup>2)
      = (\<Sum>k<d2 x. (at3 x i j k - ?m)\<^sup>2) / (?s + eps self)\<^sup>2"
    by (simp add: mz zk power_divide sum_divide_distrib)
  then have "(\<Sum>k<d2 z. (at3 z i j k - mean_last z i j)\<^sup>2) / (real (d2 z) - 1)
      = ?V / (?s + eps self)\<^sup>2"
    by (simp add: dz)
  moreover have "0 \<le> ?V / (?s + eps self)\<^sup>2"
    by (rule divide_nonneg_nonneg[OF V0]) simp
  ultimately have "(std_last z i j)\<^sup>2 = ?V / (?s + eps self)\<^sup>2"
    unfolding std_last_def[of z] by simp
  then show "(std_last z i j)\<^sup>2 = (?s / (?s + eps self))\<^sup>2"
    by (simp add: power_divide s2)
qed

section \<open>Construction\<close>

lemma nn_Dropout_Inr: "0 \<le> q \<Longrightarrow> q \<le> 1 \<Longrightarrow> nn_Dropout q = Inr \<lparr>p = q, training = True\<rparr>"
  by (simp add: nn_Dropout_def)

lemma nn_Linear_Inr:
  assumes "allocates mem K" "0 \<le> a" "nat a \<le> K" "0 \<le> b" "nat b \<le> K"
  shows "nn_Linear mem g a b
    = Inr \<lparr>in_features = nat a, out_features = nat b, weight = g [0], bias = g [1] 0\<rparr>"
  using assms(2-) by (simp add: nn_Linear_def created_Inr[OF assms(1)])

lemma MultiHeadAttentionBlock_init_Inr:
  assumes "allocates mem K" "0 \<le> d" "nat d \<le> K" "0 \<le> q" "q \<le> 1" "n \<noteq> 0" "d mod n = 0"
  shows "MultiHeadAttentionBlock_init mem g d n q =
     Inr \<lparr>mha_d_model = d, h = n, d_k = d div n,
          w_q = \<lparr>in_features = nat d, out_features = nat d, weight = sub 0 g [0], bias = sub 0 g [1] 0\<rparr>,
          w_k = \<lparr>in_features = nat d, out_features = nat d, weight = sub 1 g [0], bias = sub 1 g [1] 0\<rparr>,
          w_v = \<lparr>in_features = nat d, out_features = nat d, weight = sub 2 g [0], bias = sub 2 g [1] 0\<rparr>,
          w_o = \<lparr>in_features = nat d, out_features = nat d, weight = sub 3 g [0], bias = sub 3 g [1] 0\<rparr>,
          mha_dropout = \<lparr>p = q, training = True\<rparr>, attention_scores = None\<rparr>"
  using assms(2-)
  by (simp add: MultiHeadAttentionBlock_init_def nn_Dropout_Inr
      nn_Linear_Inr[OF allocates_sub[OF assms(1)]])

lemma MultiHeadAttentionBlock_init_fails:
  "n = 0 \<or> d mod n \<noteq> 0 \<Longrightarrow> isl (MultiHeadAttentionBlock_init mem g d n q)"
  by (auto simp: MultiHeadAttentionBlock_init_def)

lemma MultiHeadAttentionBlock_init_assert:
  "n \<noteq> 0 \<Longrightarrow> d mod n \<noteq> 0 \<Longrightarrow> MultiHeadAttentionBlock_init mem g d n q = Inl AssertionError"
  by (simp add: MultiHeadAttentionBlock_init_def)

lemma mapE_head_fails: "xs \<noteq> [] \<Longrightarrow> isl (f (hd xs)) \<Longrightarrow> isl (mapE f xs)"
  by (cases xs) (simp_all add: isl_thenE)

lemma mapE_all_Inr:
  assumes "\<And>x. x \<in> set xs \<Longrightarrow> \<exists>y. f x = Inr y"
  shows "\<exists>ys. mapE f xs = Inr ys \<and> length ys = length xs
           \<and> (\<forall>i<length xs. f (xs ! i) = Inr (ys ! i))"
  using assms
proof (induction xs)
  case Nil
  then show ?case by simp
next
  case (Cons x xs)
  from Cons.prems obtain y where y: "f x = Inr y" by auto
  from Cons obtain ys where ys: "mapE f xs = Inr ys" "length ys = length xs"
    "\<forall>i<length xs. f (xs ! i) = Inr (ys ! i)" by auto
  show ?case
    using y ys by (auto simp: nth_Cons split: nat.splits)
qed

lemma build_encoder_block_fails:
  "n = 0 \<or> d mod n \<noteq> 0 \<Longrightarrow> isl (build_encoder_block mem g d n q f)"
  by (simp add: build_encoder_block_def isl_thenE MultiHeadAttentionBlock_init_fails)

lemma build_transformer_fails:
  assumes "1 \<le> N" and "n = 0 \<or> d mod n \<noteq> 0"
  shows "isl (build_transformer mem g sv tv ssl tsl d N n q f)"
proof -
  have ne: "[0..<nat N] \<noteq> []" using assms(1) by simp
  have "isl (mapE (\<lambda>i. build_encoder_block (sub i (sub 2 mem)) (sub i (sub 2 g)) d n q f) [0..<nat N])"
    by (rule mapE_head_fails[OF ne]) (rule build_encoder_block_fails[OF assms(2)])
  then show ?thesis
    unfolding build_transformer_def
    by (cases "InputEmbedding_init (sub 0 mem) (sub 0 g) d sv";
        cases "InputEmbedding_init (sub 1 mem) (sub 1 g) d tv";
        cases "PositionalEncoding_init (sub 5 mem) d ssl q";
        cases "PositionalEncoding_init (sub 6 mem) d tsl q";
        cases "mapE (\<lambda>i. build_encoder_block (sub i (sub 2 mem)) (sub i (sub 2 g)) d n q f)
                 [0..<nat N]")
       simp_all
qed

lemma PositionalEncoding_init_succeeds:
  assumes "0 \<le> q" "q \<le> 1" "0 \<le> seq_len" "0 < d" "even d"
    and mem: "allocates mem K" and K: "nat seq_len \<le> K" "nat d \<le> K"
  shows "\<exists>m. PositionalEncoding_init mem d seq_len q = Inr m"
proof -
  from \<open>even d\<close> obtain c where c: "d = 2 * c" by (elim evenE)
  with \<open>0 < d\<close> have c0: "0 < c" by simp
  have n: "nat (2 * c) = 2 * nat c" using c0 by (simp add: nat_mult_distrib)
  have cK: "nat c \<le> K" using K(2) by (simp add: c n)
  have h: "nat ((2 * c + 1) div 2) = nat c" by simp
  note cr = created_Inr[OF allocates_sub[OF mem]]
    created_Inr[OF allocates_sub[OF allocates_sub[OF mem]]]
  show ?thesis
    using assms(1-3) c0 K cK
    by (simp add: PositionalEncoding_init_def nn_Dropout_Inr torch_zeros_def div_term_def
        setitem_cols_step2_def expands_to_def map2d_def position_times_def c n h cr Let_def)
qed

section \<open>Shapes through attention\<close>

lemma view_3_to_4_Inr:
  assumes "0 < hh" "0 < dk" "0 < d0 t" "d2 t = nat hh * nat dk"
  shows "\<exists>y. view_3_to_4 t hh dk = Inr y \<and> shape4 y = (d0 t, d1 t, nat hh, nat dk)"
proof -
  let ?known = "d0 t * nat hh * nat dk"
  have eq: "d0 t * d1 t * d2 t = d1 t * ?known"
    by (simp add: assms(4) ac_simps)
  have pos: "0 < ?known" using assms by simp
  have "d0 t * d1 t * d2 t mod ?known = 0" "d0 t * d1 t * d2 t div ?known = d1 t"
    using pos by (simp_all only: eq mod_mult_self2_is_0 nonzero_mult_div_cancel_right
        less_numeral_extra(3) neq0_conv)
  then show ?thesis
    using assms(1,2) pos by (simp add: view_3_to_4_def Let_def shape4_def)
qed

lemma view_4_to_3_Inr:
  assumes "0 < n" "0 < e0 t" "e2 t * e3 t = nat n"
  shows "\<exists>y. view_4_to_3 t n = Inr y \<and> shape3 y = (e0 t, e1 t, nat n)"
proof -
  let ?known = "e0 t * nat n"
  have eq: "e0 t * e1 t * e2 t * e3 t = e1 t * ?known"
    by (simp add: assms(3)[symmetric] ac_simps)
  have pos: "0 < ?known" using assms by simp
  have "e0 t * e1 t * e2 t * e3 t mod ?known = 0" "e0 t * e1 t * e2 t * e3 t div ?known = e1 t"
    using pos by (simp_all only: eq mod_mult_self2_is_0 nonzero_mult_div_cancel_right
        less_numeral_extra(3) neq0_conv)
  then show ?thesis
    using assms(1) pos by (simp add: view_4_to_3_def Let_def shape3_def)
qed

lemma matmul4_Inr:
  assumes "e3 a = e2 b" "e0 a = e0 b" "e1 a = e1 b"
  shows "\<exists>y. matmul4 a b = Inr y \<and> shape4 y = (e0 a, e1 a, e2 a, e3 b)"
  using assms by (simp add: matmul4_def shape4_def)

lemma masked_fill_inplace_Inr:
  assumes "mask_fits (Some k) (e0 t) (e1 t) (e2 t) (e3 t)"
  shows "\<exists>y. masked_fill_inplace t k v = Inr y \<and> shape4 y = shape4 t"
  using assms by (simp add: masked_fill_inplace_def mask_fits_def shape4_def)

lemma shape4_softmax4 [simp]: "shape4 (softmax4 t) = shape4 t"
  by (simp add: softmax4_def shape4_def)

lemma shape4_transpose_1_2 [simp]:
  "shape4 (transpose_1_2 t) = (e0 t, e2 t, e1 t, e3 t)"
  by (simp add: transpose_1_2_def shape4_def)

lemma shape4_transpose_2_3 [simp]:
  "shape4 (transpose_2_3 t) = (e0 t, e1 t, e3 t, e2 t)"
  by (simp add: transpose_2_3_def shape4_def)

lemma shape4_D: "shape4 t = (a, b, c, d) \<Longrightarrow> e0 t = a \<and> e1 t = b \<and> e2 t = c \<and> e3 t = d"
  by (simp add: shape4_def)

lemma shape3_D: "shape3 t = (a, b, c) \<Longrightarrow> d0 t = a \<and> d1 t = b \<and> d2 t = c"
  by (simp add: shape3_def)

lemma attention_Inr:
  assumes q: "shape4 query = (B, H, S, DK)" and k: "shape4 key = (B, H, S', DK)"
    and v: "shape4 val = (B, H, S', DV)" and m: "mask_fits msk B H S S'"
  shows "\<exists>x sc. attention query key val msk dp \<rho> = Inr (x, sc)
           \<and> shape4 x = (B, H, S, DV) \<and> shape4 sc = (B, H, S, S')"
proof -
  note qd = shape4_D[OF q] and kd = shape4_D[OF k] and vd = shape4_D[OF v]
  have "\<exists>y. matmul4 query (transpose_2_3 key) = Inr y
          \<and> shape4 y = (e0 query, e1 query, e2 query, e3 (transpose_2_3 key))"
    by (rule matmul4_Inr) (simp_all add: transpose_2_3_def qd kd)
  then obtain qk where qk: "matmul4 query (transpose_2_3 key) = Inr qk"
    and sqk: "shape4 qk = (B, H, S, S')"
    by (auto simp: transpose_2_3_def qd kd)
  let ?scaled = "qk\<lparr>at4 := (\<lambda>i j k l. at4 qk i j k l / sqrt (real (e3 query)))\<rparr>"
  have ss: "shape4 ?scaled = (B, H, S, S')" using sqk by (simp add: shape4_def)
  have "\<exists>f. (case msk of None \<Rightarrow> Inr ?scaled
               | Some k \<Rightarrow> masked_fill_inplace ?scaled k (- 1000000000)) = Inr f
            \<and> shape4 f = (B, H, S, S')"
  proof (cases msk)
    case None
    then show ?thesis using ss by simp
  next
    case (Some k)
    have "mask_fits (Some k) (e0 ?scaled) (e1 ?scaled) (e2 ?scaled) (e3 ?scaled)"
      using m Some shape4_D[OF ss] by simp
    from masked_fill_inplace_Inr[OF this] show ?thesis using Some ss by simp
  qed
  then obtain f where f: "(case msk of None \<Rightarrow> Inr ?scaled
               | Some k \<Rightarrow> masked_fill_inplace ?scaled k (- 1000000000)) = Inr f"
    and sf: "shape4 f = (B, H, S, S')" by blast
  let ?sm = "softmax4 f"
  have ssm: "shape4 ?sm = (B, H, S, S')" using sf by simp
  have "\<exists>x. matmul4 ?sm val = Inr x \<and> shape4 x = (e0 ?sm, e1 ?sm, e2 ?sm, e3 val)"
    by (rule matmul4_Inr) (simp_all add: shape4_D[OF ssm] vd)
  then obtain x where x: "matmul4 ?sm val = Inr x" and sx: "shape4 x = (B, H, S, DV)"
    by (auto simp: shape4_D[OF ssm] vd)
  have "attention query key val msk None \<rho> = Inr (x, ?sm)"
    by (simp add: attention_def qk f x)
  moreover have "attention query key val msk dp \<rho> = attention query key val msk None \<rho>"
    by (cases dp) (simp_all add: attention_dropout_irrelevant)
  ultimately show ?thesis using sx ssm by simp
qed

lemma MultiHeadAttentionBlock_forward_Inr:
  assumes wf: "wf_mha D b"
    and q: "shape3 q = (B, S, D)" and k: "shape3 k = (B, S', D)" and v: "shape3 v = (B, S', D)"
    and B: "0 < B" and m: "mask_fits msk B (nat (h b)) S S'"
  shows "\<exists>y sc. MultiHeadAttentionBlock_forward b \<rho> q k v msk
                   = Inr (y, b\<lparr>attention_scores := Some sc\<rparr>)
           \<and> shape3 y = (B, S, D) \<and> shape4 sc = (B, nat (h b), S, S')"
proof -
  from wf have hp: "0 < h b" and dp: "0 < d_k b" and hd: "nat (h b) * nat (d_k b) = D"
    and lq: "in_features (w_q b) = D" "out_features (w_q b) = D"
    and lk: "in_features (w_k b) = D" "out_features (w_k b) = D"
    and lv: "in_features (w_v b) = D" "out_features (w_v b) = D"
    and lo: "in_features (w_o b) = D" "out_features (w_o b) = D"
    by (simp_all add: wf_mha_def linear_dims_def)
  note qd = shape3_D[OF q] and kd = shape3_D[OF k] and vd = shape3_D[OF v]
  obtain q1 where q1: "Linear_forward (w_q b) q = Inr q1" and sq1: "shape3 q1 = (B, S, D)"
    using Linear_forward_Inr[of q "w_q b"] by (auto simp: qd lq)
  obtain k1 where k1: "Linear_forward (w_k b) k = Inr k1" and sk1: "shape3 k1 = (B, S', D)"
    using Linear_forward_Inr[of k "w_k b"] by (auto simp: kd lk)
  obtain v1 where v1: "Linear_forward (w_v b) v = Inr v1" and sv1: "shape3 v1 = (B, S', D)"
    using Linear_forward_Inr[of v "w_v b"] by (auto simp: vd lv)
  obtain q2 where q2: "view_3_to_4 q1 (h b) (d_k b) = Inr q2"
    and sq2: "shape4 q2 = (B, S, nat (h b), nat (d_k b))"
    using view_3_to_4_Inr[OF hp dp, of q1] B by (auto simp: shape3_D[OF sq1] hd)
  obtain k2 where k2: "view_3_to_4 k1 (h b) (d_k b) = Inr k2"
    and sk2: "shape4 k2 = (B, S', nat (h b), nat (d_k b))"
    using view_3_to_4_Inr[OF hp dp, of k1] B by (auto simp: shape3_D[OF sk1] hd)
  obtain v2 where v2: "view_3_to_4 v1 (h b) (d_k b) = Inr v2"
    and sv2: "shape4 v2 = (B, S', nat (h b), nat (d_k b))"
    using view_3_to_4_Inr[OF hp dp, of v1] B by (auto simp: shape3_D[OF sv1] hd)
  have "\<exists>x sc. attention (transpose_1_2 q2) (transpose_1_2 k2) (transpose_1_2 v2) msk
                  (Some (mha_dropout b)) \<rho> = Inr (x, sc)
          \<and> shape4 x = (B, nat (h b), S, nat (d_k b)) \<and> shape4 sc = (B, nat (h b), S, S')"
    by (rule attention_Inr) (simp_all add: shape4_D[OF sq2] shape4_D[OF sk2] shape4_D[OF sv2] m)
  then obtain x sc where
    att: "attention (transpose_1_2 q2) (transpose_1_2 k2) (transpose_1_2 v2) msk
            (Some (mha_dropout b)) \<rho> = Inr (x, sc)"
    and sx: "shape4 x = (B, nat (h b), S, nat (d_k b))"
    and ssc: "shape4 sc = (B, nat (h b), S, S')" by blast
  have hdpos: "0 < h b * d_k b" using hp dp by simp
  have nhd: "nat (h b * d_k b) = D" using hp dp hd by (simp add: nat_mult_distrib)
  have "\<exists>y. view_4_to_3 (transpose_1_2 x) (h b * d_k b) = Inr y
          \<and> shape3 y = (e0 (transpose_1_2 x), e1 (transpose_1_2 x), nat (h b * d_k b))"
    by (rule view_4_to_3_Inr[OF hdpos])
       (simp_all add: transpose_1_2_def shape4_D[OF sx] B nhd hd)
  then obtain x3 where x3: "view_4_to_3 (transpose_1_2 x) (h b * d_k b) = Inr x3"
    and sx3: "shape3 x3 = (B, S, D)"
    by (auto simp: transpose_1_2_def shape4_D[OF sx] nhd)
  obtain y where y: "Linear_forward (w_o b) x3 = Inr y" and sy: "shape3 y = (B, S, D)"
    using Linear_forward_Inr[of x3 "w_o b"] by (auto simp: shape3_D[OF sx3] lo)
  have "MultiHeadAttentionBlock_forward b \<rho> q k v msk = Inr (y, b\<lparr>attention_scores := Some sc\<rparr>)"
    by (simp add: MultiHeadAttentionBlock_forward_def q1 k1 v1 q2 k2 v2 att x3 y)
  then show ?thesis using sy ssc by blast
qed

lemma shape3_relu3 [simp]: "shape3 (relu3 t) = shape3 t"
  by (simp add: relu3_def shape3_def)

lemma FeedForwardBlock_forward_Inr:
  assumes "wf_ffb D f" and x: "shape3 x = (B, S, D)"
  shows "\<exists>y. FeedForwardBlock_forward f \<rho> x = Inr y \<and> shape3 y = (B, S, D)"
proof -
  from assms(1) have l1: "in_features (linear_1 f) = D"
    and l2: "in_features (linear_2 f) = out_features (linear_1 f)"
    and l3: "out_features (linear_2 f) = D"
    by (simp_all add: wf_ffb_def)
  obtain a where a: "Linear_forward (linear_1 f) x = Inr a"
    and sa: "shape3 a = (B, S, out_features (linear_1 f))"
    using Linear_forward_Inr[of x "linear_1 f"] by (auto simp: shape3_D[OF x] l1)
  let ?a = "Dropout_forward3 (ff_dropout f) \<rho> (relu3 a)"
  have sa': "shape3 ?a = (B, S, out_features (linear_1 f))" using sa by simp
  obtain y where y: "Linear_forward (linear_2 f) ?a = Inr y" and sy: "shape3 y = (B, S, D)"
    using Linear_forward_Inr[of ?a "linear_2 f"] by (auto simp: shape3_D[OF sa'] l2 l3)
  show ?thesis
    by (simp add: FeedForwardBlock_forward_def a y sy)
qed

lemma residual_connection_shape:
  assumes "sublayer (LayerNormalization_forward (rc_norm self) x) = Inr (y, s)"
    and "shape3 y = shape3 x"
  shows "\<exists>z. ResidualConnection_forward self \<rho> x sublayer = Inr (z, s) \<and> shape3 z = shape3 x"
  using residual_connection_sum[of sublayer self x y s \<rho>] assms by blast

lemma EncoderBlock_forward_Inr:
  assumes wf: "wf_eb D n b" and x: "shape3 x = (B, S, D)" and B: "0 < B"
    and m: "mask_fits msk B (nat n) S S"
  shows "\<exists>y sc. EncoderBlock_forward b \<rho> x msk
            = Inr (y, b\<lparr>eb_self_attention_block :=
                          (eb_self_attention_block b)\<lparr>attention_scores := Some sc\<rparr>\<rparr>)
           \<and> shape3 y = (B, S, D)"
proof -
  let ?sab = "eb_self_attention_block b" and ?rcs = "residual_connections b"
  from wf have wm: "wf_mha D ?sab" and hn: "h ?sab = n"
    and wff: "wf_ffb D (eb_feed_forward_block b)" and len: "length ?rcs = 2"
    by (simp_all add: wf_eb_def)
  have g0: "getitem ?rcs 0 = Inr (?rcs ! 0)" and g1: "getitem ?rcs 1 = Inr (?rcs ! 1)"
    using len by (simp_all add: getitem_def)
  let ?n0 = "LayerNormalization_forward (rc_norm (?rcs ! 0)) x"
  have sn0: "shape3 ?n0 = (B, S, D)" using x by simp
  from MultiHeadAttentionBlock_forward_Inr[OF wm sn0 sn0 sn0 B, where msk = msk and \<rho> = "sub 1 \<rho>"] m hn
  obtain y1 sc where
    y1: "MultiHeadAttentionBlock_forward ?sab (sub 1 \<rho>) ?n0 ?n0 ?n0 msk
           = Inr (y1, ?sab\<lparr>attention_scores := Some sc\<rparr>)"
    and sy1: "shape3 y1 = (B, S, D)" by auto
  from residual_connection_shape[where sublayer =
        "\<lambda>x. MultiHeadAttentionBlock_forward ?sab (sub 1 \<rho>) x x x msk"
        and self = "?rcs ! 0" and \<rho> = "sub 0 \<rho>", OF y1] sy1 x
  obtain z1 where z1: "ResidualConnection_forward (?rcs ! 0) (sub 0 \<rho>) x
        (\<lambda>x. MultiHeadAttentionBlock_forward ?sab (sub 1 \<rho>) x x x msk)
        = Inr (z1, ?sab\<lparr>attention_scores := Some sc\<rparr>)"
    and sz1: "shape3 z1 = (B, S, D)" by auto
  let ?n1 = "LayerNormalization_forward (rc_norm (?rcs ! 1)) z1"
  have sn1: "shape3 ?n1 = (B, S, D)" using sz1 by simp
  from FeedForwardBlock_forward_Inr[OF wff sn1, where \<rho> = "sub 3 \<rho>"]
  obtain y2 where y2: "FeedForwardBlock_forward (eb_feed_forward_block b) (sub 3 \<rho>) ?n1 = Inr y2"
    and sy2: "shape3 y2 = (B, S, D)" by blast
  let ?ff = "\<lambda>x. thenE (FeedForwardBlock_forward (eb_feed_forward_block b) (sub 3 \<rho>) x)
                  (\<lambda>y. Inr (y, ()))"
  have "?ff ?n1 = Inr (y2, ())" using y2 by simp
  from residual_connection_shape[where sublayer = ?ff and self = "?rcs ! 1"
        and \<rho> = "sub 2 \<rho>", OF this] sy2 sz1
  obtain z2 where z2: "ResidualConnection_forward (?rcs ! 1) (sub 2 \<rho>) z1 ?ff = Inr (z2, ())"
    and sz2: "shape3 z2 = (B, S, D)" by auto
  have "EncoderBlock_forward b \<rho> x msk
      = Inr (z2, b\<lparr>eb_self_attention_block := ?sab\<lparr>attention_scores := Some sc\<rparr>\<rparr>)"
    using g0 g1 z1 z2 by (simp add: EncoderBlock_forward_def)
  then show ?thesis using sz2 by blast
qed

lemma eb_forget_update_scores [simp]:
  "eb_forget (b\<lparr>eb_self_attention_block :=
                  (eb_self_attention_block b)\<lparr>attention_scores := s\<rparr>\<rparr>) = eb_forget b"
  by (simp add: eb_forget_def mha_forget_def)

lemma wf_eb_update_scores [simp]:
  "wf_eb D n (b\<lparr>eb_self_attention_block :=
                  (eb_self_attention_block b)\<lparr>attention_scores := s\<rparr>\<rparr>) = wf_eb D n b"
  by (simp add: wf_eb_def wf_mha_def)

lemma Encoder_loop_Inr:
  assumes "list_all (wf_eb D n) ls" and "shape3 x = (B, S, D)" and "0 < B"
    and "mask_fits msk B (nat n) S S"
  shows "\<exists>y ls'. Encoder_loop ls \<rho> k x msk = Inr (y, ls') \<and> shape3 y = (B, S, D)
           \<and> map eb_forget ls' = map eb_forget ls \<and> list_all (wf_eb D n) ls'
           \<and> (ls \<noteq> [] \<longrightarrow> attention_scores (eb_self_attention_block (hd ls')) \<noteq> None)"
  using assms
proof (induction ls arbitrary: x k)
  case Nil
  then show ?case by simp
next
  case (Cons l ls)
  from Cons.prems(1) have wl: "wf_eb D n l" and wls: "list_all (wf_eb D n) ls" by simp_all
  from EncoderBlock_forward_Inr[OF wl Cons.prems(2,3,4), where \<rho> = "sub k \<rho>"]
  obtain y sc where
    y: "EncoderBlock_forward l (sub k \<rho>) x msk
          = Inr (y, l\<lparr>eb_self_attention_block :=
                          (eb_self_attention_block l)\<lparr>attention_scores := Some sc\<rparr>\<rparr>)"
    and sy: "shape3 y = (B, S, D)" by blast
  from Cons.IH[OF wls sy Cons.prems(3,4), where k = "Suc k"]
  obtain z ls' where z: "Encoder_loop ls \<rho> (Suc k) y msk = Inr (z, ls')"
    and sz: "shape3 z = (B, S, D)" and f: "map eb_forget ls' = map eb_forget ls"
    and w: "list_all (wf_eb D n) ls'" by blast
  show ?case
    using y z sz f w wl by simp
qed

section \<open>What the constructors establish\<close>

lemma mapE_Inr_all:
  assumes "mapE f xs = Inr ys" and "\<And>x y. x \<in> set xs \<Longrightarrow> f x = Inr y \<Longrightarrow> P y"
  shows "list_all P ys \<and> length ys = length xs"
  using assms
proof (induction xs arbitrary: ys)
  case Nil
  then show ?case by simp
next
  case (Cons x xs)
  from Cons.prems(1) obtain y ys' where y: "f x = Inr y" and ys': "mapE f xs = Inr ys'"
    and ys: "ys = y # ys'"
    by (auto simp: thenE_eq_Inr)
  have "list_all P ys' \<and> length ys' = length xs"
    by (rule Cons.IH[OF ys']) (rule Cons.prems(2), simp_all)
  moreover have "P y" by (rule Cons.prems(2)[OF _ y]) simp
  ultimately show ?case using ys by simp
qed

lemma InputEmbedding_init_Inr:
  assumes "InputEmbedding_init mem g d v = Inr e"
  shows "0 \<le> v" "0 \<le> d" "ie_d_model e = d" "num_embeddings (embedding e) = nat v"
    "embedding_dim (embedding e) = nat d"
  using assms
  by (auto simp: InputEmbedding_init_def nn_Embedding_def thenE_eq_Inr split: if_splits)

lemma PositionalEncoding_init_sizes:
  assumes "PositionalEncoding_init mem d seq_len q = Inr m"
  shows "0 < d" "0 \<le> seq_len"
  using assms
  by (auto simp: PositionalEncoding_init_def torch_zeros_def div_term_def thenE_eq_Inr Let_def
      split: if_splits)

lemma nn_Linear_dims:
  "nn_Linear mem g a b = Inr l \<Longrightarrow> linear_dims l (nat a) (nat b)"
  by (auto simp: nn_Linear_def linear_dims_def thenE_eq_Inr split: if_splits)

lemma MultiHeadAttentionBlock_init_wf:
  assumes "MultiHeadAttentionBlock_init mem g d n q = Inr b" and n: "0 < n" and d: "0 < d"
  shows "wf_mha (nat d) b" and "h b = n"
proof -
  from assms(1) n have dv: "d mod n = 0"
    by (auto simp: MultiHeadAttentionBlock_init_def split: if_splits)
  from assms(1) n dv obtain wq wk wv wo dp where
    l: "nn_Linear (sub 0 mem) (sub 0 g) d d = Inr wq"
       "nn_Linear (sub 1 mem) (sub 1 g) d d = Inr wk"
       "nn_Linear (sub 2 mem) (sub 2 g) d d = Inr wv"
       "nn_Linear (sub 3 mem) (sub 3 g) d d = Inr wo"
    and b: "b = \<lparr>mha_d_model = d, h = n, d_k = d div n, w_q = wq, w_k = wk, w_v = wv,
                 w_o = wo, mha_dropout = dp, attention_scores = None\<rparr>"
    by (auto simp: MultiHeadAttentionBlock_init_def thenE_eq_Inr)
  have eq: "n * (d div n) = d" using dv by auto
  have "n \<le> d" using dv d n by (intro zdvd_imp_le) auto
  then have dk: "0 < d div n" using n by (simp add: pos_imp_zdiv_pos_iff)
  have "nat n * nat (d div n) = nat d"
    using n dk eq by (simp flip: nat_mult_distrib)
  then show "wf_mha (nat d) b"
    using n dk l[THEN nn_Linear_dims] by (simp add: wf_mha_def b)
  show "h b = n" by (simp add: b)
qed

lemma FeedForwardBlock_init_wf:
  assumes "FeedForwardBlock_init mem g d f q = Inr b"
  shows "wf_ffb (nat d) b"
  using assms
  by (auto simp: FeedForwardBlock_init_def thenE_eq_Inr wf_ffb_def
      dest!: nn_Linear_dims simp: linear_dims_def)

lemma build_encoder_block_wf:
  assumes "build_encoder_block mem g d n q f = Inr b" and "0 < n" and "0 < d"
  shows "wf_eb (nat d) n b"
proof -
  from assms(1) obtain sab ffb rcs where
    s: "MultiHeadAttentionBlock_init (sub 0 mem) (sub 0 g) d n q = Inr sab"
    and f: "FeedForwardBlock_init (sub 1 mem) (sub 1 g) d f q = Inr ffb"
    and r: "mapE (\<lambda>i. ResidualConnection_init (sub i (sub 2 mem)) q) [0..<2] = Inr rcs"
    and b: "b = \<lparr>eb_self_attention_block = sab, eb_feed_forward_block = ffb,
                 residual_connections = rcs\<rparr>"
    by (auto simp: build_encoder_block_def EncoderBlock_init_def thenE_eq_Inr)
  from mapE_Inr_all[OF r, of "\<lambda>_. True"] have "length rcs = 2" by simp
  then show ?thesis
    using MultiHeadAttentionBlock_init_wf[OF s assms(2,3)] FeedForwardBlock_init_wf[OF f]
    by (simp add: wf_eb_def b)
qed

lemma build_decoder_block_wf:
  assumes "build_decoder_block mem g d n q f = Inr b" and "0 < n" and "0 < d"
  shows "wf_db (nat d) n b"
proof -
  from assms(1) obtain sab cab ffb rcs where
    s: "MultiHeadAttentionBlock_init (sub 0 mem) (sub 0 g) d n q = Inr sab"
    and c: "MultiHeadAttentionBlock_init (sub 1 mem) (sub 1 g) d n q = Inr cab"
    and f: "FeedForwardBlock_init (sub 2 mem) (sub 2 g) d f q = Inr ffb"
    and r: "mapE (\<lambda>i. ResidualConnection_init (sub i (sub 3 mem)) q) [0..<3] = Inr rcs"
    and b: "b = \<lparr>db_self_attention_block = sab, db_cross_attention_block = cab,
                 db_feed_forward_block = ffb, residual_connection = rcs\<rparr>"
    by (auto simp: build_decoder_block_def DecoderBlock_init_def thenE_eq_Inr)
  from mapE_Inr_all[OF r, of "\<lambda>_. True"] have "length rcs = 3" by simp
  then show ?thesis
    using MultiHeadAttentionBlock_init_wf[OF s assms(2,3)]
      MultiHeadAttentionBlock_init_wf[OF c assms(2,3)] FeedForwardBlock_init_wf[OF f]
    by (simp add: wf_db_def b)
qed

lemma build_transformer_Inr:
  assumes "build_transformer mem g sv tv ssl tsl d N n q f = Inr m"
  shows "0 < d" "0 \<le> sv" "0 \<le> tv" "0 \<le> ssl" "0 \<le> tsl"
    and "ie_d_model (src_embed m) = d" "num_embeddings (embedding (src_embed m)) = nat sv"
      "embedding_dim (embedding (src_embed m)) = nat d"
    and "ie_d_model (tgt_embed m) = d" "num_embeddings (embedding (tgt_embed m)) = nat tv"
      "embedding_dim (embedding (tgt_embed m)) = nat d"
    and "shape3 (pe (src_pos m)) = (1, nat ssl, nat d)"
    and "shape3 (pe (tgt_pos m)) = (1, nat tsl, nat d)"
    and "length (enc_layers (encoder m)) = nat N" "length (dec_layers (decoder m)) = nat N"
    and "0 < n \<Longrightarrow> list_all (wf_eb (nat d) n) (enc_layers (encoder m))"
    and "0 < n \<Longrightarrow> list_all (wf_db (nat d) n) (dec_layers (decoder m))"
    and "linear_dims (proj (projection_layer m)) (nat d) (nat tv)"
proof -
  from assms obtain se te sp tp ebs dbs enc dec pl where
    se: "InputEmbedding_init (sub 0 mem) (sub 0 g) d sv = Inr se"
    and te: "InputEmbedding_init (sub 1 mem) (sub 1 g) d tv = Inr te"
    and sp: "PositionalEncoding_init (sub 5 mem) d ssl q = Inr sp"
    and tp: "PositionalEncoding_init (sub 6 mem) d tsl q = Inr tp"
    and ebs: "mapE (\<lambda>i. build_encoder_block (sub i (sub 2 mem)) (sub i (sub 2 g)) d n q f)
                [0..<nat N] = Inr ebs"
    and dbs: "mapE (\<lambda>i. build_decoder_block (sub i (sub 3 mem)) (sub i (sub 3 g)) d n q f)
                [0..<nat N] = Inr dbs"
    and enc: "Encoder_init (sub 7 mem) ebs = Inr enc"
    and dec: "Decoder_init (sub 8 mem) dbs = Inr dec"
    and pl: "ProjectionLayer_init (sub 4 mem) (sub 4 g) d tv = Inr pl"
    and m: "m = \<lparr>encoder = enc, decoder = dec, src_embed = se,
                 tgt_embed = te, src_pos = sp, tgt_pos = tp, projection_layer = pl\<rparr>"
    unfolding build_transformer_def thenE_eq_Inr by blast
  have le: "enc_layers enc = ebs" "dec_layers dec = dbs"
    using enc dec by (auto simp: Encoder_init_def Decoder_init_def thenE_eq_Inr)
  show d: "0 < d" and "0 \<le> ssl" "0 \<le> tsl"
    using PositionalEncoding_init_sizes[OF sp] PositionalEncoding_init_sizes[OF tp] by simp_all
  show "0 \<le> sv" "0 \<le> tv"
    using InputEmbedding_init_Inr[OF se] InputEmbedding_init_Inr[OF te] by simp_all
  show "ie_d_model (src_embed m) = d" "num_embeddings (embedding (src_embed m)) = nat sv"
      "embedding_dim (embedding (src_embed m)) = nat d"
    using InputEmbedding_init_Inr[OF se] by (simp_all add: m)
  show "ie_d_model (tgt_embed m) = d" "num_embeddings (embedding (tgt_embed m)) = nat tv"
      "embedding_dim (embedding (tgt_embed m)) = nat d"
    using InputEmbedding_init_Inr[OF te] by (simp_all add: m)
  show "shape3 (pe (src_pos m)) = (1, nat ssl, nat d)"
    using PositionalEncoding_init_Inr(1)[OF sp] by (simp add: m)
  show "shape3 (pe (tgt_pos m)) = (1, nat tsl, nat d)"
    using PositionalEncoding_init_Inr(1)[OF tp] by (simp add: m)
  show "length (enc_layers (encoder m)) = nat N"
    using mapE_Inr_all[OF ebs, of "\<lambda>_. True"] by (simp add: m le)
  show "length (dec_layers (decoder m)) = nat N"
    using mapE_Inr_all[OF dbs, of "\<lambda>_. True"] by (simp add: m le)
  show "list_all (wf_eb (nat d) n) (enc_layers (encoder m))" if "0 < n"
    using mapE_Inr_all[OF ebs, of "wf_eb (nat d) n"] build_encoder_block_wf[OF _ that d]
    by (simp add: m le)
  show "list_all (wf_db (nat d) n) (dec_layers (decoder m))" if "0 < n"
    using mapE_Inr_all[OF dbs, of "wf_db (nat d) n"] build_decoder_block_wf[OF _ that d]
    by (simp add: m le)
  show "linear_dims (proj (projection_layer m)) (nat d) (nat tv)"
    using pl by (auto simp: ProjectionLayer_init_def thenE_eq_Inr m dest: nn_Linear_dims)
qed

section \<open>Shapes through the encoder\<close>

lemma InputEmbedding_forward_Inr:
  assumes "tokens_below x (int (num_embeddings (embedding e)))" and "0 \<le> ie_d_model e"
  shows "\<exists>y. InputEmbedding_forward e x = Inr y
           \<and> shape3 y = (i0 x, i1 x, embedding_dim (embedding e))"
  using assms
  by (simp add: InputEmbedding_forward_def Embedding_forward_def tokens_below_def shape3_def)

lemma bdim_1_right [simp]: "bdim b (Suc 0) = Some b"
  by (simp add: bdim_def)

lemma PositionalEncoding_forward_Inr:
  assumes p: "shape3 (pe self) = (1, L, D)" and x: "shape3 x = (B, S, D)" and "S \<le> L"
  shows "\<exists>y. PositionalEncoding_forward self \<rho> x = Inr y \<and> shape3 y = (B, S, D)"
proof -
  have "min S L = S" using assms(3) by simp
  then have "\<exists>z. add3 x (slice_dim1 (pe self) (d1 x)) = Inr z \<and> shape3 z = (B, S, D)"
    using shape3_D[OF p] shape3_D[OF x]
    by (simp add: add3_def binop3_def slice_dim1_def shape3_def)
  then show ?thesis
    by (auto simp: PositionalEncoding_forward_def)
qed

lemma Encoder_forward_Inr:
  assumes "list_all (wf_eb D n) (enc_layers e)" and "shape3 x = (B, S, D)" and "0 < B"
    and "mask_fits msk B (nat n) S S"
  shows "\<exists>y ls'. Encoder_forward e \<rho> x msk = Inr (y, e\<lparr>enc_layers := ls'\<rparr>)
           \<and> shape3 y = (B, S, D)
           \<and> map eb_forget ls' = map eb_forget (enc_layers e)
           \<and> (enc_layers e \<noteq> [] \<longrightarrow>
                attention_scores (eb_self_attention_block (hd ls')) \<noteq> None)"
proof -
  from Encoder_loop_Inr[OF assms, where \<rho> = \<rho> and k = 0]
  obtain y ls' where "Encoder_loop (enc_layers e) \<rho> 0 x msk = Inr (y, ls')"
    "shape3 y = (B, S, D)" "map eb_forget ls' = map eb_forget (enc_layers e)"
    "enc_layers e \<noteq> [] \<longrightarrow> attention_scores (eb_self_attention_block (hd ls')) \<noteq> None"
    by blast
  then show ?thesis
    by (auto simp: Encoder_forward_def)
qed

lemma encode_Inr:
  assumes build: "build_transformer mem g sv tv ssl tsl d N n q f = Inr m"
    and n: "0 < n" and B: "0 < i0 src" and S: "int (i1 src) \<le> ssl"
    and tok: "tokens_below src sv" and msk: "mask_fits msk (i0 src) (nat n) (i1 src) (i1 src)"
  shows "\<exists>y m'. encode m \<rho> src msk = Inr (y, m') \<and> shape3 y = (i0 src, i1 src, nat d)
           \<and> forget_scores m' = forget_scores m
           \<and> (0 < N \<longrightarrow>
                attention_scores (eb_self_attention_block (hd (enc_layers (encoder m')))) \<noteq> None)"
proof -
  note b = build_transformer_Inr[OF build]
  have "tokens_below src (int (num_embeddings (embedding (src_embed m))))"
    using tok b(2) by (simp add: b(7))
  moreover have "0 \<le> ie_d_model (src_embed m)" using b(1) by (simp add: b(6))
  ultimately obtain x0 where
    x0: "InputEmbedding_forward (src_embed m) src = Inr x0"
    and s0: "shape3 x0 = (i0 src, i1 src, nat d)"
    using InputEmbedding_forward_Inr[of src "src_embed m"] by (auto simp: b(8))
  have "i1 src \<le> nat ssl" using S by simp
  from PositionalEncoding_forward_Inr[OF b(12) s0 this, where \<rho> = "sub 0 \<rho>"]
  obtain x1 where x1: "PositionalEncoding_forward (src_pos m) (sub 0 \<rho>) x0 = Inr x1"
    and s1: "shape3 x1 = (i0 src, i1 src, nat d)" by blast
  from Encoder_forward_Inr[OF b(16)[OF n] s1 B msk, where \<rho> = "sub 1 \<rho>"]
  obtain y ls' where
    y: "Encoder_forward (encoder m) (sub 1 \<rho>) x1 msk = Inr (y, (encoder m)\<lparr>enc_layers := ls'\<rparr>)"
    and sy: "shape3 y = (i0 src, i1 src, nat d)"
    and ef: "map eb_forget ls' = map eb_forget (enc_layers (encoder m))"
    and sc: "enc_layers (encoder m) \<noteq> [] \<longrightarrow>
               attention_scores (eb_self_attention_block (hd ls')) \<noteq> None"
    by blast
  have "encode m \<rho> src msk = Inr (y, m\<lparr>encoder := (encoder m)\<lparr>enc_layers := ls'\<rparr>\<rparr>)"
    using x0 x1 y by (simp add: encode_def)
  moreover have "forget_scores (m\<lparr>encoder := (encoder m)\<lparr>enc_layers := ls'\<rparr>\<rparr>) = forget_scores m"
    using ef by (simp add: forget_scores_def)
  moreover have "0 < N \<longrightarrow> enc_layers (encoder m) \<noteq> []"
    using b(14) by auto
  ultimately show ?thesis using sy sc by auto
qed

section \<open>Construction and the divisibility of the feature dimension\<close>

lemma mapE_succeeds:
  assumes "\<And>x. x \<in> set xs \<Longrightarrow> \<exists>y. f x = Inr y"
  shows "\<exists>ys. mapE f xs = Inr ys"
  using mapE_all_Inr[of xs f, OF assms] by blast

lemma LayerNormalization_init_Inr:
  assumes "allocates mem K" "0 < K"
  shows "LayerNormalization_init mem e = Inr \<lparr>eps = e, alpha = 1, ln_bias = 0\<rparr>"
  using assms(2) by (simp add: LayerNormalization_init_def created_Inr[OF assms(1)])

lemma ResidualConnection_list_Inr:
  assumes "0 \<le> q" "q \<le> 1" "allocates mem K" "0 < K"
  shows "\<exists>rcs. mapE (\<lambda>i. ResidualConnection_init (sub i mem) q) [0..<k] = Inr rcs"
  by (rule mapE_succeeds)
     (simp add: ResidualConnection_init_def nn_Dropout_Inr[OF assms(1,2)]
        LayerNormalization_init_Inr[OF allocates_sub[OF allocates_sub[OF assms(3)]] assms(4)])

lemma FeedForwardBlock_init_succeeds:
  assumes "allocates mem K" "0 \<le> d" "nat d \<le> K" "0 \<le> f" "nat f \<le> K" "0 \<le> q" "q \<le> 1"
  shows "\<exists>b. FeedForwardBlock_init mem g d f q = Inr b"
  by (simp add: FeedForwardBlock_init_def nn_Dropout_Inr[OF assms(6,7)]
      nn_Linear_Inr[OF allocates_sub[OF assms(1)] assms(2,3,4,5)]
      nn_Linear_Inr[OF allocates_sub[OF assms(1)] assms(4,5,2,3)])

lemma build_encoder_block_succeeds:
  assumes "allocates mem K" "0 < d" "nat d \<le> K" "0 \<le> q" "q \<le> 1" "n \<noteq> 0" "d mod n = 0"
    "0 \<le> f" "nat f \<le> K"
  shows "\<exists>b. build_encoder_block mem g d n q f = Inr b"
proof -
  have d0: "0 \<le> d" and K: "0 < K" using assms(2,3) by simp_all
  from FeedForwardBlock_init_succeeds[OF allocates_sub[OF assms(1)] d0 assms(3,8,9,4,5)]
  obtain ffb where ffb: "FeedForwardBlock_init (sub 1 mem) (sub 1 g) d f q = Inr ffb" by blast
  from ResidualConnection_list_Inr[OF assms(4,5) allocates_sub[OF assms(1)] K]
  obtain rcs where
    rcs: "mapE (\<lambda>i. ResidualConnection_init (sub i (sub 2 mem)) q) [0..<2] = Inr rcs" by blast
  show ?thesis
    using ffb rcs
    by (simp add: build_encoder_block_def EncoderBlock_init_def
        MultiHeadAttentionBlock_init_Inr[OF allocates_sub[OF assms(1)] d0 assms(3-7)])
qed

lemma build_decoder_block_succeeds:
  assumes "allocates mem K" "0 < d" "nat d \<le> K" "0 \<le> q" "q \<le> 1" "n \<noteq> 0" "d mod n = 0"
    "0 \<le> f" "nat f \<le> K"
  shows "\<exists>b. build_decoder_block mem g d n q f = Inr b"
proof -
  have d0: "0 \<le> d" and K: "0 < K" using assms(2,3) by simp_all
  from FeedForwardBlock_init_succeeds[OF allocates_sub[OF assms(1)] d0 assms(3,8,9,4,5)]
  obtain ffb where ffb: "FeedForwardBlock_init (sub 2 mem) (sub 2 g) d f q = Inr ffb" by blast
  from ResidualConnection_list_Inr[OF assms(4,5) allocates_sub[OF assms(1)] K]
  obtain rcs where
    rcs: "mapE (\<lambda>i. ResidualConnection_init (sub i (sub 3 mem)) q) [0..<3] = Inr rcs" by blast
  show ?thesis
    using ffb rcs
    by (simp add: build_decoder_block_def DecoderBlock_init_def
        MultiHeadAttentionBlock_init_Inr[OF allocates_sub[OF assms(1)] d0 assms(3-7)])
qed

lemma build_transformer_succeeds:
  assumes "0 \<le> sv" "0 \<le> tv" "0 \<le> ssl" "0 \<le> tsl" "0 < d" "even d" "0 \<le> q" "q \<le> 1"
    "0 \<le> f" "N \<le> 0 \<or> (n \<noteq> 0 \<and> d mod n = 0)"
    and mem: "allocates mem K"
    and K: "nat sv \<le> K" "nat tv \<le> K" "nat ssl \<le> K" "nat tsl \<le> K" "nat d \<le> K" "nat f \<le> K"
  shows "\<exists>m. build_transformer mem g sv tv ssl tsl d N n q f = Inr m"
proof -
  have d0: "0 \<le> d" and K0: "0 < K" using assms(5) K(5) by simp_all
  note sub = allocates_sub[OF mem] allocates_sub[OF allocates_sub[OF mem]]
  obtain sp where sp: "PositionalEncoding_init (sub 5 mem) d ssl q = Inr sp"
    using PositionalEncoding_init_succeeds[OF assms(7,8,3,5,6) sub(1) K(3,5)] by blast
  obtain tp where tp: "PositionalEncoding_init (sub 6 mem) d tsl q = Inr tp"
    using PositionalEncoding_init_succeeds[OF assms(7,8,4,5,6) sub(1) K(4,5)] by blast
  have hd: "n \<noteq> 0" "d mod n = 0" if "x \<in> set [0..<nat N]" for x
    using that assms(10) by auto
  have "\<exists>ys. mapE (\<lambda>i. build_encoder_block (sub i (sub 2 mem)) (sub i (sub 2 g)) d n q f)
               [0..<nat N] = Inr ys"
    by (rule mapE_succeeds)
       (rule build_encoder_block_succeeds[OF sub(2) assms(5) K(5) assms(7,8) hd assms(9) K(6)])
  then obtain ebs where
    ebs: "mapE (\<lambda>i. build_encoder_block (sub i (sub 2 mem)) (sub i (sub 2 g)) d n q f)
            [0..<nat N] = Inr ebs" ..
  have "\<exists>ys. mapE (\<lambda>i. build_decoder_block (sub i (sub 3 mem)) (sub i (sub 3 g)) d n q f)
               [0..<nat N] = Inr ys"
    by (rule mapE_succeeds)
       (rule build_decoder_block_succeeds[OF sub(2) assms(5) K(5) assms(7,8) hd assms(9) K(6)])
  then obtain dbs where
    dbs: "mapE (\<lambda>i. build_decoder_block (sub i (sub 3 mem)) (sub i (sub 3 g)) d n q f)
            [0..<nat N] = Inr dbs" ..
  show ?thesis
    using assms(1,2) d0 K
    by (simp add: build_transformer_def InputEmbedding_init_def nn_Embedding_def sp tp ebs dbs
        ProjectionLayer_init_def nn_Linear_Inr[OF sub(2)] created_Inr[OF sub(2)]
        Encoder_init_def Decoder_init_def LayerNormalization_init_Inr[OF sub(2) K0])
qed

lemma Inr_projr: "\<exists>m. r = Inr m \<Longrightarrow> r = Inr (projr r)"
  by auto

lemma not_isl_iff: "\<not> isl r \<longleftrightarrow> (\<exists>m. r = Inr m)"
  by (cases r) auto

lemma build_transformer_needs_heads:
  assumes "build_transformer mem g sv tv ssl tsl d N n q f = Inr m" and "0 < N"
  shows "n \<noteq> 0 \<and> d mod n = 0"
proof (rule ccontr)
  assume "\<not> (n \<noteq> 0 \<and> d mod n = 0)"
  then have "n = 0 \<or> d mod n \<noteq> 0" by auto
  with build_transformer_fails[where N = N and n = n and d = d] assms(2)
  have "isl (build_transformer mem g sv tv ssl tsl d N n q f)" by simp
  with assms(1) show False by simp
qed

text \<open>
  A block whose weights the library cannot create is not constructed, whatever the
  divisibility: the first tensor asked for is the weight of \<^verbatim>\<open>w_q\<close>.
\<close>

lemma MultiHeadAttentionBlock_init_refused:
  assumes "n \<noteq> 0" "d mod n = 0" "\<not> mem [0, 0] [nat d, nat d]"
  shows "MultiHeadAttentionBlock_init mem g d n q = Inl RuntimeError"
  using assms
  by (simp add: MultiHeadAttentionBlock_init_def nn_Linear_def created_def sub_def)

lemma large_d_model_refused:
  "MultiHeadAttentionBlock_init small_tensors g (2 ^ 40) 2 (1 / 10) = Inl RuntimeError
     \<and> (2 ^ 40 :: int) mod 2 = 0"
  by (simp add: MultiHeadAttentionBlock_init_refused small_tensors_def)

text \<open>
  Claim C1, amended. Let the library create every tensor of sizes up to \<open>K\<close> that it is
  asked for. Constructing a \<^verbatim>\<open>MultiHeadAttentionBlock\<close> with \<open>0 \<le> d_model \<le> K\<close> and a
  dropout probability in \<open>[0, 1]\<close> succeeds exactly when \<open>h\<close> is not 0 and divides
  \<open>d_model\<close>. With \<open>h \<noteq> 0\<close> not dividing \<open>d_model\<close> the constructor fails with the
  assertion error, and \<^verbatim>\<open>build_transformer\<close> with \<open>N \<ge> 1\<close> fails whenever \<open>h\<close> is 0 or
  does not divide \<open>d_model\<close>, whatever the library can create. For sizes between 0 and
  \<open>K\<close>, a positive even \<open>d_model\<close> and a dropout probability in \<open>[0, 1]\<close>,
  \<^verbatim>\<open>build_transformer\<close> succeeds exactly when \<open>N \<le> 0\<close> (no attention block is built and
  the divisibility is never checked) or \<open>h\<close> is not 0 and divides \<open>d_model\<close>.
\<close>

theorem construction_and_divisibility:
  "(allocates mem K \<and> 0 \<le> d_model \<and> d_model \<le> int K \<and> 0 \<le> dropout \<and> dropout \<le> 1 \<longrightarrow>
      (\<not> isl (MultiHeadAttentionBlock_init mem g d_model n_heads dropout)
         \<longleftrightarrow> n_heads \<noteq> 0 \<and> d_model mod n_heads = 0))
   \<and> (n_heads \<noteq> 0 \<and> d_model mod n_heads \<noteq> 0 \<longrightarrow>
        MultiHeadAttentionBlock_init mem g d_model n_heads dropout = Inl AssertionError)
   \<and> (0 < N \<and> (n_heads = 0 \<or> d_model mod n_heads \<noteq> 0) \<longrightarrow>
        isl (build_transformer mem g sv tv ssl tsl d_model N n_heads dropout d_ff))
   \<and> (allocates mem K \<and> 0 \<le> sv \<and> sv \<le> int K \<and> 0 \<le> tv \<and> tv \<le> int K
        \<and> 0 \<le> ssl \<and> ssl \<le> int K \<and> 0 \<le> tsl \<and> tsl \<le> int K
        \<and> 0 < d_model \<and> d_model \<le> int K \<and> even d_model
        \<and> 0 \<le> dropout \<and> dropout \<le> 1 \<and> 0 \<le> d_ff \<and> d_ff \<le> int K \<longrightarrow>
        (\<not> isl (build_transformer mem g sv tv ssl tsl d_model N n_heads dropout d_ff)
           \<longleftrightarrow> N \<le> 0 \<or> (n_heads \<noteq> 0 \<and> d_model mod n_heads = 0)))"
proof (intro conjI impI)
  assume a: "allocates mem K \<and> 0 \<le> d_model \<and> d_model \<le> int K \<and> 0 \<le> dropout \<and> dropout \<le> 1"
  then have K: "nat d_model \<le> K" by linarith
  show "\<not> isl (MultiHeadAttentionBlock_init mem g d_model n_heads dropout)
          \<longleftrightarrow> n_heads \<noteq> 0 \<and> d_model mod n_heads = 0"
    using a K
      MultiHeadAttentionBlock_init_Inr[where mem = mem and K = K and d = d_model
        and q = dropout and n = n_heads and g = g]
      MultiHeadAttentionBlock_init_fails[where n = n_heads and d = d_model and mem = mem
        and g = g and q = dropout]
    by auto
next
  assume "n_heads \<noteq> 0 \<and> d_model mod n_heads \<noteq> 0"
  then show "MultiHeadAttentionBlock_init mem g d_model n_heads dropout = Inl AssertionError"
    by (simp add: MultiHeadAttentionBlock_init_assert)
next
  assume "0 < N \<and> (n_heads = 0 \<or> d_model mod n_heads \<noteq> 0)"
  then show "isl (build_transformer mem g sv tv ssl tsl d_model N n_heads dropout d_ff)"
    using build_transformer_fails[where N = N and n = n_heads and d = d_model] by simp
next
  assume a: "allocates mem K \<and> 0 \<le> sv \<and> sv \<le> int K \<and> 0 \<le> tv \<and> tv \<le> int K
        \<and> 0 \<le> ssl \<and> ssl \<le> int K \<and> 0 \<le> tsl \<and> tsl \<le> int K
        \<and> 0 < d_model \<and> d_model \<le> int K \<and> even d_model
        \<and> 0 \<le> dropout \<and> dropout \<le> 1 \<and> 0 \<le> d_ff \<and> d_ff \<le> int K"
  then have K: "nat sv \<le> K" "nat tv \<le> K" "nat ssl \<le> K" "nat tsl \<le> K" "nat d_model \<le> K"
      "nat d_ff \<le> K"
    by linarith+
  show "\<not> isl (build_transformer mem g sv tv ssl tsl d_model N n_heads dropout d_ff)
           \<longleftrightarrow> N \<le> 0 \<or> (n_heads \<noteq> 0 \<and> d_model mod n_heads = 0)"
  proof
    assume "\<not> isl (build_transformer mem g sv tv ssl tsl d_model N n_heads dropout d_ff)"
    then obtain m where
      "build_transformer mem g sv tv ssl tsl d_model N n_heads dropout d_ff = Inr m"
      by (auto simp: not_isl_iff)
    from build_transformer_needs_heads[OF this]
    show "N \<le> 0 \<or> (n_heads \<noteq> 0 \<and> d_model mod n_heads = 0)" by auto
  next
    assume h: "N \<le> 0 \<or> (n_heads \<noteq> 0 \<and> d_model mod n_heads = 0)"
    have "\<exists>m. build_transformer mem g sv tv ssl tsl d_model N n_heads dropout d_ff = Inr m"
      by (rule build_transformer_succeeds[where K = K]) (use a h K in simp_all)
    then show "\<not> isl (build_transformer mem g sv tv ssl tsl d_model N n_heads dropout d_ff)"
      by (auto simp: not_isl_iff)
  qed
qed

text \<open>
  The claim as stated fails: with \<open>N = 0\<close> the factory returns a model although
  \<open>d_model = 6\<close> is not divisible by \<open>h = 4\<close>.
\<close>

theorem construction_without_layers_counterexample:
  "\<not> isl (build_transformer small_tensors (\<lambda>p i j. 0) 10 10 4 4 6 0 4 (1 / 10) 2048)
   \<and> (6 :: int) mod 4 \<noteq> 0"
proof -
  have "\<exists>m. build_transformer small_tensors (\<lambda>p i j. 0) 10 10 4 4 6 0 4 (1 / 10) 2048 = Inr m"
    by (rule build_transformer_succeeds[where K = 4096])
       (simp_all add: allocates_small_tensors)
  then show ?thesis by (auto simp: not_isl_iff)
qed

theorem construction_and_divisibility_witness:
  "\<not> isl (MultiHeadAttentionBlock_init small_tensors (\<lambda>p i j. 0) 8 2 (1 / 10))
   \<and> MultiHeadAttentionBlock_init small_tensors (\<lambda>p i j. 0) 8 3 (1 / 10) = Inl AssertionError
   \<and> isl (build_transformer small_tensors (\<lambda>p i j. 0) 10 10 4 4 8 6 3 (1 / 10) 32)
   \<and> \<not> isl (build_transformer small_tensors (\<lambda>p i j. 0) 10 10 4 4 8 6 2 (1 / 10) 32)"
  using construction_and_divisibility[where mem = small_tensors and K = 4096 and d_model = 8
      and dropout = "1 / 10" and g = "\<lambda>p i j. 0" and n_heads = 2 and N = 6 and sv = 10
      and tv = 10 and ssl = 4 and tsl = 4 and d_ff = 32]
    construction_and_divisibility[where mem = small_tensors and K = 4096 and d_model = 8
      and dropout = "1 / 10" and g = "\<lambda>p i j. 0" and n_heads = 3 and N = 6 and sv = 10
      and tv = 10 and ssl = 4 and tsl = 4 and d_ff = 32]
  by (simp add: allocates_small_tensors)

text \<open>
  An odd \<open>d_model \<ge> 3\<close> fails in \<^verbatim>\<open>PositionalEncoding.__init__\<close> whatever \<open>h\<close> is: the
  cosine columns \<^verbatim>\<open>pe[:, 1::2]\<close> are one fewer than the entries of \<open>div_term\<close>.
\<close>

lemma odd_d_model_fails:
  "build_transformer small_tensors (\<lambda>p i j. 0) 10 10 4 4 9 6 3 (1 / 10) 2048 = Inl RuntimeError
     \<and> (9 :: int) mod 3 = 0"
  by (simp add: build_transformer_def InputEmbedding_init_def nn_Embedding_def
      PositionalEncoding_init_def nn_Dropout_def torch_zeros_def div_term_def
      setitem_cols_step2_def expands_to_def map2d_def position_times_def
      created_def small_tensors_def sub_def Let_def)

section \<open>The entry points: shapes, the table and the projection\<close>

lemma example_model_built:
  "build_transformer small_tensors (\<lambda>p i j. 1) 10 10 4 4 8 1 2 (1 / 10) 16 = Inr example_model"
proof -
  have "\<exists>m. build_transformer small_tensors (\<lambda>p i j. 1) 10 10 4 4 8 1 2 (1 / 10) 16 = Inr m"
    by (rule build_transformer_succeeds[where K = 4096])
       (simp_all add: allocates_small_tensors)
  then show ?thesis unfolding example_model_def by (rule Inr_projr)
qed






lemma tokens_below_iff:
  "tokens_below x n \<longleftrightarrow> (\<forall>i<i0 x. \<forall>j<i1 x. 0 \<le> iat x i j \<and> iat x i j < n)"
  by (auto simp: tokens_below_def list_all_iff)



text \<open>
  Claim C8. In the table that \<^verbatim>\<open>PositionalEncoding.__init__\<close> computes, for every
  \<open>d_model\<close> and maximum sequence length for which it returns, the entry at sequence
  position 0 is 0 at every even feature index (sine) and 1 at every odd one (cosine).
\<close>

theorem pe_position_zero:
  assumes "PositionalEncoding_init mem d_model seq_len dropout = Inr self"
    and "0 < d1 (pe self)" and "j < d2 (pe self)"
  shows "at3 (pe self) 0 0 j = (if even j then 0 else 1)"
  using assms(1) by (rule PositionalEncoding_init_Inr(2))

theorem pe_position_zero_witness:
  "at3 (pe (projr (PositionalEncoding_init small_tensors 4 3 (1 / 10)))) 0 0 2 = 0
   \<and> at3 (pe (projr (PositionalEncoding_init small_tensors 4 3 (1 / 10)))) 0 0 3 = 1"
proof -
  have "\<exists>m. PositionalEncoding_init small_tensors 4 3 (1 / 10) = Inr m"
    by (rule PositionalEncoding_init_succeeds[where K = 4096])
       (simp_all add: allocates_small_tensors)
  then have b: "PositionalEncoding_init small_tensors 4 3 (1 / 10) = Inr (projr (PositionalEncoding_init small_tensors 4 3 (1 / 10)))"
    by (rule Inr_projr)
  have s: "d1 (pe (projr (PositionalEncoding_init small_tensors 4 3 (1 / 10)))) = 3"
    "d2 (pe (projr (PositionalEncoding_init small_tensors 4 3 (1 / 10)))) = 4"
    using PositionalEncoding_init_Inr(1)[OF b] by (simp_all add: shape3_def)
  show ?thesis
    using pe_position_zero[OF b, of 2] pe_position_zero[OF b, of 3] by (simp add: s)
qed

text \<open>
  Claim C5. For every input tensor whose last dimension is \<open>d_model\<close>, and a non-empty
  target vocabulary, \<^verbatim>\<open>project\<close> returns a tensor of the input's batch and sequence
  sizes whose exponentials sum to 1 over the vocabulary dimension at every batch index and
  sequence position; the model is left as it was.
\<close>

theorem project_is_log_distribution:
  assumes "d2 x = in_features (proj (projection_layer self))"
    and "0 < out_features (proj (projection_layer self))"
  shows "\<exists>y. project self x = Inr (y, self)
      \<and> shape3 y = (d0 x, d1 x, out_features (proj (projection_layer self)))
      \<and> (\<forall>i<d0 x. \<forall>j<d1 x. (\<Sum>k<d2 y. exp (at3 y i j k)) = 1)"
  using project_distribution[OF assms] by blast

theorem project_is_log_distribution_witness:
  "\<exists>y. project (projr (build_transformer small_tensors (\<lambda>p i j. 1) 10 3 4 4 8 2 2 (1 / 10) 16))
           \<lparr>d0 = 1, d1 = 2, d2 = 8, at3 = (\<lambda>i j k. real k)\<rparr>
         = Inr (y, projr (build_transformer small_tensors (\<lambda>p i j. 1) 10 3 4 4 8 2 2 (1 / 10) 16))
      \<and> shape3 y = (1, 2, 3)
      \<and> (\<Sum>k<d2 y. exp (at3 y 0 1 k)) = 1"
proof -
  let ?m = "projr (build_transformer small_tensors (\<lambda>p i j. 1) 10 3 4 4 8 2 2 (1 / 10) 16)"
  have "\<exists>m. build_transformer small_tensors (\<lambda>p i j. 1) 10 3 4 4 8 2 2 (1 / 10) 16 = Inr m"
    by (rule build_transformer_succeeds[where K = 4096])
       (simp_all add: allocates_small_tensors)
  then have b: "build_transformer small_tensors (\<lambda>p i j. 1) 10 3 4 4 8 2 2 (1 / 10) 16 = Inr ?m"
    by (rule Inr_projr)
  have l: "in_features (proj (projection_layer ?m)) = 8"
    "out_features (proj (projection_layer ?m)) = 3"
    using build_transformer_Inr(18)[OF b] by (simp_all add: linear_dims_def)
  show ?thesis
    using project_is_log_distribution[of "\<lparr>d0 = 1, d1 = 2, d2 = 8, at3 = (\<lambda>i j k. real k)\<rparr>" ?m]
    by (auto simp: l)
qed

section \<open>The residual connection and the statistics of layer normalization\<close>

text \<open>
  Claim C6. \<^verbatim>\<open>ResidualConnection.forward\<close> applies the sublayer to the layer
  normalization of the input and adds the input itself, elementwise, to the dropout of
  the sublayer's result: \<open>x + dropout(sublayer(norm(x)))\<close>, for every sublayer whose
  result has the shape of \<open>x\<close>.
\<close>

theorem residual_connection_pre_norm:
  assumes "sublayer (LayerNormalization_forward (rc_norm self) x) = Inr (y, s)"
    and "shape3 y = shape3 x"
  shows "\<exists>z. ResidualConnection_forward self \<rho> x sublayer = Inr (z, s) \<and> shape3 z = shape3 x
           \<and> (\<forall>i<d0 x. \<forall>j<d1 x. \<forall>k<d2 x.
                 at3 z i j k = at3 x i j k + at3 (Dropout_forward3 (rc_dropout self) \<rho> y) i j k)"
  using assms by (rule residual_connection_sum)

theorem residual_connection_pre_norm_witness:
  "\<exists>z. ResidualConnection_forward
          \<lparr>rc_dropout = \<lparr>p = 1 / 2, training = True\<rparr>,
           rc_norm = example_norm\<rparr>
          (\<lambda>p i. True) \<lparr>d0 = 1, d1 = 1, d2 = 2, at3 = (\<lambda>i j k. real k)\<rparr>
          (\<lambda>t. Inr (relu3 t, ())) = Inr (z, ())
        \<and> shape3 z = (1, 1, 2)
        \<and> at3 z 0 0 1 = 1 + at3 (Dropout_forward3 \<lparr>p = 1 / 2, training = True\<rparr> (\<lambda>p i. True)
             (relu3 (LayerNormalization_forward (example_norm)
                \<lparr>d0 = 1, d1 = 1, d2 = 2, at3 = (\<lambda>i j k. real k)\<rparr>))) 0 0 1"
proof -
  let ?self = "\<lparr>rc_dropout = \<lparr>p = 1 / 2, training = True\<rparr>,
                rc_norm = example_norm\<rparr>"
  let ?x = "\<lparr>d0 = 1, d1 = 1, d2 = 2, at3 = (\<lambda>i j k. real k)\<rparr>"
  let ?y = "relu3 (LayerNormalization_forward (example_norm) ?x)"
  have sub: "(\<lambda>t. Inr (relu3 t, ())) (LayerNormalization_forward (rc_norm ?self) ?x) = Inr (?y, ())"
    by simp
  have sh: "shape3 ?y = shape3 ?x"
    by simp
  from residual_connection_pre_norm[of "\<lambda>t. Inr (relu3 t, ())" ?self ?x ?y "()" "\<lambda>p i. True",
      OF sub sh]
  obtain z where z: "ResidualConnection_forward ?self (\<lambda>p i. True) ?x (\<lambda>t. Inr (relu3 t, ()))
        = Inr (z, ())" "shape3 z = shape3 ?x"
    and e: "\<forall>i<d0 ?x. \<forall>j<d1 ?x. \<forall>k<d2 ?x.
        at3 z i j k = at3 ?x i j k + at3 (Dropout_forward3 (rc_dropout ?self) (\<lambda>p i. True) ?y) i j k"
    by blast
  from e have "at3 z 0 0 1 = at3 ?x 0 0 1
      + at3 (Dropout_forward3 (rc_dropout ?self) (\<lambda>p i. True) ?y) 0 0 1"
    by simp
  with z show ?thesis by (simp add: shape3_def)
qed

lemma sum_lessThan_3: "(\<Sum>k<(3::nat). f k) = f 0 + f 1 + (f 2 :: real)"
  by (simp add: eval_nat_numeral)

lemma std_last_squared:
  assumes "2 \<le> d2 t"
  shows "(std_last t i j)\<^sup>2
    = (\<Sum>k<d2 t. (at3 t i j k - mean_last t i j)\<^sup>2) / (real (d2 t) - 1)"
  unfolding std_last_def
proof (rule real_sqrt_pow2)
  show "0 \<le> (\<Sum>k<d2 t. (at3 t i j k - mean_last t i j)\<^sup>2) / (real (d2 t) - 1)"
    using assms by (intro divide_nonneg_nonneg sum_nonneg) auto
qed

lemma d2_example_row [simp]: "d2 example_row = 3"
  by (simp add: example_row_def)

lemma std_last_example_row: "std_last example_row 0 0 = 2"
proof -
  have "mean_last example_row 0 0 = 2"
    by (simp add: mean_last_def sum_lessThan_3) (simp add: example_row_def)
  then have "std_last example_row 0 0 = sqrt 4"
    by (simp add: std_last_def sum_lessThan_3) (simp add: example_row_def)
  then show ?thesis by simp
qed

text \<open>On a row whose entries are all equal the normalized values are all 0.\<close>

lemma layer_norm_constant:
  assumes a: "alpha self \<noteq> 0" and n: "2 \<le> d2 x" and e: "0 < eps self"
    and c: "\<forall>k<d2 x. at3 x i j k = c"
  defines "y \<equiv> LayerNormalization_forward self x"
  defines "z \<equiv> y\<lparr>at3 := (\<lambda>i j k. (at3 y i j k - ln_bias self) / alpha self)\<rparr>"
  shows "\<forall>k<d2 x. at3 z i j k = 0" and "(std_last z i j)\<^sup>2 = 0"
    and "(\<Sum>k<d2 z. (at3 z i j k - mean_last z i j)\<^sup>2) / real (d2 z) = 0"
proof -
  have m: "mean_last x i j = c"
    using n c by (simp add: mean_last_def)
  have s: "std_last x i j = 0"
    using c by (simp add: std_last_def m)
  note st = layer_norm_statistics[OF a n e, of i j, folded y_def, folded z_def]
  show zk: "\<forall>k<d2 x. at3 z i j k = 0"
    using st(1) c m by simp
  show "(std_last z i j)\<^sup>2 = 0"
    using st(3) s by simp
  have dz: "d2 z = d2 x" by (simp add: z_def y_def LayerNormalization_forward_def)
  show "(\<Sum>k<d2 z. (at3 z i j k - mean_last z i j)\<^sup>2) / real (d2 z) = 0"
    using zk st(2) by (simp add: dz)
qed

lemma constant_row_simps [simp]:
  "d2 constant_row = 3" "at3 constant_row i j k = 1"
  by (simp_all add: constant_row_def)

lemma example_norm_simps [simp]:
  "alpha example_norm = 1" "eps example_norm = default_eps" "ln_bias example_norm = 0"
  by (simp_all add: example_norm_eq)

text \<open>
  Claim C4, amended. With a scale \<open>alpha \<noteq> 0\<close>, a positive \<open>eps\<close> and at least two
  features, the values \<open>(output - bias) / alpha\<close> of \<^verbatim>\<open>LayerNormalization.forward\<close> are
  \<open>(x - mean) / (std + eps)\<close>, with \<open>std\<close> the sample standard deviation of the row; along
  the last dimension their mean is 0 and their sample variance is
  \<open>(std / (std + eps))\<^sup>2\<close>. On a row whose entries are all equal these values are all 0
  and so is their variance.
\<close>

theorem layer_norm_mean_and_variance:
  assumes "alpha self \<noteq> 0" and "2 \<le> d2 x" and "0 < eps self"
  shows "let y = LayerNormalization_forward self x;
             z = y\<lparr>at3 := (\<lambda>i j k. (at3 y i j k - ln_bias self) / alpha self)\<rparr>
         in (\<forall>k. at3 z i j k = (at3 x i j k - mean_last x i j) / (std_last x i j + eps self))
            \<and> mean_last z i j = 0
            \<and> (std_last z i j)\<^sup>2 = (std_last x i j / (std_last x i j + eps self))\<^sup>2
            \<and> ((\<forall>k<d2 x. at3 x i j k = c) \<longrightarrow>
                  (\<forall>k<d2 x. at3 z i j k = 0) \<and> (std_last z i j)\<^sup>2 = 0)"
  unfolding Let_def
  using layer_norm_statistics[OF assms] layer_norm_constant(1,2)[OF assms]
  by blast

text \<open>
  The claim as stated fails: for the constant row \<open>(1, 1, 1)\<close> and the constructor's
  parameters the normalized values are all 0; their variance is 0, not 1, the sample
  variance as well as the population variance.
\<close>

theorem layer_norm_variance_counterexample:
  "let self = example_norm;
       y = LayerNormalization_forward self constant_row;
       z = y\<lparr>at3 := (\<lambda>i j k. (at3 y i j k - ln_bias self) / alpha self)\<rparr>
   in (std_last z 0 0)\<^sup>2 = 0 \<and> (std_last z 0 0)\<^sup>2 \<noteq> 1
      \<and> (\<Sum>k<d2 z. (at3 z 0 0 k - mean_last z 0 0)\<^sup>2) / real (d2 z) \<noteq> 1"
proof -
  have a: "alpha example_norm \<noteq> 0" "2 \<le> d2 constant_row" "0 < eps example_norm"
    "\<forall>k<d2 constant_row. at3 constant_row 0 0 k = 1"
    by (simp_all add: default_eps_def)
  let ?y = "LayerNormalization_forward example_norm constant_row"
  let ?z = "?y\<lparr>at3 := (\<lambda>i j k. (at3 ?y i j k - ln_bias example_norm) / alpha example_norm)\<rparr>"
  have v: "(std_last ?z 0 0)\<^sup>2 = 0"
    by (rule layer_norm_constant(2)[OF a])
  have pv: "(\<Sum>k<d2 ?z. (at3 ?z 0 0 k - mean_last ?z 0 0)\<^sup>2) / real (d2 ?z) = 0"
    by (rule layer_norm_constant(3)[OF a])
  show ?thesis
    unfolding Let_def v pv by simp
qed

theorem layer_norm_mean_and_variance_witness:
  "(let self = example_norm;
        y = LayerNormalization_forward self example_row;
        z = y\<lparr>at3 := (\<lambda>i j k. (at3 y i j k - ln_bias self) / alpha self)\<rparr>
    in mean_last z 0 0 = 0 \<and> (std_last z 0 0)\<^sup>2 = (2 / (2 + default_eps))\<^sup>2)
   \<and> (let self = example_norm;
           y = LayerNormalization_forward self constant_row;
           z = y\<lparr>at3 := (\<lambda>i j k. (at3 y i j k - ln_bias self) / alpha self)\<rparr>
       in mean_last z 0 0 = 0 \<and> at3 z 0 0 2 = 0 \<and> (std_last z 0 0)\<^sup>2 = 0)"
proof -
  have a: "alpha example_norm \<noteq> 0" "2 \<le> d2 example_row" "0 < eps example_norm"
    and b: "2 \<le> d2 constant_row" "\<forall>k<d2 constant_row. at3 constant_row 0 0 k = 1"
    by (simp_all add: default_eps_def)
  let ?y = "LayerNormalization_forward example_norm example_row"
  let ?z = "?y\<lparr>at3 := (\<lambda>i j k. (at3 ?y i j k - ln_bias example_norm) / alpha example_norm)\<rparr>"
  let ?y' = "LayerNormalization_forward example_norm constant_row"
  let ?z' = "?y'\<lparr>at3 := (\<lambda>i j k. (at3 ?y' i j k - ln_bias example_norm) / alpha example_norm)\<rparr>"
  note t = layer_norm_mean_and_variance[OF a, of 0 0 0, unfolded Let_def]
  note t' = layer_norm_mean_and_variance[OF a(1) b(1) a(3), of 0 0 1, unfolded Let_def]
  from t have m: "mean_last ?z 0 0 = 0"
    and "(std_last ?z 0 0)\<^sup>2
      = (std_last example_row 0 0 / (std_last example_row 0 0 + eps example_norm))\<^sup>2"
    by blast+
  then have v: "(std_last ?z 0 0)\<^sup>2 = (2 / (2 + default_eps))\<^sup>2"
    by (simp only: std_last_example_row example_norm_simps)
  from t' b(2) have m': "mean_last ?z' 0 0 = 0"
    and z': "\<forall>k<d2 constant_row. at3 ?z' 0 0 k = 0" and v': "(std_last ?z' 0 0)\<^sup>2 = 0"
    by blast+
  have "(2::nat) < d2 constant_row" by simp
  with z' have k: "at3 ?z' 0 0 2 = 0" by blast
  show ?thesis
    unfolding Let_def using m v m' k v' by blast
qed

section \<open>Shapes through the decoder; the entry points on well-formed models\<close>

lemma db_forget_update_scores [simp]:
  "db_forget (b\<lparr>db_self_attention_block := (db_self_attention_block b)\<lparr>attention_scores := s\<rparr>,
               db_cross_attention_block := (db_cross_attention_block b)\<lparr>attention_scores := t\<rparr>\<rparr>)
     = db_forget b"
  by (simp add: db_forget_def mha_forget_def)

lemma DecoderBlock_forward_Inr:
  assumes wf: "wf_db D n b" and x: "shape3 x = (B, S, D)" and eo: "shape3 eo = (B, S', D)"
    and B: "0 < B" and tm: "mask_fits tm B (nat n) S S" and sm: "mask_fits sm B (nat n) S S'"
  shows "\<exists>y sc tc. DecoderBlock_forward b \<rho> x eo sm tm
            = Inr (y, b\<lparr>db_self_attention_block :=
                          (db_self_attention_block b)\<lparr>attention_scores := Some sc\<rparr>,
                        db_cross_attention_block :=
                          (db_cross_attention_block b)\<lparr>attention_scores := Some tc\<rparr>\<rparr>)
           \<and> shape3 y = (B, S, D)"
proof -
  let ?sab = "db_self_attention_block b" and ?cab = "db_cross_attention_block b"
  let ?rcs = "residual_connection b"
  from wf have ws: "wf_mha D ?sab" and hs: "h ?sab = n"
    and wc: "wf_mha D ?cab" and hc: "h ?cab = n"
    and wff: "wf_ffb D (db_feed_forward_block b)" and len: "length ?rcs = 3"
    by (simp_all add: wf_db_def)
  have g: "getitem ?rcs 0 = Inr (?rcs ! 0)" "getitem ?rcs 1 = Inr (?rcs ! 1)"
    "getitem ?rcs 2 = Inr (?rcs ! 2)"
    using len by (simp_all add: getitem_def)
  let ?n0 = "LayerNormalization_forward (rc_norm (?rcs ! 0)) x"
  have sn0: "shape3 ?n0 = (B, S, D)" using x by simp
  from MultiHeadAttentionBlock_forward_Inr[OF ws sn0 sn0 sn0 B, where msk = tm
      and \<rho> = "sub 1 \<rho>"] tm hs
  obtain y1 sc where
    y1: "MultiHeadAttentionBlock_forward ?sab (sub 1 \<rho>) ?n0 ?n0 ?n0 tm
           = Inr (y1, ?sab\<lparr>attention_scores := Some sc\<rparr>)"
    and sy1: "shape3 y1 = (B, S, D)" by auto
  from residual_connection_shape[where sublayer =
        "\<lambda>x. MultiHeadAttentionBlock_forward ?sab (sub 1 \<rho>) x x x tm"
        and self = "?rcs ! 0" and \<rho> = "sub 0 \<rho>", OF y1] sy1 x
  obtain z1 where z1: "ResidualConnection_forward (?rcs ! 0) (sub 0 \<rho>) x
        (\<lambda>x. MultiHeadAttentionBlock_forward ?sab (sub 1 \<rho>) x x x tm)
        = Inr (z1, ?sab\<lparr>attention_scores := Some sc\<rparr>)"
    and sz1: "shape3 z1 = (B, S, D)" by auto
  let ?n1 = "LayerNormalization_forward (rc_norm (?rcs ! 1)) z1"
  have sn1: "shape3 ?n1 = (B, S, D)" using sz1 by simp
  from MultiHeadAttentionBlock_forward_Inr[OF wc sn1 eo eo B, where msk = sm
      and \<rho> = "sub 3 \<rho>"] sm hc
  obtain y2 tc where
    y2: "MultiHeadAttentionBlock_forward ?cab (sub 3 \<rho>) ?n1 eo eo sm
           = Inr (y2, ?cab\<lparr>attention_scores := Some tc\<rparr>)"
    and sy2: "shape3 y2 = (B, S, D)" by auto
  from residual_connection_shape[where sublayer =
        "\<lambda>x. MultiHeadAttentionBlock_forward ?cab (sub 3 \<rho>) x eo eo sm"
        and self = "?rcs ! 1" and \<rho> = "sub 2 \<rho>", OF y2] sy2 sz1
  obtain z2 where z2: "ResidualConnection_forward (?rcs ! 1) (sub 2 \<rho>) z1
        (\<lambda>x. MultiHeadAttentionBlock_forward ?cab (sub 3 \<rho>) x eo eo sm)
        = Inr (z2, ?cab\<lparr>attention_scores := Some tc\<rparr>)"
    and sz2: "shape3 z2 = (B, S, D)" by auto
  let ?n2 = "LayerNormalization_forward (rc_norm (?rcs ! 2)) z2"
  have sn2: "shape3 ?n2 = (B, S, D)" using sz2 by simp
  from FeedForwardBlock_forward_Inr[OF wff sn2, where \<rho> = "sub 5 \<rho>"]
  obtain y3 where y3: "FeedForwardBlock_forward (db_feed_forward_block b) (sub 5 \<rho>) ?n2 = Inr y3"
    and sy3: "shape3 y3 = (B, S, D)" by blast
  let ?ff = "\<lambda>x. thenE (FeedForwardBlock_forward (db_feed_forward_block b) (sub 5 \<rho>) x)
                  (\<lambda>y. Inr (y, ()))"
  have "?ff ?n2 = Inr (y3, ())" using y3 by simp
  from residual_connection_shape[where sublayer = ?ff and self = "?rcs ! 2"
        and \<rho> = "sub 4 \<rho>", OF this] sy3 sz2
  obtain z3 where z3: "ResidualConnection_forward (?rcs ! 2) (sub 4 \<rho>) z2 ?ff = Inr (z3, ())"
    and sz3: "shape3 z3 = (B, S, D)" by auto
  have "DecoderBlock_forward b \<rho> x eo sm tm
      = Inr (z3, b\<lparr>db_self_attention_block := ?sab\<lparr>attention_scores := Some sc\<rparr>,
                    db_cross_attention_block := ?cab\<lparr>attention_scores := Some tc\<rparr>\<rparr>)"
    using g z1 z2 z3 by (simp add: DecoderBlock_forward_def)
  then show ?thesis using sz3 by blast
qed

lemma Decoder_loop_Inr:
  assumes "list_all (wf_db D n) ls" and "shape3 x = (B, S, D)" and "shape3 eo = (B, S', D)"
    and "0 < B" and "mask_fits tm B (nat n) S S" and "mask_fits sm B (nat n) S S'"
  shows "\<exists>y ls'. Decoder_loop ls \<rho> k x eo sm tm = Inr (y, ls') \<and> shape3 y = (B, S, D)
           \<and> map db_forget ls' = map db_forget ls"
  using assms
proof (induction ls arbitrary: x k)
  case Nil
  then show ?case by simp
next
  case (Cons l ls)
  from Cons.prems(1) have wl: "wf_db D n l" and wls: "list_all (wf_db D n) ls" by simp_all
  from DecoderBlock_forward_Inr[OF wl Cons.prems(2-6), where \<rho> = "sub k \<rho>"]
  obtain y sc tc where
    y: "DecoderBlock_forward l (sub k \<rho>) x eo sm tm
          = Inr (y, l\<lparr>db_self_attention_block :=
                          (db_self_attention_block l)\<lparr>attention_scores := Some sc\<rparr>,
                        db_cross_attention_block :=
                          (db_cross_attention_block l)\<lparr>attention_scores := Some tc\<rparr>\<rparr>)"
    and sy: "shape3 y = (B, S, D)" by blast
  from Cons.IH[OF wls sy Cons.prems(3-6), where k = "Suc k"]
  obtain z ls' where z: "Decoder_loop ls \<rho> (Suc k) y eo sm tm = Inr (z, ls')"
    and sz: "shape3 z = (B, S, D)" and f: "map db_forget ls' = map db_forget ls"
    by blast
  show ?case
    using y z sz f by simp
qed

lemma encode_wf_Inr:
  assumes wf: "wf_source m sv ssl D n"
    and B: "0 < i0 src" and S: "int (i1 src) \<le> ssl"
    and tok: "tokens_below src sv" and msk: "mask_fits msk (i0 src) (nat n) (i1 src) (i1 src)"
  shows "\<exists>y m'. encode m \<rho> src msk = Inr (y, m') \<and> shape3 y = (i0 src, i1 src, D)
           \<and> forget_scores m' = forget_scores m
           \<and> (enc_layers (encoder m) \<noteq> [] \<longrightarrow>
                attention_scores (eb_self_attention_block (hd (enc_layers (encoder m')))) \<noteq> None)"
proof -
  from wf have v: "0 \<le> sv" and dm: "0 \<le> ie_d_model (src_embed m)"
    and ne: "num_embeddings (embedding (src_embed m)) = nat sv"
    and ed: "embedding_dim (embedding (src_embed m)) = D"
    and ps: "shape3 (pe (src_pos m)) = (1, nat ssl, D)"
    and ls: "list_all (wf_eb D n) (enc_layers (encoder m))"
    by (simp_all add: wf_source_def)
  have "tokens_below src (int (num_embeddings (embedding (src_embed m))))"
    using tok v by (simp add: ne)
  then obtain x0 where
    x0: "InputEmbedding_forward (src_embed m) src = Inr x0"
    and s0: "shape3 x0 = (i0 src, i1 src, D)"
    using InputEmbedding_forward_Inr[of src "src_embed m"] dm by (auto simp: ed)
  have "i1 src \<le> nat ssl" using S by simp
  from PositionalEncoding_forward_Inr[OF ps s0 this, where \<rho> = "sub 0 \<rho>"]
  obtain x1 where x1: "PositionalEncoding_forward (src_pos m) (sub 0 \<rho>) x0 = Inr x1"
    and s1: "shape3 x1 = (i0 src, i1 src, D)" by blast
  from Encoder_forward_Inr[OF ls s1 B msk, where \<rho> = "sub 1 \<rho>"]
  obtain y ls' where
    y: "Encoder_forward (encoder m) (sub 1 \<rho>) x1 msk = Inr (y, (encoder m)\<lparr>enc_layers := ls'\<rparr>)"
    and sy: "shape3 y = (i0 src, i1 src, D)"
    and ef: "map eb_forget ls' = map eb_forget (enc_layers (encoder m))"
    and sc: "enc_layers (encoder m) \<noteq> [] \<longrightarrow>
               attention_scores (eb_self_attention_block (hd ls')) \<noteq> None"
    by blast
  have "encode m \<rho> src msk = Inr (y, m\<lparr>encoder := (encoder m)\<lparr>enc_layers := ls'\<rparr>\<rparr>)"
    using x0 x1 y by (simp add: encode_def)
  moreover have "forget_scores (m\<lparr>encoder := (encoder m)\<lparr>enc_layers := ls'\<rparr>\<rparr>) = forget_scores m"
    using ef by (simp add: forget_scores_def)
  ultimately show ?thesis using sy sc by auto
qed

lemma decode_wf_Inr:
  assumes wf: "wf_target m tv tsl D n"
    and B: "0 < i0 tgt" and S: "int (i1 tgt) \<le> tsl" and tok: "tokens_below tgt tv"
    and eo: "shape3 eo = (i0 tgt, S', D)"
    and tm: "mask_fits tm (i0 tgt) (nat n) (i1 tgt) (i1 tgt)"
    and sm: "mask_fits sm (i0 tgt) (nat n) (i1 tgt) S'"
  shows "\<exists>y m'. decode m \<rho> eo sm tgt tm = Inr (y, m') \<and> shape3 y = (i0 tgt, i1 tgt, D)
           \<and> forget_scores m' = forget_scores m"
proof -
  from wf have v: "0 \<le> tv" and dm: "0 \<le> ie_d_model (tgt_embed m)"
    and ne: "num_embeddings (embedding (tgt_embed m)) = nat tv"
    and ed: "embedding_dim (embedding (tgt_embed m)) = D"
    and ps: "shape3 (pe (tgt_pos m)) = (1, nat tsl, D)"
    and ls: "list_all (wf_db D n) (dec_layers (decoder m))"
    by (simp_all add: wf_target_def)
  have "tokens_below tgt (int (num_embeddings (embedding (tgt_embed m))))"
    using tok v by (simp add: ne)
  then obtain x0 where
    x0: "InputEmbedding_forward (tgt_embed m) tgt = Inr x0"
    and s0: "shape3 x0 = (i0 tgt, i1 tgt, D)"
    using InputEmbedding_forward_Inr[of tgt "tgt_embed m"] dm by (auto simp: ed)
  have "i1 tgt \<le> nat tsl" using S by simp
  from PositionalEncoding_forward_Inr[OF ps s0 this, where \<rho> = "sub 2 \<rho>"]
  obtain x1 where x1: "PositionalEncoding_forward (tgt_pos m) (sub 2 \<rho>) x0 = Inr x1"
    and s1: "shape3 x1 = (i0 tgt, i1 tgt, D)" by blast
  from Decoder_loop_Inr[OF ls s1 eo B tm sm, where \<rho> = "sub 3 \<rho>" and k = 0]
  obtain y ls' where
    y: "Decoder_loop (dec_layers (decoder m)) (sub 3 \<rho>) 0 x1 eo sm tm = Inr (y, ls')"
    and sy: "shape3 y = (i0 tgt, i1 tgt, D)"
    and ef: "map db_forget ls' = map db_forget (dec_layers (decoder m))"
    by blast
  have "decode m \<rho> eo sm tgt tm
      = Inr (LayerNormalization_forward (dec_norm (decoder m)) y,
             m\<lparr>decoder := (decoder m)\<lparr>dec_layers := ls'\<rparr>\<rparr>)"
    using x0 x1 y by (simp add: decode_def Decoder_forward_def)
  moreover have "forget_scores (m\<lparr>decoder := (decoder m)\<lparr>dec_layers := ls'\<rparr>\<rparr>) = forget_scores m"
    using ef by (simp add: forget_scores_def)
  ultimately show ?thesis using sy by simp
qed

lemma build_transformer_wf:
  assumes "build_transformer mem g sv tv ssl tsl d N n q f = Inr m" and "0 < n"
  shows "wf_source m sv ssl (nat d) n" and "wf_target m tv tsl (nat d) n"
  using build_transformer_Inr[OF assms(1)] assms(2)
  by (simp_all add: wf_source_def wf_target_def)

section \<open>What a forward call writes\<close>

lemma MultiHeadAttentionBlock_forward_frame:
  assumes "MultiHeadAttentionBlock_forward b \<rho> q k v msk = Inr (y, b')"
  shows "mha_forget b' = mha_forget b"
  using assms
  by (auto simp: MultiHeadAttentionBlock_forward_def thenE_eq_Inr mha_forget_def)

lemma ResidualConnection_forward_frame:
  assumes "ResidualConnection_forward self \<rho> x sublayer = Inr (z, s)"
  shows "\<exists>y. sublayer (LayerNormalization_forward (rc_norm self) x) = Inr (y, s)"
  using assms
  by (auto simp: ResidualConnection_forward_def thenE_eq_Inr)

lemma EncoderBlock_forward_frame:
  assumes "EncoderBlock_forward b \<rho> x msk = Inr (y, b')"
  shows "eb_forget b' = eb_forget b"
proof -
  from assms obtain rc0 x1 sab where
    r: "ResidualConnection_forward rc0 (sub 0 \<rho>) x
          (\<lambda>x. MultiHeadAttentionBlock_forward (eb_self_attention_block b) (sub 1 \<rho>) x x x msk)
        = Inr (x1, sab)"
    and b': "b' = b\<lparr>eb_self_attention_block := sab\<rparr>"
    by (auto simp: EncoderBlock_forward_def thenE_eq_Inr)
  from ResidualConnection_forward_frame[OF r] obtain y1 where
    "MultiHeadAttentionBlock_forward (eb_self_attention_block b) (sub 1 \<rho>)
       (LayerNormalization_forward (rc_norm rc0) x) (LayerNormalization_forward (rc_norm rc0) x)
       (LayerNormalization_forward (rc_norm rc0) x) msk = Inr (y1, sab)"
    by blast
  from MultiHeadAttentionBlock_forward_frame[OF this] show ?thesis
    by (simp add: b' eb_forget_def)
qed

lemma Encoder_loop_frame:
  assumes "Encoder_loop ls \<rho> k x msk = Inr (y, ls')"
  shows "map eb_forget ls' = map eb_forget ls"
  using assms
proof (induction ls arbitrary: k x y ls')
  case Nil
  then show ?case by simp
next
  case (Cons l ls)
  from Cons.prems obtain x1 l1 y1 ls1 where
    a: "EncoderBlock_forward l (sub k \<rho>) x msk = Inr (x1, l1)"
    and b: "Encoder_loop ls \<rho> (Suc k) x1 msk = Inr (y1, ls1)"
    and c: "ls' = l1 # ls1"
    by (auto simp: thenE_eq_Inr)
  show ?case
    using EncoderBlock_forward_frame[OF a] Cons.IH[OF b] by (simp add: c)
qed

lemma encode_frame:
  assumes "encode m \<rho> src msk = Inr (y, m')"
  shows "forget_scores m' = forget_scores m"
proof -
  from assms obtain x1 y1 ls' where
    "Encoder_loop (enc_layers (encoder m)) (sub 1 \<rho>) 0 x1 msk = Inr (y1, ls')"
    and m': "m' = m\<lparr>encoder := (encoder m)\<lparr>enc_layers := ls'\<rparr>\<rparr>"
    by (auto simp: encode_def Encoder_forward_def thenE_eq_Inr)
  from Encoder_loop_frame[OF this(1)] show ?thesis
    by (simp add: m' forget_scores_def)
qed

lemma DecoderBlock_forward_frame:
  assumes "DecoderBlock_forward b \<rho> x eo sm tm = Inr (y, b')"
  shows "db_forget b' = db_forget b"
proof -
  from assms obtain rc0 x1 sab rc1 x2 cab where
    r0: "ResidualConnection_forward rc0 (sub 0 \<rho>) x
          (\<lambda>x. MultiHeadAttentionBlock_forward (db_self_attention_block b) (sub 1 \<rho>) x x x tm)
        = Inr (x1, sab)"
    and r1: "ResidualConnection_forward rc1 (sub 2 \<rho>) x1
          (\<lambda>x. MultiHeadAttentionBlock_forward (db_cross_attention_block b) (sub 3 \<rho>) x eo eo sm)
        = Inr (x2, cab)"
    and b': "b' = b\<lparr>db_self_attention_block := sab, db_cross_attention_block := cab\<rparr>"
    by (auto simp: DecoderBlock_forward_def thenE_eq_Inr)
  from ResidualConnection_forward_frame[OF r0] obtain y1 where
    a: "MultiHeadAttentionBlock_forward (db_self_attention_block b) (sub 1 \<rho>)
       (LayerNormalization_forward (rc_norm rc0) x) (LayerNormalization_forward (rc_norm rc0) x)
       (LayerNormalization_forward (rc_norm rc0) x) tm = Inr (y1, sab)"
    by blast
  from ResidualConnection_forward_frame[OF r1] obtain y2 where
    c: "MultiHeadAttentionBlock_forward (db_cross_attention_block b) (sub 3 \<rho>)
       (LayerNormalization_forward (rc_norm rc1) x1) eo eo sm = Inr (y2, cab)"
    by blast
  show ?thesis
    using MultiHeadAttentionBlock_forward_frame[OF a] MultiHeadAttentionBlock_forward_frame[OF c]
    by (simp add: b' db_forget_def)
qed

lemma Decoder_loop_frame:
  assumes "Decoder_loop ls \<rho> k x eo sm tm = Inr (y, ls')"
  shows "map db_forget ls' = map db_forget ls"
  using assms
proof (induction ls arbitrary: k x y ls')
  case Nil
  then show ?case by simp
next
  case (Cons l ls)
  from Cons.prems obtain x1 l1 y1 ls1 where
    a: "DecoderBlock_forward l (sub k \<rho>) x eo sm tm = Inr (x1, l1)"
    and b: "Decoder_loop ls \<rho> (Suc k) x1 eo sm tm = Inr (y1, ls1)"
    and c: "ls' = l1 # ls1"
    by (auto simp: thenE_eq_Inr)
  show ?case
    using DecoderBlock_forward_frame[OF a] Cons.IH[OF b] by (simp add: c)
qed

lemma decode_frame:
  assumes "decode m \<rho> eo sm tgt tm = Inr (y, m')"
  shows "forget_scores m' = forget_scores m"
proof -
  from assms obtain x1 y1 ls' where
    "Decoder_loop (dec_layers (decoder m)) (sub 3 \<rho>) 0 x1 eo sm tm = Inr (y1, ls')"
    and m': "m' = m\<lparr>decoder := (decoder m)\<lparr>dec_layers := ls'\<rparr>\<rparr>"
    by (auto simp: decode_def Decoder_forward_def thenE_eq_Inr)
  from Decoder_loop_frame[OF this(1)] show ?thesis
    by (simp add: m' forget_scores_def)
qed

lemma project_frame:
  assumes "project m x = Inr (y, m')"
  shows "m' = m"
  using assms by (auto simp: project_def thenE_eq_Inr)

section \<open>The attention cache is the only state a forward call writes\<close>

lemma build_encoder_block_scores:
  assumes "build_encoder_block mem g d n q f = Inr b"
  shows "attention_scores (eb_self_attention_block b) = None"
  using assms
  by (auto simp: build_encoder_block_def EncoderBlock_init_def MultiHeadAttentionBlock_init_def
      thenE_eq_Inr split: if_splits)

lemma build_transformer_scores:
  assumes "build_transformer mem g sv tv ssl tsl d N n q f = Inr m"
  shows "list_all (\<lambda>b. attention_scores (eb_self_attention_block b) = None)
           (enc_layers (encoder m))"
proof -
  from assms obtain ebs where
    ebs: "mapE (\<lambda>i. build_encoder_block (sub i (sub 2 mem)) (sub i (sub 2 g)) d n q f)
            [0..<nat N] = Inr ebs"
    and m: "enc_layers (encoder m) = ebs"
    unfolding build_transformer_def thenE_eq_Inr
    by (auto simp: Encoder_init_def thenE_eq_Inr)
  from mapE_Inr_all[OF ebs, of "\<lambda>b. attention_scores (eb_self_attention_block b) = None"]
  show ?thesis
    using build_encoder_block_scores by (simp add: m)
qed

lemma list_all_hd: "list_all P xs \<Longrightarrow> xs \<noteq> [] \<Longrightarrow> P (hd xs)"
  by (cases xs) simp_all

text \<open>What is written, block by block.\<close>

lemma MultiHeadAttentionBlock_forward_writes:
  assumes "MultiHeadAttentionBlock_forward b \<rho> q k v msk = Inr (y, b')"
  shows "\<exists>sc. attention_weights b \<rho> q k v msk = Inr sc \<and> b' = b\<lparr>attention_scores := Some sc\<rparr>"
  using assms
  by (auto simp: MultiHeadAttentionBlock_forward_def attention_weights_def thenE_eq_Inr)

lemma EncoderBlock_forward_writes:
  assumes "EncoderBlock_forward l \<rho> x msk = Inr (y, l')"
  shows "\<exists>\<rho>' x' sc.
           attention_weights (eb_self_attention_block l) \<rho>' x' x' x' msk = Inr sc
           \<and> l' = l\<lparr>eb_self_attention_block :=
                      (eb_self_attention_block l)\<lparr>attention_scores := Some sc\<rparr>\<rparr>"
proof -
  from assms obtain rc0 x1 sab where
    r: "ResidualConnection_forward rc0 (sub 0 \<rho>) x
          (\<lambda>x. MultiHeadAttentionBlock_forward (eb_self_attention_block l) (sub 1 \<rho>) x x x msk)
        = Inr (x1, sab)"
    and l': "l' = l\<lparr>eb_self_attention_block := sab\<rparr>"
    by (auto simp: EncoderBlock_forward_def thenE_eq_Inr)
  from ResidualConnection_forward_frame[OF r] obtain y1 where
    "MultiHeadAttentionBlock_forward (eb_self_attention_block l) (sub 1 \<rho>)
       (LayerNormalization_forward (rc_norm rc0) x) (LayerNormalization_forward (rc_norm rc0) x)
       (LayerNormalization_forward (rc_norm rc0) x) msk = Inr (y1, sab)"
    by blast
  from MultiHeadAttentionBlock_forward_writes[OF this] show ?thesis
    unfolding l' by blast
qed

lemma Encoder_loop_writes:
  assumes "Encoder_loop ls \<rho> k x msk = Inr (y, ls')"
  shows "list_all2 (\<lambda>l l'. \<exists>\<rho>' x' sc.
             attention_weights (eb_self_attention_block l) \<rho>' x' x' x' msk = Inr sc
             \<and> l' = l\<lparr>eb_self_attention_block :=
                        (eb_self_attention_block l)\<lparr>attention_scores := Some sc\<rparr>\<rparr>) ls ls'"
  using assms
proof (induction ls arbitrary: k x y ls')
  case Nil
  then show ?case by simp
next
  case (Cons l ls)
  from Cons.prems obtain x1 l1 y1 ls1 where
    a: "EncoderBlock_forward l (sub k \<rho>) x msk = Inr (x1, l1)"
    and b: "Encoder_loop ls \<rho> (Suc k) x1 msk = Inr (y1, ls1)"
    and c: "ls' = l1 # ls1"
    by (auto simp: thenE_eq_Inr)
  show ?case
    unfolding c list_all2_Cons
    using EncoderBlock_forward_writes[OF a] Cons.IH[OF b] by (rule conjI)
qed

lemma encode_writes:
  assumes "encode m \<rho> src msk = Inr (y, m')"
  shows "\<exists>ls'. m' = m\<lparr>encoder := (encoder m)\<lparr>enc_layers := ls'\<rparr>\<rparr>
           \<and> list_all2 (\<lambda>l l'. \<exists>\<rho>' x' sc.
                 attention_weights (eb_self_attention_block l) \<rho>' x' x' x' msk = Inr sc
                 \<and> l' = l\<lparr>eb_self_attention_block :=
                            (eb_self_attention_block l)\<lparr>attention_scores := Some sc\<rparr>\<rparr>)
               (enc_layers (encoder m)) ls'"
proof -
  from assms obtain x1 y1 ls' where
    "Encoder_loop (enc_layers (encoder m)) (sub 1 \<rho>) 0 x1 msk = Inr (y1, ls')"
    and m': "m' = m\<lparr>encoder := (encoder m)\<lparr>enc_layers := ls'\<rparr>\<rparr>"
    by (auto simp: encode_def Encoder_forward_def thenE_eq_Inr)
  from Encoder_loop_writes[OF this(1)] m' show ?thesis by blast
qed

lemma DecoderBlock_forward_writes:
  assumes "DecoderBlock_forward l \<rho> x eo sm tm = Inr (y, l')"
  shows "\<exists>\<rho>' x' sc \<rho>'' x'' tc.
           attention_weights (db_self_attention_block l) \<rho>' x' x' x' tm = Inr sc
           \<and> attention_weights (db_cross_attention_block l) \<rho>'' x'' eo eo sm = Inr tc
           \<and> l' = l\<lparr>db_self_attention_block :=
                        (db_self_attention_block l)\<lparr>attention_scores := Some sc\<rparr>,
                      db_cross_attention_block :=
                        (db_cross_attention_block l)\<lparr>attention_scores := Some tc\<rparr>\<rparr>"
proof -
  from assms obtain rc0 x1 sab rc1 x2 cab where
    r0: "ResidualConnection_forward rc0 (sub 0 \<rho>) x
          (\<lambda>x. MultiHeadAttentionBlock_forward (db_self_attention_block l) (sub 1 \<rho>) x x x tm)
        = Inr (x1, sab)"
    and r1: "ResidualConnection_forward rc1 (sub 2 \<rho>) x1
          (\<lambda>x. MultiHeadAttentionBlock_forward (db_cross_attention_block l) (sub 3 \<rho>) x eo eo sm)
        = Inr (x2, cab)"
    and l': "l' = l\<lparr>db_self_attention_block := sab, db_cross_attention_block := cab\<rparr>"
    by (auto simp: DecoderBlock_forward_def thenE_eq_Inr)
  from ResidualConnection_forward_frame[OF r0] obtain y1 where
    a: "MultiHeadAttentionBlock_forward (db_self_attention_block l) (sub 1 \<rho>)
       (LayerNormalization_forward (rc_norm rc0) x) (LayerNormalization_forward (rc_norm rc0) x)
       (LayerNormalization_forward (rc_norm rc0) x) tm = Inr (y1, sab)"
    by blast
  from ResidualConnection_forward_frame[OF r1] obtain y2 where
    c: "MultiHeadAttentionBlock_forward (db_cross_attention_block l) (sub 3 \<rho>)
       (LayerNormalization_forward (rc_norm rc1) x1) eo eo sm = Inr (y2, cab)"
    by blast
  from MultiHeadAttentionBlock_forward_writes[OF a] MultiHeadAttentionBlock_forward_writes[OF c]
  show ?thesis
    unfolding l' by blast
qed

lemma Decoder_loop_writes:
  assumes "Decoder_loop ls \<rho> k x eo sm tm = Inr (y, ls')"
  shows "list_all2 (\<lambda>l l'. \<exists>\<rho>' x' sc \<rho>'' x'' tc.
             attention_weights (db_self_attention_block l) \<rho>' x' x' x' tm = Inr sc
             \<and> attention_weights (db_cross_attention_block l) \<rho>'' x'' eo eo sm = Inr tc
             \<and> l' = l\<lparr>db_self_attention_block :=
                          (db_self_attention_block l)\<lparr>attention_scores := Some sc\<rparr>,
                        db_cross_attention_block :=
                          (db_cross_attention_block l)\<lparr>attention_scores := Some tc\<rparr>\<rparr>) ls ls'"
  using assms
proof (induction ls arbitrary: k x y ls')
  case Nil
  then show ?case by simp
next
  case (Cons l ls)
  from Cons.prems obtain x1 l1 y1 ls1 where
    a: "DecoderBlock_forward l (sub k \<rho>) x eo sm tm = Inr (x1, l1)"
    and b: "Decoder_loop ls \<rho> (Suc k) x1 eo sm tm = Inr (y1, ls1)"
    and c: "ls' = l1 # ls1"
    by (auto simp: thenE_eq_Inr)
  show ?case
    unfolding c list_all2_Cons
    using DecoderBlock_forward_writes[OF a] Cons.IH[OF b] by (rule conjI)
qed

lemma decode_writes:
  assumes "decode m \<rho> eo sm tgt tm = Inr (y, m')"
  shows "\<exists>ls'. m' = m\<lparr>decoder := (decoder m)\<lparr>dec_layers := ls'\<rparr>\<rparr>
           \<and> list_all2 (\<lambda>l l'. \<exists>\<rho>' x' sc \<rho>'' x'' tc.
                 attention_weights (db_self_attention_block l) \<rho>' x' x' x' tm = Inr sc
                 \<and> attention_weights (db_cross_attention_block l) \<rho>'' x'' eo eo sm = Inr tc
                 \<and> l' = l\<lparr>db_self_attention_block :=
                              (db_self_attention_block l)\<lparr>attention_scores := Some sc\<rparr>,
                            db_cross_attention_block :=
                              (db_cross_attention_block l)\<lparr>attention_scores := Some tc\<rparr>\<rparr>)
               (dec_layers (decoder m)) ls'"
proof -
  from assms obtain x1 y1 ls' where
    "Decoder_loop (dec_layers (decoder m)) (sub 3 \<rho>) 0 x1 eo sm tm = Inr (y1, ls')"
    and m': "m' = m\<lparr>decoder := (decoder m)\<lparr>dec_layers := ls'\<rparr>\<rparr>"
    by (auto simp: decode_def Decoder_forward_def thenE_eq_Inr)
  from Decoder_loop_writes[OF this(1)] m' show ?thesis by blast
qed

text \<open>
  Claim C7, amended. The only attribute that a forward call writes is
  \<^verbatim>\<open>attention_scores\<close>, in the attention blocks that ran. A call of
  \<^verbatim>\<open>MultiHeadAttentionBlock.forward\<close> that returns leaves the block as it was except
  that \<^verbatim>\<open>attention_scores\<close> holds the attention weights computed from the arguments of
  this call. A call of \<^verbatim>\<open>encode\<close> that returns leaves the model as it was except for the
  layers of the encoder, and each of these as it was except that \<^verbatim>\<open>attention_scores\<close>
  of its self-attention block holds attention weights that the block computed under the
  source mask; the decoder and every other submodule are untouched. A call of \<^verbatim>\<open>decode\<close>
  that returns leaves the model as it was except for the layers of the decoder, and each
  of these as it was except that \<^verbatim>\<open>attention_scores\<close> of its self-attention block holds
  attention weights computed under the target mask and that of its cross-attention block
  attention weights computed with the encoder output as key and value under the source
  mask; the encoder is untouched. \<^verbatim>\<open>project\<close> writes nothing.
\<close>

theorem forward_writes_only_attention_scores:
  "(MultiHeadAttentionBlock_forward b \<rho> q k v msk = Inr (z, b') \<longrightarrow>
      (\<exists>sc. attention_weights b \<rho> q k v msk = Inr sc \<and> b' = b\<lparr>attention_scores := Some sc\<rparr>))
   \<and> (encode m \<rho> src msk = Inr (y, m') \<longrightarrow>
        (\<exists>ls'. m' = m\<lparr>encoder := (encoder m)\<lparr>enc_layers := ls'\<rparr>\<rparr>
           \<and> list_all2 (\<lambda>l l'. \<exists>\<rho>' x' sc.
                 attention_weights (eb_self_attention_block l) \<rho>' x' x' x' msk = Inr sc
                 \<and> l' = l\<lparr>eb_self_attention_block :=
                            (eb_self_attention_block l)\<lparr>attention_scores := Some sc\<rparr>\<rparr>)
               (enc_layers (encoder m)) ls'))
   \<and> (decode m \<rho> eo sm tgt tm = Inr (y, m') \<longrightarrow>
        (\<exists>ls'. m' = m\<lparr>decoder := (decoder m)\<lparr>dec_layers := ls'\<rparr>\<rparr>
           \<and> list_all2 (\<lambda>l l'. \<exists>\<rho>' x' sc \<rho>'' x'' tc.
                 attention_weights (db_self_attention_block l) \<rho>' x' x' x' tm = Inr sc
                 \<and> attention_weights (db_cross_attention_block l) \<rho>'' x'' eo eo sm = Inr tc
                 \<and> l' = l\<lparr>db_self_attention_block :=
                              (db_self_attention_block l)\<lparr>attention_scores := Some sc\<rparr>,
                            db_cross_attention_block :=
                              (db_cross_attention_block l)\<lparr>attention_scores := Some tc\<rparr>\<rparr>)
               (dec_layers (decoder m)) ls'))
   \<and> (project m x = Inr (y, m') \<longrightarrow> m' = m)"
proof (intro conjI impI)
  assume "MultiHeadAttentionBlock_forward b \<rho> q k v msk = Inr (z, b')"
  then show "\<exists>sc. attention_weights b \<rho> q k v msk = Inr sc
      \<and> b' = b\<lparr>attention_scores := Some sc\<rparr>"
    by (rule MultiHeadAttentionBlock_forward_writes)
next
  assume "encode m \<rho> src msk = Inr (y, m')"
  then show "\<exists>ls'. m' = m\<lparr>encoder := (encoder m)\<lparr>enc_layers := ls'\<rparr>\<rparr>
           \<and> list_all2 (\<lambda>l l'. \<exists>\<rho>' x' sc.
                 attention_weights (eb_self_attention_block l) \<rho>' x' x' x' msk = Inr sc
                 \<and> l' = l\<lparr>eb_self_attention_block :=
                            (eb_self_attention_block l)\<lparr>attention_scores := Some sc\<rparr>\<rparr>)
               (enc_layers (encoder m)) ls'"
    by (rule encode_writes)
next
  assume "decode m \<rho> eo sm tgt tm = Inr (y, m')"
  then show "\<exists>ls'. m' = m\<lparr>decoder := (decoder m)\<lparr>dec_layers := ls'\<rparr>\<rparr>
           \<and> list_all2 (\<lambda>l l'. \<exists>\<rho>' x' sc \<rho>'' x'' tc.
                 attention_weights (db_self_attention_block l) \<rho>' x' x' x' tm = Inr sc
                 \<and> attention_weights (db_cross_attention_block l) \<rho>'' x'' eo eo sm = Inr tc
                 \<and> l' = l\<lparr>db_self_attention_block :=
                              (db_self_attention_block l)\<lparr>attention_scores := Some sc\<rparr>,
                            db_cross_attention_block :=
                              (db_cross_attention_block l)\<lparr>attention_scores := Some tc\<rparr>\<rparr>)
               (dec_layers (decoder m)) ls'"
    by (rule decode_writes)
next
  assume "project m x = Inr (y, m')"
  then show "m' = m" by (rule project_frame)
qed

lemma example_tokens_simps [simp]:
  "i0 example_tokens = 1" "i1 example_tokens = 4" "tokens_below example_tokens 10"
  by (simp_all add: example_tokens_def tokens_below_iff)

lemma example_features_shape [simp]: "shape3 example_features = (1, 4, 8)"
  by (simp add: example_features_def shape3_def)

lemma mask_fits_None [simp]: "mask_fits None a b c d"
  by (simp add: mask_fits_def)

lemma example_encode:
  "\<exists>y m'. encode example_model \<rho> example_tokens None = Inr (y, m') \<and> shape3 y = (1, 4, 8)
     \<and> attention_scores (eb_self_attention_block (hd (enc_layers (encoder m')))) \<noteq> None"
  using encode_Inr[OF example_model_built, of example_tokens None \<rho>] by auto

lemma example_decode:
  "\<exists>y m'. decode example_model \<rho> example_features None example_tokens None = Inr (y, m')
     \<and> shape3 y = (1, 4, 8)"
  using decode_wf_Inr[OF build_transformer_wf(2)[OF example_model_built],
      of example_tokens example_features 4 None None \<rho>]
  by auto

text \<open>
  The claim as stated fails: \<^verbatim>\<open>encode\<close> on a model of one layer returns and leaves a
  model that differs from the one it was called on, in the attribute
  \<^verbatim>\<open>attention_scores\<close> of the layer's attention block.
\<close>

theorem encode_writes_attention_scores_counterexample:
  "case encode example_model (\<lambda>p i. True) example_tokens None of
     Inl e \<Rightarrow> False | Inr (y, m') \<Rightarrow> m' \<noteq> example_model"
proof -
  from example_encode obtain y m' where
    e: "encode example_model (\<lambda>p i. True) example_tokens None = Inr (y, m')"
    and s: "attention_scores (eb_self_attention_block (hd (enc_layers (encoder m')))) \<noteq> None"
    by blast
  have "length (enc_layers (encoder example_model)) = 1"
    using build_transformer_Inr(14)[OF example_model_built] by simp
  then have "enc_layers (encoder example_model) \<noteq> []" by auto
  from list_all_hd[OF build_transformer_scores[OF example_model_built] this]
  have "attention_scores (eb_self_attention_block (hd (enc_layers (encoder example_model)))) = None" .
  with s have "m' \<noteq> example_model" by auto
  with e show ?thesis by simp
qed

lemma example_attention_block_wf:
  "wf_mha 8 example_attention_block" "h example_attention_block = 2"
proof -
  have "length (enc_layers (encoder example_model)) = 1"
    using build_transformer_Inr(14)[OF example_model_built] by simp
  then have ne: "enc_layers (encoder example_model) \<noteq> []" by auto
  have "list_all (wf_eb 8 2) (enc_layers (encoder example_model))"
    using build_transformer_Inr(16)[OF example_model_built] by simp
  from list_all_hd[OF this ne]
  show "wf_mha 8 example_attention_block" "h example_attention_block = 2"
    by (simp_all add: wf_eb_def example_attention_block_def)
qed

theorem forward_writes_only_attention_scores_witness:
  "(\<exists>sc. attention_weights example_attention_block (\<lambda>p i. True) example_features
            example_features example_features None = Inr sc
         \<and> snd (projr (MultiHeadAttentionBlock_forward example_attention_block (\<lambda>p i. True)
                 example_features example_features example_features None))
           = example_attention_block\<lparr>attention_scores := Some sc\<rparr>)
   \<and> decoder (snd (projr (encode example_model (\<lambda>p i. True) example_tokens None)))
       = decoder example_model
   \<and> (\<exists>sc. enc_layers (encoder (snd (projr (encode example_model (\<lambda>p i. True) example_tokens
            None))))
         = [(hd (enc_layers (encoder example_model)))\<lparr>eb_self_attention_block :=
              example_attention_block\<lparr>attention_scores := Some sc\<rparr>\<rparr>])
   \<and> encoder (snd (projr (decode example_model (\<lambda>p i. True) example_features None
        example_tokens None))) = encoder example_model
   \<and> snd (projr (project example_model example_features)) = example_model"
proof -
  from MultiHeadAttentionBlock_forward_Inr[OF example_attention_block_wf(1),
      where q = example_features and k = example_features and v = example_features
        and B = 1 and S = 4 and S' = 4 and msk = None and \<rho> = "\<lambda>p i. True"]
  obtain y0 b0 where
    a: "MultiHeadAttentionBlock_forward example_attention_block (\<lambda>p i. True)
          example_features example_features example_features None = Inr (y0, b0)"
    by auto
  from example_encode obtain y1 m1 where
    e: "encode example_model (\<lambda>p i. True) example_tokens None = Inr (y1, m1)" by blast
  from example_decode obtain y2 m2 where
    d: "decode example_model (\<lambda>p i. True) example_features None example_tokens None
          = Inr (y2, m2)" by blast
  have "d2 example_features = in_features (proj (projection_layer example_model))"
    using build_transformer_Inr(18)[OF example_model_built]
    by (simp add: linear_dims_def example_features_def)
  from Linear_forward_Inr[OF this] obtain y3 where
    p: "project example_model example_features = Inr (y3, example_model)"
    by (auto simp: project_def ProjectionLayer_forward_def)
  have "length (enc_layers (encoder example_model)) = 1"
    using build_transformer_Inr(14)[OF example_model_built] by simp
  then obtain l where l: "enc_layers (encoder example_model) = [l]"
    by (cases "enc_layers (encoder example_model)") auto
  from forward_writes_only_attention_scores[where b = example_attention_block
      and \<rho> = "\<lambda>p i. True" and q = example_features and k = example_features
      and v = example_features and msk = None and z = y0 and b' = b0] a
  have c1: "\<exists>sc. attention_weights example_attention_block (\<lambda>p i. True) example_features
            example_features example_features None = Inr sc
         \<and> b0 = example_attention_block\<lparr>attention_scores := Some sc\<rparr>"
    by blast
  from forward_writes_only_attention_scores[where m = example_model
      and \<rho> = "\<lambda>p i. True" and src = example_tokens and msk = None and y = y1 and m' = m1] e
  obtain ls' where m1: "m1 = example_model\<lparr>encoder := (encoder example_model)\<lparr>enc_layers := ls'\<rparr>\<rparr>"
    and ls': "list_all2 (\<lambda>l l'. \<exists>\<rho>' x' sc.
                 attention_weights (eb_self_attention_block l) \<rho>' x' x' x' None = Inr sc
                 \<and> l' = l\<lparr>eb_self_attention_block :=
                            (eb_self_attention_block l)\<lparr>attention_scores := Some sc\<rparr>\<rparr>)
               (enc_layers (encoder example_model)) ls'"
    by blast
  from ls' obtain sc where "ls' = [l\<lparr>eb_self_attention_block :=
      (eb_self_attention_block l)\<lparr>attention_scores := Some sc\<rparr>\<rparr>]"
    unfolding l by (auto simp: list_all2_Cons1)
  then have c3: "\<exists>sc. enc_layers (encoder m1)
         = [(hd (enc_layers (encoder example_model)))\<lparr>eb_self_attention_block :=
              example_attention_block\<lparr>attention_scores := Some sc\<rparr>\<rparr>]"
    by (auto simp: m1 l example_attention_block_def)
  have c2: "decoder m1 = decoder example_model" by (simp add: m1)
  from forward_writes_only_attention_scores[where m = example_model
      and \<rho> = "\<lambda>p i. True" and eo = example_features and sm = None and tgt = example_tokens
      and tm = None and y = y2 and m' = m2] d
  obtain ds' where "m2 = example_model\<lparr>decoder := (decoder example_model)\<lparr>dec_layers := ds'\<rparr>\<rparr>"
    by blast
  then have c4: "encoder m2 = encoder example_model" by simp
  from forward_writes_only_attention_scores[where m = example_model and x = example_features
      and y = y3 and m' = example_model] p
  have c5: "snd (projr (project example_model example_features)) = example_model"
    by simp
  show ?thesis
    using c1 c2 c3 c4 c5 by (simp add: a e d)
qed

section \<open>The output does not depend on the attention cache or, in evaluation mode, on the random draws\<close>

lemma Dropout_forward3_eval [simp]: "\<not> training d \<Longrightarrow> Dropout_forward3 d \<rho> x = x"
  by (simp add: Dropout_forward3_def)

lemma out_thenE_cong:
  assumes "map_sum id fst r = map_sum id fst r'"
    and "\<And>x s s'. map_sum id fst (f (x, s)) = map_sum id fst (g (x, s'))"
  shows "map_sum id fst (thenE r f) = map_sum id fst (thenE r' g)"
  using assms by (cases r; cases r') auto

lemma out_thenE_same:
  assumes "\<And>a. map_sum id fst (f a) = map_sum id fst (g a)"
  shows "map_sum id fst (thenE r f) = map_sum id fst (thenE r g)"
  using assms by (cases r) auto

lemma mha_forget_fields:
  assumes "mha_forget a = mha_forget b"
  shows "h a = h b" "d_k a = d_k b" "w_q a = w_q b" "w_k a = w_k b" "w_v a = w_v b"
    "w_o a = w_o b" "mha_dropout a = mha_dropout b"
proof -
  have "h (mha_forget a) = h (mha_forget b)" "d_k (mha_forget a) = d_k (mha_forget b)"
    "w_q (mha_forget a) = w_q (mha_forget b)" "w_k (mha_forget a) = w_k (mha_forget b)"
    "w_v (mha_forget a) = w_v (mha_forget b)" "w_o (mha_forget a) = w_o (mha_forget b)"
    "mha_dropout (mha_forget a) = mha_dropout (mha_forget b)"
    by (simp_all only: assms)
  then show "h a = h b" "d_k a = d_k b" "w_q a = w_q b" "w_k a = w_k b" "w_v a = w_v b"
    "w_o a = w_o b" "mha_dropout a = mha_dropout b"
    by (simp_all add: mha_forget_def)
qed

lemma MultiHeadAttentionBlock_forward_out:
  assumes "mha_forget a = mha_forget b"
  shows "map_sum id fst (MultiHeadAttentionBlock_forward a \<rho> q k v msk)
       = map_sum id fst (MultiHeadAttentionBlock_forward b \<rho>' q k v msk)"
  unfolding MultiHeadAttentionBlock_forward_def mha_forget_fields[OF assms]
    attention_dropout_irrelevant[of _ _ _ _ _ _ "\<lambda>p i. True"]
  by (intro out_thenE_same; clarsimp; intro out_thenE_same; simp)

lemma FeedForwardBlock_forward_eval:
  "\<not> training (ff_dropout f) \<Longrightarrow>
     FeedForwardBlock_forward f \<rho> x = FeedForwardBlock_forward f \<rho>' x"
  by (simp add: FeedForwardBlock_forward_def)

lemma ResidualConnection_forward_out:
  assumes "\<And>t. map_sum id fst (f t) = map_sum id fst (g t)"
    and "\<not> training (rc_dropout self)"
  shows "map_sum id fst (ResidualConnection_forward self \<rho> x f)
       = map_sum id fst (ResidualConnection_forward self \<rho>' x g)"
  unfolding ResidualConnection_forward_def
  by (rule out_thenE_cong[OF assms(1)]) (auto simp: assms(2) intro!: out_thenE_same)


lemma eb_forget_fields:
  assumes "eb_forget a = eb_forget b"
  shows "residual_connections a = residual_connections b"
    "eb_feed_forward_block a = eb_feed_forward_block b"
    "mha_forget (eb_self_attention_block a) = mha_forget (eb_self_attention_block b)"
proof -
  have "residual_connections (eb_forget a) = residual_connections (eb_forget b)"
    "eb_feed_forward_block (eb_forget a) = eb_feed_forward_block (eb_forget b)"
    "eb_self_attention_block (eb_forget a) = eb_self_attention_block (eb_forget b)"
    by (simp_all only: assms)
  then show "residual_connections a = residual_connections b"
    "eb_feed_forward_block a = eb_feed_forward_block b"
    "mha_forget (eb_self_attention_block a) = mha_forget (eb_self_attention_block b)"
    by (simp_all add: eb_forget_def)
qed

lemma getitem_Inr_mem: "getitem xs i = Inr x \<Longrightarrow> x \<in> set xs"
  by (auto simp: getitem_def split: if_splits)

lemma EncoderBlock_forward_out:
  assumes f: "eb_forget a = eb_forget b" and e: "eb_evaluating a"
  shows "map_sum id fst (EncoderBlock_forward a \<rho> x msk)
       = map_sum id fst (EncoderBlock_forward b \<rho>' x msk)"
proof -
  note fl = eb_forget_fields[OF f]
  from e have ff: "\<not> training (ff_dropout (eb_feed_forward_block b))"
    and rc: "\<And>r. r \<in> set (residual_connections b) \<Longrightarrow> \<not> training (rc_dropout r)"
    by (simp_all add: eb_evaluating_def fl list_all_iff)
  show ?thesis
    unfolding EncoderBlock_forward_def fl(1,2)
  proof (cases "getitem (residual_connections b) 0")
    case (Inl err)
    then show "map_sum id fst
        (thenE (getitem (residual_connections b) 0) (\<lambda>rc0.
         thenE (ResidualConnection_forward rc0 (sub 0 \<rho>) x
                 (\<lambda>x. MultiHeadAttentionBlock_forward (eb_self_attention_block a) (sub 1 \<rho>)
                         x x x msk)) (\<lambda>(x, sab).
         thenE (getitem (residual_connections b) 1) (\<lambda>rc1.
         thenE (ResidualConnection_forward rc1 (sub 2 \<rho>) x
                 (\<lambda>x. thenE (FeedForwardBlock_forward (eb_feed_forward_block b) (sub 3 \<rho>) x)
                         (\<lambda>y. Inr (y, ())))) (\<lambda>(x, u).
         Inr (x, a\<lparr>eb_self_attention_block := sab\<rparr>))))))
      = map_sum id fst
        (thenE (getitem (residual_connections b) 0) (\<lambda>rc0.
         thenE (ResidualConnection_forward rc0 (sub 0 \<rho>') x
                 (\<lambda>x. MultiHeadAttentionBlock_forward (eb_self_attention_block b) (sub 1 \<rho>')
                         x x x msk)) (\<lambda>(x, sab).
         thenE (getitem (residual_connections b) 1) (\<lambda>rc1.
         thenE (ResidualConnection_forward rc1 (sub 2 \<rho>') x
                 (\<lambda>x. thenE (FeedForwardBlock_forward (eb_feed_forward_block b) (sub 3 \<rho>') x)
                         (\<lambda>y. Inr (y, ())))) (\<lambda>(x, u).
         Inr (x, b\<lparr>eb_self_attention_block := sab\<rparr>))))))"
      by simp
  next
    case (Inr rc0)
    have t0: "\<not> training (rc_dropout rc0)" using rc getitem_Inr_mem[OF Inr] by blast
    have step1: "map_sum id fst (ResidualConnection_forward rc0 (sub 0 \<rho>) x
          (\<lambda>x. MultiHeadAttentionBlock_forward (eb_self_attention_block a) (sub 1 \<rho>) x x x msk))
        = map_sum id fst (ResidualConnection_forward rc0 (sub 0 \<rho>') x
          (\<lambda>x. MultiHeadAttentionBlock_forward (eb_self_attention_block b) (sub 1 \<rho>') x x x msk))"
      by (rule ResidualConnection_forward_out[OF _ t0])
         (rule MultiHeadAttentionBlock_forward_out[OF fl(3)])
    have step2: "map_sum id fst
         (thenE (getitem (residual_connections b) 1) (\<lambda>rc1.
          thenE (ResidualConnection_forward rc1 (sub 2 \<rho>) x1
                 (\<lambda>x. thenE (FeedForwardBlock_forward (eb_feed_forward_block b) (sub 3 \<rho>) x)
                         (\<lambda>y. Inr (y, ())))) (\<lambda>(x, u).
          Inr (x, a\<lparr>eb_self_attention_block := sa\<rparr>))))
       = map_sum id fst
         (thenE (getitem (residual_connections b) 1) (\<lambda>rc1.
          thenE (ResidualConnection_forward rc1 (sub 2 \<rho>') x1
                 (\<lambda>x. thenE (FeedForwardBlock_forward (eb_feed_forward_block b) (sub 3 \<rho>') x)
                         (\<lambda>y. Inr (y, ())))) (\<lambda>(x, u).
          Inr (x, b\<lparr>eb_self_attention_block := sb\<rparr>))))" for x1 sa sb
    proof (cases "getitem (residual_connections b) 1")
      case (Inl err)
      then show ?thesis by simp
    next
      case rc1: (Inr rc1)
      have t1: "\<not> training (rc_dropout rc1)" using rc getitem_Inr_mem[OF rc1] by blast
      have "map_sum id fst (ResidualConnection_forward rc1 (sub 2 \<rho>) x1
                 (\<lambda>x. thenE (FeedForwardBlock_forward (eb_feed_forward_block b) (sub 3 \<rho>) x)
                         (\<lambda>y. Inr (y, ()))))
          = map_sum id fst (ResidualConnection_forward rc1 (sub 2 \<rho>') x1
                 (\<lambda>x. thenE (FeedForwardBlock_forward (eb_feed_forward_block b) (sub 3 \<rho>') x)
                         (\<lambda>y. Inr (y, ()))))"
        by (rule ResidualConnection_forward_out[OF _ t1])
           (simp add: FeedForwardBlock_forward_eval[OF ff, of "sub 3 \<rho>" _ "sub 3 \<rho>'"])
      then show ?thesis
        unfolding rc1 thenE_Inr by (rule out_thenE_cong) simp
    qed
    show "map_sum id fst
        (thenE (getitem (residual_connections b) 0) (\<lambda>rc0.
         thenE (ResidualConnection_forward rc0 (sub 0 \<rho>) x
                 (\<lambda>x. MultiHeadAttentionBlock_forward (eb_self_attention_block a) (sub 1 \<rho>)
                         x x x msk)) (\<lambda>(x, sab).
         thenE (getitem (residual_connections b) 1) (\<lambda>rc1.
         thenE (ResidualConnection_forward rc1 (sub 2 \<rho>) x
                 (\<lambda>x. thenE (FeedForwardBlock_forward (eb_feed_forward_block b) (sub 3 \<rho>) x)
                         (\<lambda>y. Inr (y, ())))) (\<lambda>(x, u).
         Inr (x, a\<lparr>eb_self_attention_block := sab\<rparr>))))))
      = map_sum id fst
        (thenE (getitem (residual_connections b) 0) (\<lambda>rc0.
         thenE (ResidualConnection_forward rc0 (sub 0 \<rho>') x
                 (\<lambda>x. MultiHeadAttentionBlock_forward (eb_self_attention_block b) (sub 1 \<rho>')
                         x x x msk)) (\<lambda>(x, sab).
         thenE (getitem (residual_connections b) 1) (\<lambda>rc1.
         thenE (ResidualConnection_forward rc1 (sub 2 \<rho>') x
                 (\<lambda>x. thenE (FeedForwardBlock_forward (eb_feed_forward_block b) (sub 3 \<rho>') x)
                         (\<lambda>y. Inr (y, ())))) (\<lambda>(x, u).
         Inr (x, b\<lparr>eb_self_attention_block := sab\<rparr>))))))"
      unfolding Inr thenE_Inr
      by (rule out_thenE_cong[OF step1]) (simp only: prod.case step2)
  qed
qed

lemma Encoder_loop_out:
  assumes "map eb_forget as = map eb_forget bs" and "list_all eb_evaluating as"
  shows "map_sum id fst (Encoder_loop as \<rho> k x msk) = map_sum id fst (Encoder_loop bs \<rho>' k x msk)"
  using assms
proof (induction as arbitrary: bs k x)
  case Nil
  then show ?case by simp
next
  case (Cons a as)
  from Cons.prems(1) obtain b bs' where bs: "bs = b # bs'" and ab: "eb_forget a = eb_forget b"
    and rest: "map eb_forget as = map eb_forget bs'"
    by (cases bs) auto
  from Cons.prems(2) have ea: "eb_evaluating a" and eas: "list_all eb_evaluating as" by simp_all
  have tail: "map_sum id fst (Encoder_loop as \<rho> (Suc k) x1 msk)
      = map_sum id fst (Encoder_loop bs' \<rho>' (Suc k) x1 msk)" for x1
    by (rule Cons.IH[OF rest eas])
  show ?case
    unfolding bs Encoder_loop.simps
    by (rule out_thenE_cong[OF EncoderBlock_forward_out[OF ab ea]])
       (simp only: prod.case, rule out_thenE_cong[OF tail], simp)
qed

lemma forget_scores_fields:
  assumes "forget_scores a = forget_scores b"
  shows "src_embed a = src_embed b" "src_pos a = src_pos b" "tgt_embed a = tgt_embed b"
    "tgt_pos a = tgt_pos b" "projection_layer a = projection_layer b"
    "enc_norm (encoder a) = enc_norm (encoder b)"
    "map eb_forget (enc_layers (encoder a)) = map eb_forget (enc_layers (encoder b))"
proof -
  have "src_embed (forget_scores a) = src_embed (forget_scores b)"
    "src_pos (forget_scores a) = src_pos (forget_scores b)"
    "tgt_embed (forget_scores a) = tgt_embed (forget_scores b)"
    "tgt_pos (forget_scores a) = tgt_pos (forget_scores b)"
    "projection_layer (forget_scores a) = projection_layer (forget_scores b)"
    "enc_norm (encoder (forget_scores a)) = enc_norm (encoder (forget_scores b))"
    "enc_layers (encoder (forget_scores a)) = enc_layers (encoder (forget_scores b))"
    by (simp_all only: assms)
  then show "src_embed a = src_embed b" "src_pos a = src_pos b" "tgt_embed a = tgt_embed b"
    "tgt_pos a = tgt_pos b" "projection_layer a = projection_layer b"
    "enc_norm (encoder a) = enc_norm (encoder b)"
    "map eb_forget (enc_layers (encoder a)) = map eb_forget (enc_layers (encoder b))"
    by (simp_all add: forget_scores_def)
qed

lemma PositionalEncoding_forward_eval:
  "\<not> training (pe_dropout self) \<Longrightarrow>
     PositionalEncoding_forward self \<rho> x = PositionalEncoding_forward self \<rho>' x"
  by (simp add: PositionalEncoding_forward_def)

lemma encode_out:
  assumes f: "forget_scores a = forget_scores b" and e: "evaluating a"
  shows "map_sum id fst (encode a \<rho> src msk) = map_sum id fst (encode b \<rho>' src msk)"
proof -
  note fl = forget_scores_fields[OF f]
  from e have pd: "\<not> training (pe_dropout (src_pos b))"
    and ev: "list_all eb_evaluating (enc_layers (encoder a))"
    by (simp_all add: evaluating_def fl)
  have loop: "map_sum id fst (Encoder_loop (enc_layers (encoder a)) (sub 1 \<rho>) 0 x1 msk)
      = map_sum id fst (Encoder_loop (enc_layers (encoder b)) (sub 1 \<rho>') 0 x1 msk)" for x1
    by (rule Encoder_loop_out[OF fl(7) ev])
  have enc: "map_sum id fst (Encoder_forward (encoder a) (sub 1 \<rho>) x1 msk)
      = map_sum id fst (Encoder_forward (encoder b) (sub 1 \<rho>') x1 msk)" for x1
    unfolding Encoder_forward_def
    by (rule out_thenE_cong[OF loop]) (simp add: fl(6))
  show ?thesis
    unfolding encode_def fl(1,2) PositionalEncoding_forward_eval[OF pd, of "sub 0 \<rho>" _ "sub 0 \<rho>'"]
    by (intro out_thenE_same out_thenE_cong[OF enc]) simp
qed

lemma wf_eb_eval [simp]: "wf_eb D n (EncoderBlock_eval b) = wf_eb D n b"
  by (simp add: wf_eb_def wf_mha_def wf_ffb_def EncoderBlock_eval_def
      MultiHeadAttentionBlock_eval_def FeedForwardBlock_eval_def)

lemma eb_evaluating_eval [simp]: "eb_evaluating (EncoderBlock_eval b)"
  by (simp add: eb_evaluating_def EncoderBlock_eval_def FeedForwardBlock_eval_def
      ResidualConnection_eval_def Dropout_eval_def list_all_iff)

lemma db_evaluating_eval [simp]: "db_evaluating (DecoderBlock_eval b)"
  by (simp add: db_evaluating_def DecoderBlock_eval_def FeedForwardBlock_eval_def
      ResidualConnection_eval_def Dropout_eval_def list_all_iff)

lemma evaluating_Transformer_eval: "evaluating (Transformer_eval m)"
  by (simp add: evaluating_def Transformer_eval_def PositionalEncoding_eval_def Dropout_eval_def
      list_all_iff)

lemma wf_source_Transformer_eval:
  "wf_source (Transformer_eval m) v len D n = wf_source m v len D n"
  by (simp add: wf_source_def Transformer_eval_def PositionalEncoding_eval_def list_all_iff)

lemma out_eq_InrD:
  "map_sum id fst r = Inr y \<Longrightarrow> \<exists>s. r = Inr (y, s)"
  by (cases r) auto

lemma encode_twice:
  assumes wf: "wf_source m sv ssl D n" and ev: "evaluating m"
    and B: "0 < i0 src" and S: "int (i1 src) \<le> ssl"
    and tok: "tokens_below src sv" and msk: "mask_fits msk (i0 src) (nat n) (i1 src) (i1 src)"
  shows "\<exists>y m1 m2. encode m \<rho>1 src msk = Inr (y, m1) \<and> encode m1 \<rho>2 src msk = Inr (y, m2)
           \<and> shape3 y = (i0 src, i1 src, D)"
proof -
  from encode_wf_Inr[OF wf B S tok msk, of \<rho>1] obtain y m1 where
    e1: "encode m \<rho>1 src msk = Inr (y, m1)" and sy: "shape3 y = (i0 src, i1 src, D)"
    and f: "forget_scores m1 = forget_scores m"
    by blast
  have "map_sum id fst (encode m \<rho>1 src msk) = map_sum id fst (encode m1 \<rho>2 src msk)"
    by (rule encode_out[OF f[symmetric] ev])
  then have "map_sum id fst (encode m1 \<rho>2 src msk) = Inr y" by (simp add: e1)
  from out_eq_InrD[OF this] obtain m2 where "encode m1 \<rho>2 src msk = Inr (y, m2)" ..
  with e1 sy show ?thesis by blast
qed

text \<open>
  Claim C9. In evaluation mode \<^verbatim>\<open>encode\<close> is deterministic. For the model built with
  \<open>d_model = 8\<close>, \<open>h = 2\<close> and source length 4, with any parameter values, put in
  evaluation mode: two successive calls on the same token tensor of shape \<open>(1, 4)\<close> and
  the same mask both return, with the same output, of shape \<open>(1, 4, 8)\<close>, whatever the
  random generator yields. In general, two calls on equal inputs, on models in evaluation
  mode that differ at most in the attention weights kept from earlier calls, give equal
  outputs or the same exception.
\<close>

theorem encode_deterministic_in_evaluation_mode:
  assumes "build_transformer mem g sv tv 4 tsl 8 N 2 q f = Inr m0"
    and "i0 src = 1" and "i1 src = 4" and "tokens_below src sv" and "mask_fits msk 1 2 4 4"
  shows "(\<exists>y m1 m2. encode (Transformer_eval m0) \<rho> src msk = Inr (y, m1)
             \<and> encode m1 \<rho>' src msk = Inr (y, m2) \<and> shape3 y = (1, 4, 8))
       \<and> (evaluating m \<and> forget_scores m = forget_scores m' \<longrightarrow>
            map_sum id fst (encode m \<rho> src' msk') = map_sum id fst (encode m' \<rho>' src' msk'))"
proof
  have wf: "wf_source (Transformer_eval m0) sv 4 (nat 8) 2"
    unfolding wf_source_Transformer_eval by (rule build_transformer_wf(1)[OF assms(1)]) simp
  from encode_twice[OF wf evaluating_Transformer_eval, of src msk \<rho> \<rho>'] assms(2-5)
  show "\<exists>y m1 m2. encode (Transformer_eval m0) \<rho> src msk = Inr (y, m1)
             \<and> encode m1 \<rho>' src msk = Inr (y, m2) \<and> shape3 y = (1, 4, 8)"
    by simp
next
  show "evaluating m \<and> forget_scores m = forget_scores m' \<longrightarrow>
            map_sum id fst (encode m \<rho> src' msk') = map_sum id fst (encode m' \<rho>' src' msk')"
    using encode_out by blast
qed


theorem encode_deterministic_in_evaluation_mode_witness:
  "(\<exists>y m1 m2. encode (Transformer_eval example_model) (\<lambda>p i. True) example_tokens None
                  = Inr (y, m1)
       \<and> encode m1 (\<lambda>p i. False) example_tokens None = Inr (y, m2) \<and> shape3 y = (1, 4, 8))
   \<and> map_sum id fst (encode (Transformer_eval example_model) (\<lambda>p i. True) example_tokens None)
     = map_sum id fst
         (encode (snd (projr (encode (Transformer_eval example_model) (\<lambda>p i. True)
                                example_tokens None)))
            (\<lambda>p i. False) example_tokens None)"
proof -
  let ?m = "Transformer_eval example_model"
  let ?m1 = "snd (projr (encode ?m (\<lambda>p i. True) example_tokens None))"
  note t = encode_deterministic_in_evaluation_mode[OF example_model_built,
      where src = example_tokens and msk = None and \<rho> = "\<lambda>p i. True" and \<rho>' = "\<lambda>p i. False"
      and m = ?m and m' = ?m1 and src' = example_tokens and msk' = None]
  have h: "i0 example_tokens = 1" "i1 example_tokens = 4" "tokens_below example_tokens 10"
    "mask_fits None 1 2 4 4"
    by simp_all
  from t[OF h] obtain y m1 where e: "encode ?m (\<lambda>p i. True) example_tokens None = Inr (y, m1)"
    by blast
  then have "forget_scores ?m = forget_scores ?m1"
    using encode_frame[OF e] by simp
  with t[OF h] evaluating_Transformer_eval[of example_model] show ?thesis by blast
qed

section \<open>The sequence length that the positional encoding accepts\<close>

lemma bidx_Suc_0 [simp]: "bidx (Suc 0) i = 0"
  by (simp add: bidx_def)

lemma add3_slice_Inr:
  assumes p: "shape3 t = (1, L, D)" and x: "shape3 x = (B, S, D)" and "S \<le> L"
  shows "\<exists>z. add3 x (slice_dim1 t (d1 x)) = Inr z \<and> shape3 z = (B, S, D)
           \<and> (\<forall>i<B. \<forall>j<S. \<forall>k<D. at3 z i j k = at3 x i j k + at3 t 0 j k)"
proof -
  have "min S L = S" using assms(3) by simp
  then show ?thesis
    using shape3_D[OF p] shape3_D[OF x]
    by (simp add: add3_def binop3_def slice_dim1_def shape3_def)
qed

lemma add3_slice_isl:
  assumes p: "shape3 t = (1, L, D)" and x: "shape3 x = (B, S, D)" and "L < S"
  shows "isl (add3 x (slice_dim1 t (d1 x))) \<longleftrightarrow> L \<noteq> 1 \<and> \<not> (L = 0 \<and> S = 1)"
proof -
  have "min S L = L" using assms(3) by simp
  then show ?thesis
    using shape3_D[OF p] shape3_D[OF x] assms(3)
    by (auto simp: add3_def binop3_def slice_dim1_def bdim_def split: option.splits)
qed

lemma isl_thenE_Inr: "isl (thenE r (\<lambda>x. Inr (f x))) \<longleftrightarrow> isl r"
  by (cases r) simp_all

lemma InputEmbedding_forward_shape:
  assumes "InputEmbedding_forward e x = Inr y"
  shows "shape3 y = (i0 x, i1 x, embedding_dim (embedding e))"
  using assms
  by (auto simp: InputEmbedding_forward_def Embedding_forward_def thenE_eq_Inr shape3_def
      split: if_splits)

lemma encode_too_long:
  assumes ps: "shape3 (pe (src_pos m)) = (1, L, embedding_dim (embedding (src_embed m)))"
    and "L < i1 src" and "2 \<le> L"
  shows "isl (encode m \<rho> src msk)"
proof (cases "InputEmbedding_forward (src_embed m) src")
  case (Inl e)
  then show ?thesis by (simp add: encode_def)
next
  case (Inr x0)
  from add3_slice_isl[OF ps InputEmbedding_forward_shape[OF Inr] assms(2)] assms(3)
  have "isl (add3 x0 (slice_dim1 (pe (src_pos m)) (d1 x0)))" by simp
  then have "isl (PositionalEncoding_forward (src_pos m) (sub 0 \<rho>) x0)"
    by (simp add: PositionalEncoding_forward_def isl_thenE_Inr)
  then show ?thesis
    by (simp add: encode_def Inr isl_thenE)
qed

lemma decode_too_long:
  assumes ps: "shape3 (pe (tgt_pos m)) = (1, L, embedding_dim (embedding (tgt_embed m)))"
    and "L < i1 tgt" and "2 \<le> L"
  shows "isl (decode m \<rho> eo sm tgt tm)"
proof (cases "InputEmbedding_forward (tgt_embed m) tgt")
  case (Inl e)
  then show ?thesis by (simp add: decode_def)
next
  case (Inr x0)
  from add3_slice_isl[OF ps InputEmbedding_forward_shape[OF Inr] assms(2)] assms(3)
  have "isl (add3 x0 (slice_dim1 (pe (tgt_pos m)) (d1 x0)))" by simp
  then have "isl (PositionalEncoding_forward (tgt_pos m) (sub 2 \<rho>) x0)"
    by (simp add: PositionalEncoding_forward_def isl_thenE_Inr)
  then show ?thesis
    by (simp add: decode_def Inr isl_thenE)
qed

text \<open>
  Claim C10, amended. For a model that \<^verbatim>\<open>build_transformer\<close> returned and an input of
  feature dimension \<open>d_model\<close>: when the sequence dimension of the input is at most the
  \<open>seq_len\<close> fixed at construction, \<^verbatim>\<open>PositionalEncoding.forward\<close> returns the dropout of
  the input plus the first rows of the table; when it exceeds \<open>seq_len\<close>, the addition
  fails exactly when \<open>seq_len\<close> is not 1 and not (\<open>seq_len = 0\<close> with an input of sequence
  length 1), the cases in which the library broadcasts the slice. With a maximum length
  of at least 2, \<^verbatim>\<open>encode\<close> and \<^verbatim>\<open>decode\<close> fail on every longer sequence.
\<close>

theorem positional_encoding_length_precondition:
  assumes "build_transformer mem g sv tv ssl tsl d N n q f = Inr m"
    and "shape3 x = (B, S, nat d)"
  shows "(int S \<le> ssl \<longrightarrow>
            (\<exists>z. PositionalEncoding_forward (src_pos m) \<rho> x
                    = Inr (Dropout_forward3 (pe_dropout (src_pos m)) \<rho> z)
                \<and> shape3 z = (B, S, nat d)
                \<and> (\<forall>i<B. \<forall>j<S. \<forall>k<nat d.
                      at3 z i j k = at3 x i j k + at3 (pe (src_pos m)) 0 j k)))
       \<and> (ssl < int S \<longrightarrow>
            (isl (PositionalEncoding_forward (src_pos m) \<rho> x)
               \<longleftrightarrow> ssl \<noteq> 1 \<and> \<not> (ssl = 0 \<and> S = 1)))
       \<and> (ssl < int (i1 src) \<and> 2 \<le> ssl \<longrightarrow> isl (encode m \<rho> src msk))
       \<and> (tsl < int (i1 tgt) \<and> 2 \<le> tsl \<longrightarrow> isl (decode m \<rho> eo sm tgt tm))"
proof (intro conjI impI)
  note b = build_transformer_Inr[OF assms(1)]
  {
    assume "int S \<le> ssl"
    then have "S \<le> nat ssl" by simp
    from add3_slice_Inr[OF b(12) assms(2) this]
    show "\<exists>z. PositionalEncoding_forward (src_pos m) \<rho> x
                    = Inr (Dropout_forward3 (pe_dropout (src_pos m)) \<rho> z)
                \<and> shape3 z = (B, S, nat d)
                \<and> (\<forall>i<B. \<forall>j<S. \<forall>k<nat d.
                      at3 z i j k = at3 x i j k + at3 (pe (src_pos m)) 0 j k)"
      by (auto simp: PositionalEncoding_forward_def)
  }
  {
    assume "ssl < int S"
    then have "nat ssl < S" using b(4) by simp
    from add3_slice_isl[OF b(12) assms(2) this] b(4)
    show "isl (PositionalEncoding_forward (src_pos m) \<rho> x)
               \<longleftrightarrow> ssl \<noteq> 1 \<and> \<not> (ssl = 0 \<and> S = 1)"
      by (auto simp: PositionalEncoding_forward_def isl_thenE_Inr)
  }
  {
    assume a: "ssl < int (i1 src) \<and> 2 \<le> ssl"
    have "shape3 (pe (src_pos m)) = (1, nat ssl, embedding_dim (embedding (src_embed m)))"
      by (simp add: b(12) b(8))
    moreover have "nat ssl < i1 src" "2 \<le> nat ssl" using a by linarith+
    ultimately show "isl (encode m \<rho> src msk)" by (rule encode_too_long)
  }
  {
    assume a: "tsl < int (i1 tgt) \<and> 2 \<le> tsl"
    have "shape3 (pe (tgt_pos m)) = (1, nat tsl, embedding_dim (embedding (tgt_embed m)))"
      by (simp add: b(13) b(11))
    moreover have "nat tsl < i1 tgt" "2 \<le> nat tsl" using a by linarith+
    ultimately show "isl (decode m \<rho> eo sm tgt tm)" by (rule decode_too_long)
  }
qed


lemma short_model_built:
  "build_transformer small_tensors (\<lambda>p i j. 1) 10 10 1 1 8 1 2 (1 / 10) 16 = Inr short_model"
proof -
  have "\<exists>m. build_transformer small_tensors (\<lambda>p i j. 1) 10 10 1 1 8 1 2 (1 / 10) 16 = Inr m"
    by (rule build_transformer_succeeds[where K = 4096])
       (simp_all add: allocates_small_tensors)
  then show ?thesis unfolding short_model_def by (rule Inr_projr)
qed

lemma PositionalEncoding_forward_broadcast:
  assumes p: "shape3 (pe self) = (1, 1, D)" and x: "shape3 x = (B, S, D)"
  shows "\<exists>y. PositionalEncoding_forward self \<rho> x = Inr y \<and> shape3 y = (B, S, D)"
  using shape3_D[OF p] shape3_D[OF x]
  by (auto simp: PositionalEncoding_forward_def add3_def binop3_def slice_dim1_def bdim_def
      shape3_def Dropout_forward3_def)

text \<open>
  The claim as stated fails: a model built with maximum source length 1 accepts a
  sequence of length 4, in \<^verbatim>\<open>PositionalEncoding.forward\<close> and in \<^verbatim>\<open>encode\<close>: the slice
  of length 1 is broadcast along the sequence dimension.
\<close>

theorem longer_sequence_accepted_counterexample:
  "\<not> isl (PositionalEncoding_forward (src_pos short_model) (\<lambda>p i. True) example_features)
   \<and> \<not> isl (encode short_model (\<lambda>p i. True) example_tokens None)
   \<and> shape3 (pe (src_pos short_model)) = (1, 1, 8)
   \<and> d1 example_features = 4 \<and> i1 example_tokens = 4"
proof -
  note b = build_transformer_Inr[OF short_model_built]
  have ps: "shape3 (pe (src_pos short_model)) = (1, 1, 8)" using b(12) by simp
  from PositionalEncoding_forward_broadcast[OF ps example_features_shape]
  have 1: "\<not> isl (PositionalEncoding_forward (src_pos short_model) (\<lambda>p i. True)
                    example_features)"
    by (auto simp: not_isl_iff)
  have "tokens_below example_tokens
          (int (num_embeddings (embedding (src_embed short_model))))"
    by (simp add: b(7))
  moreover have "0 \<le> ie_d_model (src_embed short_model)" by (simp add: b(6))
  ultimately obtain x0 where
    x0: "InputEmbedding_forward (src_embed short_model) example_tokens = Inr x0"
    and s0: "shape3 x0 = (1, 4, 8)"
    using InputEmbedding_forward_Inr[of example_tokens "src_embed short_model"]
    by (auto simp: b(8))
  from PositionalEncoding_forward_broadcast[OF ps s0, of "sub 0 (\<lambda>p i. True)"]
  obtain x1 where
    x1: "PositionalEncoding_forward (src_pos short_model) (sub 0 (\<lambda>p i. True)) x0 = Inr x1"
    and s1: "shape3 x1 = (1, 4, 8)" by blast
  have ls: "list_all (wf_eb 8 2) (enc_layers (encoder short_model))"
    using b(16) by simp
  from Encoder_forward_Inr[OF ls s1, of None "sub 1 (\<lambda>p i. True)"]
  obtain y ls' where
    "Encoder_forward (encoder short_model) (sub 1 (\<lambda>p i. True)) x1 None
       = Inr (y, (encoder short_model)\<lparr>enc_layers := ls'\<rparr>)"
    by auto
  then have 2: "\<not> isl (encode short_model (\<lambda>p i. True) example_tokens None)"
    using x0 x1 by (simp add: encode_def)
  show ?thesis
    using 1 2 ps by (simp add: example_features_def)
qed

theorem positional_encoding_length_precondition_witness:
  "(\<exists>z. PositionalEncoding_forward (src_pos example_model) (\<lambda>p i. True) example_features
           = Inr (Dropout_forward3 (pe_dropout (src_pos example_model)) (\<lambda>p i. True) z)
        \<and> shape3 z = (1, 4, 8))
   \<and> isl (PositionalEncoding_forward (src_pos example_model) (\<lambda>p i. True) long_features)
   \<and> isl (encode example_model (\<lambda>p i. True) long_tokens None)
   \<and> isl (decode example_model (\<lambda>p i. True) example_features None long_tokens None)"
proof -
  have l: "shape3 long_features = (1, 5, nat 8)" "i1 long_tokens = 5"
    by (simp_all add: long_features_def long_tokens_def shape3_def)
  have e: "shape3 example_features = (1, 4, nat 8)" by simp
  show ?thesis
    using positional_encoding_length_precondition[OF example_model_built e,
        where \<rho> = "\<lambda>p i. True" and src = long_tokens and tgt = long_tokens and msk = None
        and eo = example_features and sm = None and tm = None]
      positional_encoding_length_precondition[OF example_model_built l(1),
        where \<rho> = "\<lambda>p i. True" and src = long_tokens and tgt = long_tokens and msk = None
        and eo = example_features and sm = None and tm = None]
    by (auto simp: l(2))
qed

end
